theory Spec2Isabelle
  imports Complex_Main
begin

section \<open>Tensors, errors and library operations\<close>

text \<open>
  Tensor entries are modelled as real numbers: floating-point rounding, infinities and NaN
  are outside the model.  A vector is a list, a matrix a list of rows, a batch of
  \<open>3 \<times> 3\<close> lattices a list of matrices.  Every Python exception is a value of \<open>error\<close>.
\<close>

type_synonym vec = "real list"
type_synonym mat = "real list list"
type_synonym edge_index = "nat list \<times> nat list"

datatype error = ValueError | TypeError | AssertionError | NotImplementedError
  | IndexError | KeyError | ZeroDivisionError | AttributeError | RuntimeError

definition ebind :: "error + 'a \<Rightarrow> ('a \<Rightarrow> error + 'b) \<Rightarrow> error + 'b" where
  "ebind m f = (case m of Inl e \<Rightarrow> Inl e | Inr v \<Rightarrow> f v)"

text \<open>Python's \<open>x % 1.\<close> on floats (\<open>torch.remainder\<close>): the floor-modulo by one.\<close>

definition fmod1 :: "real \<Rightarrow> real" where
  "fmod1 x = x - of_int \<lfloor>x\<rfloor>"

text \<open>\<open>xs[idx]\<close> with an index tensor: raises IndexError when an index is out of range.\<close>

definition index_select :: "'a list \<Rightarrow> nat list \<Rightarrow> error + 'a list" where
  "index_select xs idx =
     (if list_all (\<lambda>i. i < length xs) idx then Inr (map (\<lambda>i. xs ! i) idx) else Inl IndexError)"

text \<open>\<open>torch.ones(n, m)\<close>, \<open>torch.block_diag\<close> and \<open>Tensor.nonzero\<close> (row-major order).\<close>

definition ones :: "nat \<Rightarrow> nat \<Rightarrow> mat" where
  "ones n m = replicate n (replicate m 1)"

definition width :: "mat \<Rightarrow> nat" where
  "width A = (case A of [] \<Rightarrow> 0 | r # _ \<Rightarrow> length r)"

fun block_diag :: "mat list \<Rightarrow> mat" where
  "block_diag [] = []"
| "block_diag (B # Bs) =
     map (\<lambda>r. r @ replicate (width (block_diag Bs)) 0) B
     @ map (\<lambda>r. replicate (width B) 0 @ r) (block_diag Bs)"

definition nonzero :: "mat \<Rightarrow> (nat \<times> nat) list" where
  "nonzero A =
     concat (map (\<lambda>i. map (\<lambda>j. (i, j)) (filter (\<lambda>j. A ! i ! j \<noteq> 0) [0..<length (A ! i)]))
                 [0..<length A])"

text \<open>
  \<open>torch_geometric.utils.dense_to_sparse\<close>: the index pairs of the non-zero entries as
  (row indices, column indices), and the entries themselves.
\<close>

definition dense_to_sparse :: "mat \<Rightarrow> edge_index \<times> vec" where
  "dense_to_sparse A =
     (let ix = nonzero A in ((map fst ix, map snd ix), map (\<lambda>(i, j). A ! i ! j) ix))"

section \<open>The backbone \<open>CSPNet\<close>: edge construction\<close>

text \<open>
  The part of a constructed network that \<open>gen_edges\<close> reads.  The cutoff-radius branch
  calls \<open>radius_graph_pbc\<close> and \<open>repeat_blocks\<close> of \<open>dosmatgen.utils.graphs\<close>, which are not
  part of the sources at hand; that whole branch is the parameter \<open>knn_edges\<close>.
\<close>

record edge_builder =
  edge_style :: string
  knn_edges :: "nat list \<Rightarrow> mat \<Rightarrow> mat list \<Rightarrow> nat list \<Rightarrow> error + (edge_index \<times> mat)"

text \<open>The displacement of one edge \<open>(i, j)\<close>: \<open>(x\<^sub>j - x\<^sub>i) % 1\<close>, coordinate by coordinate.\<close>

definition frac_diff_rows :: "mat \<Rightarrow> mat \<Rightarrow> mat" where
  "frac_diff_rows xj xi = map2 (\<lambda>a b. map2 (\<lambda>u v. fmod1 (u - v)) a b) xj xi"

text \<open>
  \<open>CSPNet.gen_edges\<close>.  An edge style other than \<open>'fc'\<close> and \<open>'knn'\<close> falls off the end of
  the Python function, which then returns \<open>None\<close>.
\<close>

definition gen_edges ::
  "'a edge_builder_scheme \<Rightarrow> nat list \<Rightarrow> mat \<Rightarrow> mat list \<Rightarrow> nat list \<Rightarrow> error + (edge_index \<times> mat) option" where
  "gen_edges net num_atoms frac_coords lattices node2graph =
     (if edge_style net = ''fc'' then
        (let lis = map (\<lambda>n. ones n n) num_atoms;
             fc_graph = block_diag lis;
             fc_edges = fst (dense_to_sparse fc_graph)
         in ebind (index_select frac_coords (snd fc_edges)) (\<lambda>xj.
            ebind (index_select frac_coords (fst fc_edges)) (\<lambda>xi.
            Inr (Some (fc_edges, frac_diff_rows xj xi)))))
      else if edge_style net = ''knn'' then
        ebind (knn_edges net num_atoms frac_coords lattices node2graph) (\<lambda>r. Inr (Some r))
      else Inr None)"

text \<open>\<open>edge2graph = node2graph[edges[0]]\<close>, as \<open>CSPNet.forward\<close> computes it.\<close>

definition edge2graph_of :: "nat list \<Rightarrow> edge_index \<Rightarrow> error + nat list" where
  "edge2graph_of node2graph edges = index_select node2graph (fst edges)"

definition fc_net :: edge_builder where
  "fc_net = \<lparr>edge_style = ''fc'', knn_edges = (\<lambda>_ _ _ _. Inl NotImplementedError)\<rparr>"


section \<open>The backbone \<open>CSPNet\<close>: layers\<close>

text \<open>
  A learned module (\<open>nn.Linear\<close>, \<open>nn.Sequential\<close> of linear maps and activations,
  \<open>nn.LayerNorm\<close>) acts on every feature row on its own: it is a function on rows, whatever
  its weights.  Shapes are assumed to fit the layers' dimensions.
\<close>

type_synonym module = "vec \<Rightarrow> vec"

text \<open>
  \<open>SinusoidsEmbedding.forward\<close> with \<open>n_frequencies = nf\<close>: each coordinate is multiplied by
  the frequencies \<open>2\<pi>k\<close>, the products are flattened, and sines are followed by cosines.
\<close>

definition sinusoids_embedding :: "nat \<Rightarrow> mat \<Rightarrow> mat" where
  "sinusoids_embedding nf x =
     map (\<lambda>row. let emb = concat (map (\<lambda>v. map (\<lambda>k. v * (2 * pi * real k)) [0..<nf]) row)
                in map sin emb @ map cos emb) x"

text \<open>
  \<open>torch_geometric.utils.scatter(src, index, dim=0, reduce='mean', dim_size=n)\<close>: row \<open>i\<close> of
  the result is the sum of the rows \<open>src[e]\<close> with \<open>index[e] = i\<close>, divided by their number
  clamped below at one.  A list of rows with no row does not record its column count, so
  the column count \<open>F\<close> of \<open>src\<close> is passed explicitly.
\<close>

definition rows_sum :: "nat \<Rightarrow> mat \<Rightarrow> vec" where
  "rows_sum F rows = foldr (\<lambda>r acc. map2 (+) r acc) rows (replicate F 0)"

definition scatter_mean :: "nat \<Rightarrow> mat \<Rightarrow> nat list \<Rightarrow> nat \<Rightarrow> error + mat" where
  "scatter_mean F src index dim_size =
     (if length index \<noteq> length src \<or> \<not> list_all (\<lambda>i. i < dim_size) index
      then Inl RuntimeError
      else Inr (map (\<lambda>i. let rows = map snd (filter (\<lambda>p. fst p = i) (zip index src));
                             count = max 1 (length rows)
                         in map (\<lambda>s. s / real count) (rows_sum F rows))
                    [0..<dim_size]))"

text \<open>The default \<open>dim_size\<close> of \<open>scatter\<close>: the largest index plus one.\<close>

definition default_dim_size :: "nat list \<Rightarrow> nat" where
  "default_dim_size index = (if index = [] then 0 else Suc (Max (set index)))"

text \<open>Matrix product and the \<open>view\<close>s between a \<open>3 \<times> 3\<close> matrix and its nine entries.\<close>

definition mat_mul :: "mat \<Rightarrow> mat \<Rightarrow> mat" where
  "mat_mul A B = map (\<lambda>r. map (\<lambda>c. sum_list (map2 (*) r c)) (transpose B)) A"

definition view9 :: "mat \<Rightarrow> vec" where
  "view9 L = concat L"

definition view33 :: "vec \<Rightarrow> mat" where
  "view33 v = [take 3 v, take 3 (drop 3 v), take 3 (drop 6 v)]"

record csp_layer =
  cl_hidden_dim :: nat
  cl_dis_emb :: "nat option"
  cl_ln :: bool
  cl_ip :: bool
  edge_mlp :: module
  node_mlp :: module
  layer_norm :: module

text \<open>\<open>CSPLayer.edge_model\<close>.\<close>

definition edge_model ::
  "csp_layer \<Rightarrow> mat \<Rightarrow> mat \<Rightarrow> mat list \<Rightarrow> edge_index \<Rightarrow> nat list \<Rightarrow> mat option \<Rightarrow> error + mat" where
  "edge_model self node_features frac_coords lattices edge_index edge2graph frac_diff =
     ebind (index_select node_features (fst edge_index)) (\<lambda>hi.
     ebind (index_select node_features (snd edge_index)) (\<lambda>hj.
     ebind (case frac_diff of
              None \<Rightarrow>
                ebind (index_select frac_coords (fst edge_index)) (\<lambda>xi.
                ebind (index_select frac_coords (snd edge_index)) (\<lambda>xj.
                Inr (frac_diff_rows xj xi)))
            | Some fd \<Rightarrow> Inr fd) (\<lambda>fd.
     let fd' = (case cl_dis_emb self of None \<Rightarrow> fd | Some nf \<Rightarrow> sinusoids_embedding nf fd);
         lattice_ips = (if cl_ip self then map (\<lambda>L. mat_mul L (transpose L)) lattices
                        else lattices);
         lattice_ips_flatten = map view9 lattice_ips
     in ebind (index_select lattice_ips_flatten edge2graph) (\<lambda>lattice_ips_flatten_edges.
        let edges_input = map2 (@) hi (map2 (@) hj (map2 (@) lattice_ips_flatten_edges fd'))
        in Inr (map (edge_mlp self) edges_input)))))"

text \<open>
  \<open>CSPLayer.node_model\<close>: the edge features are mean-aggregated by \<open>edge_index[0]\<close>, one
  row per atom, and concatenated to the atom's own features.
\<close>

definition node_model :: "csp_layer \<Rightarrow> mat \<Rightarrow> mat \<Rightarrow> edge_index \<Rightarrow> error + mat" where
  "node_model self node_features edge_features edge_index =
     ebind (scatter_mean (cl_hidden_dim self) edge_features (fst edge_index)
              (length node_features)) (\<lambda>agg.
     let agg' = map2 (@) node_features agg
     in Inr (map (node_mlp self) agg'))"

text \<open>\<open>CSPLayer.forward\<close>: the layer's output is added to its input.\<close>

definition csp_layer_forward ::
  "csp_layer \<Rightarrow> mat \<Rightarrow> mat \<Rightarrow> mat list \<Rightarrow> edge_index \<Rightarrow> nat list \<Rightarrow> mat option \<Rightarrow> error + mat" where
  "csp_layer_forward self node_features frac_coords lattices edge_index edge2graph frac_diff =
     (let node_input = node_features;
          node_features' = (if cl_ln self then map (layer_norm self) node_input else node_features)
      in ebind (edge_model self node_features' frac_coords lattices edge_index edge2graph frac_diff)
           (\<lambda>edge_features.
         ebind (node_model self node_features' edge_features edge_index) (\<lambda>node_output.
         Inr (map2 (map2 (+)) node_input node_output))))"

section \<open>The backbone \<open>CSPNet\<close>: construction\<close>

text \<open>
  The atom-type input is a matrix of per-species weights (the "smooth" mode, embedded by a
  linear layer) or a vector of integer species ids (embedded by a table).
\<close>

datatype atom_types = Soft mat | Hard "int list"

definition minus_one :: "atom_types \<Rightarrow> atom_types" where
  "minus_one a = (case a of Soft p \<Rightarrow> Soft (map (map (\<lambda>v. v - 1)) p)
                          | Hard ids \<Rightarrow> Hard (map (\<lambda>i. i - 1) ids))"

text \<open>The constructor's arguments that decide what is built.\<close>

record cspnet_args =
  arg_hidden_dim :: nat
  arg_num_layers :: nat
  arg_act_fn :: string
  arg_dis_emb :: string
  arg_num_freqs :: nat
  arg_edge_style :: string
  arg_ln :: bool
  arg_ip :: bool
  arg_smooth :: bool
  arg_pred_type :: bool
  arg_pred_graph_level :: bool
  arg_pred_node_level :: bool
  arg_pred_dim :: "nat option"
  arg_cfg :: bool
  arg_cfg_prob :: real

text \<open>
  The freshly initialised parameters of every module the constructor may create, as the
  row functions they compute; \<open>w_embedding_table\<close> is the weight of \<open>nn.Embedding\<close>.
\<close>

record weights =
  w_embedding_linear :: module
  w_embedding_table :: "vec list"
  w_atom_latent_emb :: module
  w_edge_mlp :: "nat \<Rightarrow> module"
  w_node_mlp :: "nat \<Rightarrow> module"
  w_layer_norm :: "nat \<Rightarrow> module"
  w_coord_out :: module
  w_lattice_out :: module
  w_final_layer_norm :: module
  w_type_out :: module
  w_graph_out :: module
  w_node_out :: module
  w_y_projection :: module

record cspnet = edge_builder +
  hidden_dim :: nat
  num_layers :: nat
  ln_flag :: bool
  ip :: bool
  smooth :: bool
  pred_type :: bool
  pred_graph_level :: bool
  pred_node_level :: bool
  pred_dim :: "nat option"
  cfg :: bool
  cfg_prob :: real
  node_embedding :: "atom_types \<Rightarrow> error + mat"
  atom_latent_emb :: module
  csp_layers :: "csp_layer list"
  coord_out :: module
  lattice_out :: module
  final_layer_norm :: module
  type_out :: module
  graph_out :: "module option"
  node_out :: "module option"
  y_projection :: "module option"

text \<open>
  \<open>nn.Linear\<close> applied to the atom-type input (smooth mode) and \<open>nn.Embedding\<close> applied to
  it (otherwise); each rejects the other's kind of input, and the table lookup rejects
  an index outside the table.
\<close>

definition embed_linear :: "module \<Rightarrow> atom_types \<Rightarrow> error + mat" where
  "embed_linear f a = (case a of Soft p \<Rightarrow> Inr (map f p) | Hard _ \<Rightarrow> Inl RuntimeError)"

definition embed_table :: "vec list \<Rightarrow> atom_types \<Rightarrow> error + mat" where
  "embed_table tab a =
     (case a of Soft _ \<Rightarrow> Inl RuntimeError
      | Hard ids \<Rightarrow>
          if list_all (\<lambda>i. 0 \<le> i \<and> i < int (length tab)) ids
          then Inr (map (\<lambda>i. tab ! nat i) ids) else Inl IndexError)"

text \<open>
  \<open>CSPNet.__init__\<close> (the field \<open>ln\<close> is \<open>ln_flag\<close> here).  A layer is built from \<open>self.act_fn\<close> and \<open>self.dis_emb\<close>: a
  \<open>dis_emb\<close> that is neither \<open>'sin'\<close> nor \<open>'none'\<close> stays a string, whose \<open>.dim\<close> the layer
  reads (AttributeError); an \<open>act_fn\<close> other than \<open>'silu'\<close> stays a string, which
  \<open>nn.Sequential\<close> refuses (TypeError).  Then comes the check of \<open>pred_dim\<close>; and
  \<open>nn.Linear(None, hidden_dim)\<close> of the guidance projection is a TypeError.
\<close>

definition CSPNet_init ::
  "cspnet_args \<Rightarrow> weights
     \<Rightarrow> (nat list \<Rightarrow> mat \<Rightarrow> mat list \<Rightarrow> nat list \<Rightarrow> error + (edge_index \<times> mat))
     \<Rightarrow> error + cspnet" where
  "CSPNet_init a w knn =
     (if 0 < arg_num_layers a \<and> arg_dis_emb a \<noteq> ''sin'' \<and> arg_dis_emb a \<noteq> ''none''
      then Inl AttributeError
      else if 0 < arg_num_layers a \<and> arg_act_fn a \<noteq> ''silu'' then Inl TypeError
      else if (arg_pred_graph_level a \<or> arg_pred_node_level a) \<and> arg_pred_dim a = None
      then Inl ValueError
      else if arg_cfg a \<and> arg_pred_dim a = None then Inl TypeError
      else Inr \<lparr>
        edge_style = arg_edge_style a,
        knn_edges = knn,
        hidden_dim = arg_hidden_dim a,
        num_layers = arg_num_layers a,
        ln_flag = arg_ln a,
        ip = arg_ip a,
        smooth = arg_smooth a,
        pred_type = arg_pred_type a,
        pred_graph_level = arg_pred_graph_level a,
        pred_node_level = arg_pred_node_level a,
        pred_dim = arg_pred_dim a,
        cfg = arg_cfg a,
        cfg_prob = arg_cfg_prob a,
        node_embedding = (if arg_smooth a then embed_linear (w_embedding_linear w)
                          else embed_table (w_embedding_table w)),
        atom_latent_emb = w_atom_latent_emb w,
        csp_layers = map (\<lambda>i. \<lparr>
            cl_hidden_dim = arg_hidden_dim a,
            cl_dis_emb = (if arg_dis_emb a = ''sin'' then Some (arg_num_freqs a) else None),
            cl_ln = arg_ln a,
            cl_ip = arg_ip a,
            edge_mlp = w_edge_mlp w i,
            node_mlp = w_node_mlp w i,
            layer_norm = w_layer_norm w i\<rparr>) [0..<arg_num_layers a],
        coord_out = w_coord_out w,
        lattice_out = w_lattice_out w,
        final_layer_norm = w_final_layer_norm w,
        type_out = w_type_out w,
        graph_out = (if arg_pred_graph_level a then Some (w_graph_out w) else None),
        node_out = (if arg_pred_node_level a then Some (w_node_out w) else None),
        y_projection = (if arg_cfg a then Some (w_y_projection w) else None)\<rparr>)"


section \<open>The backbone \<open>CSPNet\<close>: the three forward paths\<close>

text \<open>
  \<open>Tensor.repeat_interleave(repeats, dim=0)\<close>: row \<open>b\<close> is repeated \<open>repeats[b]\<close> times; a
  single repeat count serves every row; any other length is a RuntimeError.
\<close>

definition repeat_interleave :: "'a list \<Rightarrow> nat list \<Rightarrow> error + 'a list" where
  "repeat_interleave xs ns =
     (if length ns = length xs then Inr (concat (map2 replicate ns xs))
      else if length ns = 1 then Inr (concat (map (replicate (hd ns)) xs))
      else Inl RuntimeError)"

text \<open>\<open>torch.cat([A, B], dim=1)\<close>: both need the same number of rows.\<close>

definition cat_rows :: "mat \<Rightarrow> mat \<Rightarrow> error + mat" where
  "cat_rows A B = (if length A = length B then Inr (map2 (@) A B) else Inl RuntimeError)"

text \<open>Entry-wise operations on two tensors of one shape; another shape is a RuntimeError.\<close>

definition same_shape :: "mat \<Rightarrow> mat \<Rightarrow> bool" where
  "same_shape A B = (map length A = map length B)"

definition mat_add :: "mat \<Rightarrow> mat \<Rightarrow> error + mat" where
  "mat_add A B = (if same_shape A B then Inr (map2 (map2 (+)) A B) else Inl RuntimeError)"

text \<open>\<open>torch.einsum('bij,bjk->bik', A, B)\<close>: the matrix product, structure by structure.\<close>

definition batch_mat_mul :: "mat list \<Rightarrow> mat list \<Rightarrow> error + mat list" where
  "batch_mat_mul A B =
     (if length A = length B then Inr (map2 mat_mul A B) else Inl RuntimeError)"

text \<open>A head that exists only when its flag was set at construction.\<close>

definition call_module :: "module option \<Rightarrow> mat \<Rightarrow> error + mat" where
  "call_module h X = (case h of None \<Rightarrow> Inl AttributeError | Some f \<Rightarrow> Inr (map f X))"

definition apply_head :: "module option \<Rightarrow> mat \<Rightarrow> error + mat option" where
  "apply_head h X = ebind (call_module h X) (\<lambda>r. Inr (Some r))"

text \<open>
  The loop \<open>for i in range(0, self.num_layers)\<close> over the modules registered under the
  names \<open>csp_layer_i\<close>; here the registry is the list \<open>mods\<close>.
\<close>

fun run_layers ::
  "csp_layer list \<Rightarrow> nat list \<Rightarrow> mat \<Rightarrow> mat \<Rightarrow> mat list \<Rightarrow> edge_index \<Rightarrow> nat list \<Rightarrow> mat option
     \<Rightarrow> error + mat" where
  "run_layers mods [] node_features frac_coords lattices edges edge2graph frac_diff =
     Inr node_features"
| "run_layers mods (i # rest) node_features frac_coords lattices edges edge2graph frac_diff =
     (if i < length mods then
        ebind (csp_layer_forward (mods ! i) node_features frac_coords lattices edges
                 edge2graph frac_diff)
          (\<lambda>nf. run_layers mods rest nf frac_coords lattices edges edge2graph frac_diff)
      else Inl KeyError)"

text \<open>
  The five outputs: coordinate score, lattice score, type score, graph-level and
  node-level prediction (\<open>None\<close> for a head that is switched off).
\<close>

type_synonym outputs = "mat \<times> mat list \<times> mat option \<times> mat option \<times> mat option"

text \<open>\<open>CSPNet.unconditional\<close>.\<close>

definition unconditional ::
  "cspnet \<Rightarrow> mat \<Rightarrow> atom_types \<Rightarrow> mat \<Rightarrow> mat list \<Rightarrow> nat list \<Rightarrow> nat list \<Rightarrow> mat option
     \<Rightarrow> error + outputs" where
  "unconditional self t atom_types frac_coords lattices num_atoms node2graph y =
     ebind (gen_edges self num_atoms frac_coords lattices node2graph) (\<lambda>g.
     case g of None \<Rightarrow> Inl TypeError | Some (edges, frac_diff) \<Rightarrow>
     ebind (index_select node2graph (fst edges)) (\<lambda>edge2graph.
     ebind (if smooth self then node_embedding self atom_types
            else node_embedding self (minus_one atom_types)) (\<lambda>node_features0.
     ebind (repeat_interleave t num_atoms) (\<lambda>t_per_atom.
     let node_features1 = node_features0
     in
     ebind (cat_rows node_features1 t_per_atom) (\<lambda>node_features2.
     let node_features3 = map (atom_latent_emb self) node_features2
     in ebind (run_layers (csp_layers self) [0..<num_layers self] node_features3
                 frac_coords lattices edges edge2graph (Some frac_diff)) (\<lambda>node_features4.
     let node_features5 = (if ln_flag self then map (final_layer_norm self) node_features4
                           else node_features4);
         coord_out' = map (coord_out self) node_features5
     in ebind (if pred_node_level self then apply_head (node_out self) node_features5
               else Inr None) (\<lambda>node_out'.
     ebind (scatter_mean (hidden_dim self) node_features5 node2graph
              (default_dim_size node2graph)) (\<lambda>graph_features.
     ebind (if pred_graph_level self then apply_head (graph_out self) graph_features
            else Inr None) (\<lambda>graph_out'.
     let lattice_out1 = map (\<lambda>g. view33 (lattice_out self g)) graph_features
     in ebind (if ip self then batch_mat_mul lattice_out1 lattices else Inr lattice_out1)
          (\<lambda>lattice_out2.
     let type_out' = (if pred_type self then Some (map (type_out self) node_features5)
                      else None)
     in Inr (coord_out', lattice_out2, type_out', graph_out', node_out')))))))))))"

text \<open>\<open>CSPNet.conditional\<close>: the projected property is always added to the atom features.\<close>

definition conditional ::
  "cspnet \<Rightarrow> mat \<Rightarrow> atom_types \<Rightarrow> mat \<Rightarrow> mat list \<Rightarrow> nat list \<Rightarrow> nat list \<Rightarrow> mat option
     \<Rightarrow> error + outputs" where
  "conditional self t atom_types frac_coords lattices num_atoms node2graph y =
     ebind (gen_edges self num_atoms frac_coords lattices node2graph) (\<lambda>g.
     case g of None \<Rightarrow> Inl TypeError | Some (edges, frac_diff) \<Rightarrow>
     ebind (index_select node2graph (fst edges)) (\<lambda>edge2graph.
     ebind (if smooth self then node_embedding self atom_types
            else node_embedding self (minus_one atom_types)) (\<lambda>node_features0.
     ebind (repeat_interleave t num_atoms) (\<lambda>t_per_atom.
     ebind (case y of None \<Rightarrow> Inl AttributeError
            | Some y' \<Rightarrow>
                ebind (call_module (y_projection self) y') (\<lambda>y_proj.
                mat_add node_features0 y_proj)) (\<lambda>node_features1.
     ebind (cat_rows node_features1 t_per_atom) (\<lambda>node_features2.
     let node_features3 = map (atom_latent_emb self) node_features2
     in ebind (run_layers (csp_layers self) [0..<num_layers self] node_features3
                 frac_coords lattices edges edge2graph (Some frac_diff)) (\<lambda>node_features4.
     let node_features5 = (if ln_flag self then map (final_layer_norm self) node_features4
                           else node_features4);
         coord_out' = map (coord_out self) node_features5
     in ebind (if pred_node_level self then apply_head (node_out self) node_features5
               else Inr None) (\<lambda>node_out'.
     ebind (scatter_mean (hidden_dim self) node_features5 node2graph
              (default_dim_size node2graph)) (\<lambda>graph_features.
     ebind (if pred_graph_level self then apply_head (graph_out self) graph_features
            else Inr None) (\<lambda>graph_out'.
     let lattice_out1 = map (\<lambda>g. view33 (lattice_out self g)) graph_features
     in ebind (if ip self then batch_mat_mul lattice_out1 lattices else Inr lattice_out1)
          (\<lambda>lattice_out2.
     let type_out' = (if pred_type self then Some (map (type_out self) node_features5)
                      else None)
     in Inr (coord_out', lattice_out2, type_out', graph_out', node_out'))))))))))))"

text \<open>
  \<open>CSPNet.forward\<close>.  \<open>u\<close> is the number \<open>torch.rand(1)\<close> draws when classifier-free guidance
  is configured; \<open>uncond\<close> and \<open>cond\<close> are the keyword arguments \<open>unconditional\<close> and
  \<open>conditional\<close>, both \<open>False\<close> by default.
\<close>

definition CSPNet_forward ::
  "cspnet \<Rightarrow> real \<Rightarrow> mat \<Rightarrow> atom_types \<Rightarrow> mat \<Rightarrow> mat list \<Rightarrow> nat list \<Rightarrow> nat list \<Rightarrow> mat option
     \<Rightarrow> bool \<Rightarrow> bool \<Rightarrow> error + outputs" where
  "CSPNet_forward self u t atom_types frac_coords lattices num_atoms node2graph y uncond cond =
     (if uncond then unconditional self t atom_types frac_coords lattices num_atoms node2graph y
      else if cond then conditional self t atom_types frac_coords lattices num_atoms node2graph y
      else
     ebind (gen_edges self num_atoms frac_coords lattices node2graph) (\<lambda>g.
     case g of None \<Rightarrow> Inl TypeError | Some (edges, frac_diff) \<Rightarrow>
     ebind (index_select node2graph (fst edges)) (\<lambda>edge2graph.
     ebind (if smooth self then node_embedding self atom_types
            else node_embedding self (minus_one atom_types)) (\<lambda>node_features0.
     ebind (repeat_interleave t num_atoms) (\<lambda>t_per_atom.
     ebind (if cfg self then
              (let r = (u \<ge> cfg_prob self)
               in if r then
                    (case y of None \<Rightarrow> Inl AttributeError
                     | Some y' \<Rightarrow>
                         ebind (call_module (y_projection self) y') (\<lambda>y_proj.
                         mat_add node_features0 y_proj))
                  else Inr node_features0)
            else Inr node_features0) (\<lambda>node_features1.
     ebind (cat_rows node_features1 t_per_atom) (\<lambda>node_features2.
     let node_features3 = map (atom_latent_emb self) node_features2
     in ebind (run_layers (csp_layers self) [0..<num_layers self] node_features3
                 frac_coords lattices edges edge2graph (Some frac_diff)) (\<lambda>node_features4.
     let node_features5 = (if ln_flag self then map (final_layer_norm self) node_features4
                           else node_features4);
         coord_out' = map (coord_out self) node_features5
     in ebind (if pred_node_level self then apply_head (node_out self) node_features5
               else Inr None) (\<lambda>node_out'.
     ebind (scatter_mean (hidden_dim self) node_features5 node2graph
              (default_dim_size node2graph)) (\<lambda>graph_features.
     ebind (if pred_graph_level self then apply_head (graph_out self) graph_features
            else Inr None) (\<lambda>graph_out'.
     let lattice_out1 = map (\<lambda>g. view33 (lattice_out self g)) graph_features
     in ebind (if ip self then batch_mat_mul lattice_out1 lattices else Inr lattice_out1)
          (\<lambda>lattice_out2.
     let type_out' = (if pred_type self then Some (map (type_out self) node_features5)
                      else None)
     in Inr (coord_out', lattice_out2, type_out', graph_out', node_out')))))))))))))"


section \<open>The diffusion module \<open>CSPProperty\<close>: data\<close>

text \<open>
  The noise schedulers, the constant \<open>MAX_ATOMIC_NUM\<close> and the conversion
  \<open>lattice_params_to_matrix_torch\<close> come from modules that are not among the sources at hand:
  the schedulers are their tables, the other two are fields of the module.  The random
  numbers a method draws are arguments of its model.  Division by zero and the root of a
  negative number give \<open>inf\<close> and \<open>NaN\<close> in the program and are not modelled.
\<close>

record beta_scheduler =
  timesteps :: nat
  betas :: "real list"
  alphas :: "real list"
  alphas_cumprod :: "real list"
  beta_sigmas :: "real list"

record sigma_scheduler =
  sigma_begin :: real
  sigmas :: "real list"
  sigmas_norm :: "real list"

text \<open>
  The decoder of a diffusion module: its two prediction-level flags, and its call on
  (time embedding, atom types, fractional coordinates, lattices, atom counts, structure
  index of every atom).
\<close>

record decoder_obj =
  dec_pred_graph_level :: bool
  dec_pred_node_level :: bool
  dec_call :: "mat \<Rightarrow> mat \<Rightarrow> mat \<Rightarrow> mat list \<Rightarrow> nat list \<Rightarrow> nat list \<Rightarrow> error + outputs"

text \<open>A backbone of this file as a decoder (\<open>u\<close>: the backbone's one random draw).\<close>

definition decoder_of :: "cspnet \<Rightarrow> real \<Rightarrow> decoder_obj" where
  "decoder_of net u = \<lparr>
     dec_pred_graph_level = pred_graph_level net,
     dec_pred_node_level = pred_node_level net,
     dec_call = (\<lambda>t a x l n g. CSPNet_forward net u t (Soft a) x l n g None False False)\<rparr>"

record batch =
  b_num_graphs :: nat
  b_num_nodes :: nat
  b_num_atoms :: "nat list"
  b_frac_coords :: mat
  b_lengths :: mat
  b_angles :: mat
  b_atom_types :: "int list"
  b_batch :: "nat list"
  b_y :: mat

text \<open>
  \<open>guidance_grad\<close> stands for \<open>torch.autograd.grad\<close> of the property discrepancy with
  respect to (types, coordinates, lattices); a gradient may be \<open>None\<close> (\<open>allow_unused\<close>).
\<close>

record csp_property =
  decoder :: decoder_obj
  beta_scheduler :: beta_scheduler
  sigma_scheduler :: sigma_scheduler
  time_dim :: nat
  time_independent :: bool
  latent_dim :: int
  MAX_ATOMIC_NUM :: nat
  lattice_params_to_matrix_torch :: "mat \<Rightarrow> mat \<Rightarrow> mat list"
  guidance_grad :: "mat \<Rightarrow> mat \<Rightarrow> mat \<Rightarrow> mat list \<Rightarrow> batch
                      \<Rightarrow> mat option \<times> mat option \<times> mat list option"

section \<open>The diffusion module: tensor arithmetic\<close>

definition same_shape3 :: "mat list \<Rightarrow> mat list \<Rightarrow> bool" where
  "same_shape3 A B = (map (map length) A = map (map length) B)"

definition smul :: "real \<Rightarrow> mat \<Rightarrow> mat" where
  "smul c A = map (map (\<lambda>v. c * v)) A"

definition smul3 :: "real \<Rightarrow> mat list \<Rightarrow> mat list" where
  "smul3 c A = map (smul c) A"

definition mat_sub :: "mat \<Rightarrow> mat \<Rightarrow> error + mat" where
  "mat_sub A B = (if same_shape A B then Inr (map2 (map2 (-)) A B) else Inl RuntimeError)"

definition mats_add :: "mat list \<Rightarrow> mat list \<Rightarrow> error + mat list" where
  "mats_add A B =
     (if same_shape3 A B then Inr (map2 (map2 (map2 (+))) A B) else Inl RuntimeError)"

definition mats_sub :: "mat list \<Rightarrow> mat list \<Rightarrow> error + mat list" where
  "mats_sub A B =
     (if same_shape3 A B then Inr (map2 (map2 (map2 (-))) A B) else Inl RuntimeError)"

text \<open>A column \<open>c[:, None]\<close> times a matrix, and \<open>c[:, None, None]\<close> times a batch of matrices.\<close>

definition scale_rows :: "real list \<Rightarrow> mat \<Rightarrow> error + mat" where
  "scale_rows c A =
     (if length c = length A then Inr (map2 (\<lambda>s r. map (\<lambda>v. s * v) r) c A)
      else Inl RuntimeError)"

definition scale_mats :: "real list \<Rightarrow> mat list \<Rightarrow> error + mat list" where
  "scale_mats c A =
     (if length c = length A then Inr (map2 smul c A) else Inl RuntimeError)"

definition mod1 :: "mat \<Rightarrow> mat" where
  "mod1 A = map (map fmod1) A"

definition zeros_like :: "mat \<Rightarrow> mat" where
  "zeros_like A = map (map (\<lambda>_. 0)) A"

definition zeros_like3 :: "mat list \<Rightarrow> mat list" where
  "zeros_like3 A = map zeros_like A"

text \<open>\<open>table[t]\<close> with a Python integer: a negative index counts from the end.\<close>

definition table_get :: "real list \<Rightarrow> int \<Rightarrow> error + real" where
  "table_get xs i =
     (let n = int (length xs); j = (if i < 0 then n + i else i)
      in if 0 \<le> j \<and> j < n then Inr (xs ! nat j) else Inl IndexError)"

text \<open>\<open>F.one_hot(idx, num_classes)\<close>: every index must lie in \<open>0 .. num_classes - 1\<close>.\<close>

definition one_hot :: "int list \<Rightarrow> nat \<Rightarrow> error + mat" where
  "one_hot idx num_classes =
     (if list_all (\<lambda>i. 0 \<le> i \<and> i < int num_classes) idx
      then Inr (map (\<lambda>i. map (\<lambda>c. if int c = i then 1 else 0) [0..<num_classes]) idx)
      else Inl RuntimeError)"

text \<open>\<open>F.l1_loss\<close>: the mean of the absolute differences.\<close>

definition l1_loss :: "mat \<Rightarrow> mat \<Rightarrow> error + real" where
  "l1_loss input target =
     (if same_shape input target
      then Inr (sum_list (map abs (concat (map2 (map2 (-)) input target)))
                / real (length (concat input)))
      else Inl RuntimeError)"

text \<open>\<open>torch.linalg.norm(A - B, dim=1, keepdim=True)\<close>.\<close>

definition row_norms :: "mat \<Rightarrow> mat \<Rightarrow> error + mat" where
  "row_norms A B =
     ebind (mat_sub A B) (\<lambda>D. Inr (map (\<lambda>r. [sqrt (sum_list (map (\<lambda>v. v * v) r))]) D))"

text \<open>A prediction that is \<open>None\<close> cannot enter a loss or a difference.\<close>

definition prediction :: "mat option \<Rightarrow> error + mat" where
  "prediction p = (case p of None \<Rightarrow> Inl AttributeError | Some v \<Rightarrow> Inr v)"

text \<open>
  \<open>Tensor.argmax(dim=-1)\<close> of one row: the index of the first largest entry; a row with
  no entry is an IndexError.
\<close>

fun argmax_aux :: "nat \<Rightarrow> real \<Rightarrow> nat \<Rightarrow> vec \<Rightarrow> nat" where
  "argmax_aux bi bv i [] = bi"
| "argmax_aux bi bv i (x # xs) =
     (if bv < x then argmax_aux i x (Suc i) xs else argmax_aux bi bv (Suc i) xs)"

definition argmax :: "vec \<Rightarrow> error + nat" where
  "argmax v = (case v of [] \<Rightarrow> Inl IndexError | x # xs \<Rightarrow> Inr (argmax_aux 0 x 1 xs))"

fun emap :: "('a \<Rightarrow> error + 'b) \<Rightarrow> 'a list \<Rightarrow> error + 'b list" where
  "emap f [] = Inr []"
| "emap f (x # xs) = ebind (f x) (\<lambda>v. ebind (emap f xs) (\<lambda>vs. Inr (v # vs)))"

text \<open>\<open>A.argmax(dim=-1) + 1\<close>: the species id of every atom.\<close>

definition argmax_plus_1 :: "mat \<Rightarrow> error + nat list" where
  "argmax_plus_1 A = emap (\<lambda>r. ebind (argmax r) (\<lambda>i. Inr (i + 1))) A"

text \<open>\<open>SinusoidalTimeEmbeddings.forward\<close>: \<open>half_dim - 1\<close> divides a Python float.\<close>

definition time_embedding :: "nat \<Rightarrow> nat list \<Rightarrow> error + mat" where
  "time_embedding dim' time =
     (let half_dim = dim' div 2
      in if int half_dim - 1 = 0 then Inl ZeroDivisionError
         else
           (let embeddings = ln_class.ln 10000 / real_of_int (int half_dim - 1);
                embeddings' = map (\<lambda>k. exp (real k * - embeddings)) [0..<half_dim]
            in Inr (map (\<lambda>tm. let e = map (\<lambda>f. real tm * f) embeddings'
                              in map sin e @ map cos e) time)))"


section \<open>The diffusion module: training step and property inference\<close>

text \<open>
  \<open>CSPProperty.forward\<close> up to the call of the decoder: the time embedding and the three
  inputs the decoder is given.  \<open>times'\<close> (the program's \<open>times\<close>) are the sampled timesteps (one per structure);
  \<open>rand_l\<close>, \<open>rand_x\<close>, \<open>rand_t\<close> are the Gaussian draws.
\<close>

definition forward_inputs ::
  "csp_property \<Rightarrow> batch \<Rightarrow> nat list \<Rightarrow> mat list \<Rightarrow> mat \<Rightarrow> mat
     \<Rightarrow> error + (mat \<times> mat \<times> mat \<times> mat list)" where
  "forward_inputs self batch times' rand_l rand_x rand_t =
     ebind (time_embedding (time_dim self) times') (\<lambda>time_emb.
     ebind (index_select (alphas_cumprod (beta_scheduler self)) times') (\<lambda>alphas_cumprod'.
     ebind (index_select (betas (beta_scheduler self)) times') (\<lambda>beta.
     let c0 = map sqrt alphas_cumprod';
         c1 = map (\<lambda>a. sqrt (1 - a)) alphas_cumprod'
     in ebind (index_select (sigmas (sigma_scheduler self)) times') (\<lambda>sigmas'.
     ebind (index_select (sigmas_norm (sigma_scheduler self)) times') (\<lambda>sigmas_norm'.
     let lattices = lattice_params_to_matrix_torch self (b_lengths batch) (b_angles batch);
         frac_coords = b_frac_coords batch
     in ebind (scale_mats c0 lattices) (\<lambda>l0.
     ebind (scale_mats c1 rand_l) (\<lambda>l1.
     ebind (mats_add l0 l1) (\<lambda>input_lattice.
     ebind (repeat_interleave sigmas' (b_num_atoms batch)) (\<lambda>sigmas_per_atom.
     ebind (scale_rows sigmas_per_atom rand_x) (\<lambda>sx.
     ebind (mat_add frac_coords sx) (\<lambda>x1.
     let input_frac_coords = mod1 x1
     in ebind (one_hot (map (\<lambda>a. a - 1) (b_atom_types batch)) (MAX_ATOMIC_NUM self))
          (\<lambda>gt_atom_types_onehot.
     ebind (repeat_interleave c0 (b_num_atoms batch)) (\<lambda>c0_repeated.
     ebind (repeat_interleave c1 (b_num_atoms batch)) (\<lambda>c1_repeated.
     ebind (scale_rows c0_repeated gt_atom_types_onehot) (\<lambda>t0.
     ebind (scale_rows c1_repeated rand_t) (\<lambda>t1.
     ebind (mat_add t0 t1) (\<lambda>atom_type_probs.
     if time_independent self
     then Inr (zeros_like time_emb, gt_atom_types_onehot, frac_coords, lattices)
     else Inr (time_emb, atom_type_probs, input_frac_coords, input_lattice))))))))))))))))))"

text \<open>The choice of the prediction the loss and the guidance compare with \<open>batch.y\<close>.\<close>

definition enabled_head :: "decoder_obj \<Rightarrow> mat option \<Rightarrow> mat option \<Rightarrow> error + mat" where
  "enabled_head dec pred_graph pred_node =
     (if dec_pred_graph_level dec then prediction pred_graph
      else if dec_pred_node_level dec then prediction pred_node
      else Inl ValueError)"

text \<open>\<open>CSPProperty.forward\<close>: the value stored under \<open>'loss'\<close>.\<close>

definition CSPProperty_forward ::
  "csp_property \<Rightarrow> batch \<Rightarrow> nat list \<Rightarrow> mat list \<Rightarrow> mat \<Rightarrow> mat \<Rightarrow> error + real" where
  "CSPProperty_forward self batch times' rand_l rand_x rand_t =
     ebind (forward_inputs self batch times' rand_l rand_x rand_t)
       (\<lambda>(time_emb, atom_type_probs, input_frac_coords, input_lattice).
     ebind (dec_call (decoder self) time_emb atom_type_probs input_frac_coords input_lattice
              (b_num_atoms batch) (b_batch batch))
       (\<lambda>(pred_x, pred_l, pred_t, pred_graph, pred_node).
     ebind (enabled_head (decoder self) pred_graph pred_node) (\<lambda>p.
     l1_loss p (b_y batch))))"

text \<open>\<open>CSPProperty.infer\<close>: the pair (prediction, target).\<close>

definition infer :: "csp_property \<Rightarrow> batch \<Rightarrow> nat list \<Rightarrow> error + (mat \<times> mat)" where
  "infer self batch times' =
     ebind (time_embedding (time_dim self) times') (\<lambda>time_emb0.
     let time_emb = zeros_like time_emb0
     in ebind (one_hot (map (\<lambda>a. a - 1) (b_atom_types batch)) (MAX_ATOMIC_NUM self))
          (\<lambda>atom_type_probs.
     let input_frac_coords = b_frac_coords batch;
         input_lattice = lattice_params_to_matrix_torch self (b_lengths batch) (b_angles batch)
     in ebind (dec_call (decoder self) time_emb atom_type_probs input_frac_coords input_lattice
                 (b_num_atoms batch) (b_batch batch))
          (\<lambda>(pred_x, pred_l, pred_t, pred_graph, pred_node).
     ebind (enabled_head (decoder self) pred_graph pred_node) (\<lambda>p.
     Inr (p, b_y batch)))))"

section \<open>The diffusion module: the modulo of the sampler in single precision\<close>

text \<open>
  The samplers store \<open>x % 1.\<close> of a single-precision tensor.  For floating-point tensors
  \<open>%\<close> is \<open>torch.remainder\<close>: the C function \<open>fmod\<close>, to whose result the divisor is added
  when the result is not zero and has the other sign.  \<open>fmod(a, 1)\<close> is \<open>a\<close> minus its
  integer part and is exact; the addition of \<open>1\<close> is a single-precision addition and
  rounds to the nearest single-precision number, ties to the even significand.  The sum
  lies between \<open>0\<close> and \<open>1\<close>, where the spacing of the single-precision numbers is
  \<open>2\<^sup>e\<^sup>-\<^sup>2\<^sup>3\<close> on \<open>[2\<^sup>e, 2\<^sup>e\<^sup>+\<^sup>1)\<close> for \<open>e\<close> from \<open>-1\<close> down to \<open>-126\<close>, and \<open>2\<^sup>-\<^sup>1\<^sup>4\<^sup>9\<close> below.  All other
  arithmetic of the model is exact; this rounding is modelled because it decides the range
  of the stored coordinates.
\<close>

text \<open>Rounding to the nearest integer, ties to even.\<close>

definition rne :: "real \<Rightarrow> int" where
  "rne y = (let f = \<lfloor>y\<rfloor>; r = y - of_int f
            in if r < 1/2 then f else if 1/2 < r then f + 1 else if even f then f else f + 1)"

text \<open>
  The spacing of the single-precision numbers at \<open>y\<close>, for \<open>0 \<le> y < 1\<close>, searched from the
  binade \<open>[2\<^sup>-\<^sup>(\<^sup>e\<^sup>+\<^sup>1\<^sup>), 2\<^sup>-\<^sup>e)\<close> downwards; \<open>ulp_f32 0 y\<close> is the spacing at \<open>y\<close>.
\<close>

function ulp_f32 :: "nat \<Rightarrow> real \<Rightarrow> real" where
  "ulp_f32 e y = (if 126 \<le> e then 1 / 2 ^ 149
                  else if 1 / 2 ^ (e + 1) \<le> y then 1 / 2 ^ (e + 24)
                  else ulp_f32 (e + 1) y)"
  by pat_completeness auto
termination
  by (relation "measure (\<lambda>(e, y). 126 - e)") auto

declare ulp_f32.simps [simp del]

text \<open>Rounding \<open>0 \<le> y < 1\<close> to single precision.\<close>

definition round_f32 :: "real \<Rightarrow> real" where
  "round_f32 y = (let u = ulp_f32 0 y in of_int (rne (y / u)) * u)"

text \<open>\<open>fmod(a, 1)\<close>: \<open>a\<close> minus \<open>a\<close> truncated towards zero; it has the sign of \<open>a\<close>.\<close>

definition c_fmod1 :: "real \<Rightarrow> real" where
  "c_fmod1 a = a - of_int (if 0 \<le> a then \<lfloor>a\<rfloor> else \<lceil>a\<rceil>)"

text \<open>\<open>a % 1.\<close> on a single-precision tensor entry, and on a matrix.\<close>

definition remainder_f32 :: "real \<Rightarrow> real" where
  "remainder_f32 a = (let m = c_fmod1 a in if m \<noteq> 0 \<and> m < 0 then round_f32 (m + 1) else m)"

definition wrap_f32 :: "mat \<Rightarrow> mat" where
  "wrap_f32 A = map (map remainder_f32) A"

section \<open>The diffusion module: reverse sampling\<close>

record snapshot =
  s_num_atoms :: "nat list"
  s_atom_types :: mat
  s_frac_coords :: mat
  s_lattices :: "mat list"

type_synonym traj = "int \<rightharpoonup> snapshot"

text \<open>The initial draws, and the draws of one reverse step that the step uses.\<close>

record init_draws =
  draw_l_T :: "mat list"
  draw_x_T :: mat
  draw_t_T :: mat
  draw_rand_l :: "mat list"
  draw_rand_x :: mat
  draw_rand_t :: mat

record step_draws =
  corr_rand_x :: mat
  pred_rand_l :: "mat list"
  pred_rand_t :: mat
  pred_rand_x :: mat

text \<open>Python's \<open>int(x)\<close> on a float: truncation towards zero.\<close>

definition py_int :: "real \<Rightarrow> int" where
  "py_int x = (if 0 \<le> x then \<lfloor>x\<rfloor> else \<lceil>x\<rceil>)"

text \<open>
  The start of \<open>sample\<close> and of \<open>masked_sample\<close>: the assertion, the initial state and the
  trajectory with its first snapshot.
\<close>

definition sample_init ::
  "csp_property \<Rightarrow> batch \<Rightarrow> real \<Rightarrow> init_draws
     \<Rightarrow> error + (int \<times> mat list \<times> mat \<times> mat \<times> traj)" where
  "sample_init self batch diff_ratio d =
     (if time_independent self then Inl AssertionError
      else
        ebind (if diff_ratio < 1 then
                 (let time_start = py_int (real (timesteps (beta_scheduler self)) * diff_ratio);
                      lattices = lattice_params_to_matrix_torch self (b_lengths batch)
                                   (b_angles batch)
                  in ebind (one_hot (map (\<lambda>a. a - 1) (b_atom_types batch))
                              (MAX_ATOMIC_NUM self)) (\<lambda>atom_types_onehot.
                     let frac_coords = b_frac_coords batch
                     in ebind (table_get (alphas_cumprod (beta_scheduler self)) time_start)
                          (\<lambda>alphas_cumprod'.
                     ebind (table_get (betas (beta_scheduler self)) time_start) (\<lambda>beta.
                     let c0 = sqrt alphas_cumprod';
                         c1 = sqrt (1 - alphas_cumprod')
                     in ebind (table_get (sigmas (sigma_scheduler self)) time_start)
                          (\<lambda>sigmas'.
                     ebind (mats_add (smul3 c0 lattices) (smul3 c1 (draw_rand_l d))) (\<lambda>l_T.
                     ebind (mat_add frac_coords (smul sigmas' (draw_rand_x d))) (\<lambda>x1.
                     ebind (mat_add (smul c0 atom_types_onehot) (smul c1 (draw_rand_t d)))
                       (\<lambda>t_T.
                     Inr (time_start, l_T, wrap_f32 x1, t_T)))))))))
               else Inr (int (timesteps (beta_scheduler self)),
                         draw_l_T d, draw_x_T d, draw_t_T d))
          (\<lambda>(time_start, l_T, x_T, t_T).
             Inr (time_start, l_T, x_T, t_T,
                  [time_start \<mapsto> \<lparr>s_num_atoms = b_num_atoms batch, s_atom_types = t_T,
                                   s_frac_coords = wrap_f32 x_T, s_lattices = l_T\<rparr>])))"

text \<open>The corrector's coordinate update \<open>x_t - step_size * pred_x + std_x * rand_x\<close>.\<close>

definition corrector_x :: "real \<Rightarrow> real \<Rightarrow> mat \<Rightarrow> mat \<Rightarrow> mat \<Rightarrow> error + mat" where
  "corrector_x step_size std_x x_t pred_x rand_x =
     ebind (mat_sub x_t (smul step_size pred_x)) (\<lambda>a.
     mat_add a (smul std_x rand_x))"

text \<open>
  The three predictor updates of \<open>sample\<close>; a gradient that is \<open>None\<close>, or a type score that
  is \<open>None\<close>, cannot be multiplied (TypeError).
\<close>

definition predictor_x ::
  "real \<Rightarrow> real \<Rightarrow> real \<Rightarrow> mat \<Rightarrow> mat \<Rightarrow> mat option \<Rightarrow> mat \<Rightarrow> error + mat" where
  "predictor_x step_size std_x aug x_t_minus_05 pred_x grad_x rand_x =
     ebind (mat_sub x_t_minus_05 (smul step_size pred_x)) (\<lambda>a.
     ebind (case grad_x of None \<Rightarrow> Inl TypeError
            | Some g \<Rightarrow> mat_sub a (smul (std_x ^ 2 * aug) g)) (\<lambda>b.
     mat_add b (smul std_x rand_x)))"

definition predictor_l ::
  "real \<Rightarrow> real \<Rightarrow> real \<Rightarrow> real \<Rightarrow> mat list \<Rightarrow> mat list \<Rightarrow> mat list option \<Rightarrow> mat list
     \<Rightarrow> error + mat list" where
  "predictor_l c0 c1 sigmas' aug l_t_minus_05 pred_l grad_l rand_l =
     ebind (mats_sub l_t_minus_05 (smul3 c1 pred_l)) (\<lambda>a.
     ebind (case grad_l of None \<Rightarrow> Inl TypeError
            | Some g \<Rightarrow> mats_sub (smul3 c0 a) (smul3 (sigmas' ^ 2 * aug) g)) (\<lambda>b.
     mats_add b (smul3 sigmas' rand_l)))"

definition predictor_t ::
  "real \<Rightarrow> real \<Rightarrow> real \<Rightarrow> real \<Rightarrow> mat \<Rightarrow> mat option \<Rightarrow> mat option \<Rightarrow> mat \<Rightarrow> error + mat" where
  "predictor_t c0 c1 sigmas' aug t_t_minus_05 pred_t grad_t rand_t =
     ebind (case pred_t of None \<Rightarrow> Inl TypeError
            | Some p \<Rightarrow> mat_sub t_t_minus_05 (smul c1 p)) (\<lambda>a.
     ebind (case grad_t of None \<Rightarrow> Inl TypeError
            | Some g \<Rightarrow> mat_sub (smul c0 a) (smul (sigmas' ^ 2 * aug) g)) (\<lambda>b.
     mat_add b (smul sigmas' rand_t)))"

text \<open>The lattice update of \<open>masked_sample\<close>: \<open>c0 * (l - c1 * pred_l) + sigmas * rand_l\<close>.\<close>

definition masked_predictor_l ::
  "real \<Rightarrow> real \<Rightarrow> real \<Rightarrow> mat list \<Rightarrow> mat list \<Rightarrow> mat list \<Rightarrow> error + mat list" where
  "masked_predictor_l c0 c1 sigmas' l_t_minus_05 pred_l rand_l =
     ebind (mats_sub l_t_minus_05 (smul3 c1 pred_l)) (\<lambda>a.
     mats_add (smul3 c0 a) (smul3 sigmas' rand_l))"

text \<open>
  The scalars of one reverse step and the tensors its update combines, in the order in
  which the update of \<open>sample\<close> and of \<open>masked_sample\<close> reads them.
\<close>

record update_args =
  u_step_size :: real
  u_std_x :: real
  u_c0 :: real
  u_c1 :: real
  u_sigmas :: real
  u_aug :: real
  u_x :: mat
  u_l :: "mat list"
  u_t :: mat
  u_pred_x :: mat
  u_pred_l :: "mat list"
  u_pred_t :: "mat option"
  u_grad_x :: "mat option"
  u_grad_l :: "mat list option"
  u_grad_t :: "mat option"
  u_rand_x :: mat
  u_rand_l :: "mat list"
  u_rand_t :: mat

text \<open>The update of \<open>sample\<close>: \<open>(x_t_minus_1, l_t_minus_1, t_t_minus_1)\<close>.\<close>

definition sample_update :: "update_args \<Rightarrow> error + (mat \<times> mat list \<times> mat)" where
  "sample_update a =
     ebind (predictor_x (u_step_size a) (u_std_x a) (u_aug a) (u_x a) (u_pred_x a)
              (u_grad_x a) (u_rand_x a)) (\<lambda>x_t_minus_1.
     ebind (predictor_l (u_c0 a) (u_c1 a) (u_sigmas a) (u_aug a) (u_l a) (u_pred_l a)
              (u_grad_l a) (u_rand_l a)) (\<lambda>l_t_minus_1.
     ebind (predictor_t (u_c0 a) (u_c1 a) (u_sigmas a) (u_aug a) (u_t a) (u_pred_t a)
              (u_grad_t a) (u_rand_t a)) (\<lambda>t_t_minus_1.
     Inr (x_t_minus_1, l_t_minus_1, t_t_minus_1))))"

text \<open>
  The gate of \<open>masked_sample\<close>.  The mask has one Boolean per atom (a column, the shape
  for which \<open>len(mask)\<close> is the number of atoms and both products are row-wise); a
  missing mask has no \<open>len\<close> (TypeError), a missing gradient no \<open>shape\<close> (AttributeError).
\<close>

definition mask_column :: "bool list \<Rightarrow> real list" where
  "mask_column mask' = map (\<lambda>b. if b then 1 else 0) mask'"

definition masked_gate ::
  "bool list option \<Rightarrow> mat option \<Rightarrow> mat option \<Rightarrow> error + (mat \<times> mat)" where
  "masked_gate mask' grad_x grad_t =
     (case mask' of None \<Rightarrow> Inl TypeError
      | Some m \<Rightarrow>
         (case grad_x of None \<Rightarrow> Inl AttributeError
          | Some gx \<Rightarrow>
             (case grad_t of None \<Rightarrow> Inl AttributeError
              | Some gt \<Rightarrow>
                 if length m = length gx \<and> length gx = length gt then
                   ebind (scale_rows (mask_column m) gx) (\<lambda>grad_x'.
                   ebind (scale_rows (mask_column m) gt) (\<lambda>grad_t'.
                   Inr (grad_x', grad_t')))
                 else Inl AssertionError)))"

text \<open>The update of \<open>masked_sample\<close>.\<close>

definition masked_update ::
  "bool list option \<Rightarrow> update_args \<Rightarrow> error + (mat \<times> mat list \<times> mat)" where
  "masked_update mask' a =
     ebind (masked_gate mask' (u_grad_x a) (u_grad_t a)) (\<lambda>(grad_x, grad_t).
     ebind (predictor_x (u_step_size a) (u_std_x a) (u_aug a) (u_x a) (u_pred_x a)
              (Some grad_x) (u_rand_x a)) (\<lambda>x_t_minus_1.
     ebind (masked_predictor_l (u_c0 a) (u_c1 a) (u_sigmas a) (u_l a) (u_pred_l a)
              (u_rand_l a)) (\<lambda>l_t_minus_1.
     ebind (predictor_t (u_c0 a) (u_c1 a) (u_sigmas a) (u_aug a) (u_t a) (u_pred_t a)
              (Some grad_t) (u_rand_t a)) (\<lambda>t_t_minus_1.
     Inr (x_t_minus_1, l_t_minus_1, t_t_minus_1)))))"

text \<open>
  One pass of the loop body at timestep \<open>t\<close>, shared line by line by \<open>sample\<close> and
  \<open>masked_sample\<close> except for the update, which is the argument \<open>update\<close>.  \<open>uncod\<close> is
  \<open>uncod.decoder\<close>; \<open>l_T\<close>, \<open>x_T\<close>, \<open>t_T\<close> give the shapes of the zero tensors of the last step.
\<close>

definition reverse_step ::
  "(update_args \<Rightarrow> error + (mat \<times> mat list \<times> mat)) \<Rightarrow> csp_property \<Rightarrow> decoder_obj \<Rightarrow> batch
     \<Rightarrow> real \<Rightarrow> real \<Rightarrow> mat list \<Rightarrow> mat \<Rightarrow> mat \<Rightarrow> (nat \<Rightarrow> step_draws) \<Rightarrow> nat \<Rightarrow> traj
     \<Rightarrow> error + traj" where
  "reverse_step update self uncod batch step_lr aug l_T x_T t_T noise t traj =
     (let times' = replicate (b_num_graphs batch) t
      in ebind (time_embedding (time_dim self) times') (\<lambda>time_emb.
         if latent_dim self > 0 then Inl NotImplementedError
         else
         ebind (table_get (alphas (beta_scheduler self)) (int t)) (\<lambda>alphas'.
         ebind (table_get (alphas_cumprod (beta_scheduler self)) (int t)) (\<lambda>alphas_cumprod'.
         ebind (table_get (beta_sigmas (beta_scheduler self)) (int t)) (\<lambda>sigmas'.
         ebind (table_get (sigmas (sigma_scheduler self)) (int t)) (\<lambda>sigma_x.
         ebind (table_get (sigmas_norm (sigma_scheduler self)) (int t)) (\<lambda>sigma_norm.
         let c0 = 1 / sqrt alphas';
             c1 = (1 - alphas') / sqrt (1 - alphas_cumprod')
         in ebind (case traj (int t) of None \<Rightarrow> Inl KeyError | Some s \<Rightarrow> Inr s) (\<lambda>s.
         let x_t = s_frac_coords s;
             l_t = s_lattices s;
             t_t = s_atom_types s;
             rand_x = (if t > 1 then corr_rand_x (noise t) else zeros_like x_T);
             step_size = step_lr * (sigma_x / sigma_begin (sigma_scheduler self)) ^ 2;
             std_x = sqrt (2 * step_size)
         in ebind (dec_call uncod time_emb t_t x_t l_t (b_num_atoms batch) (b_batch batch))
              (\<lambda>(pred_x, pred_l, pred_t, og, on).
         ebind (corrector_x step_size std_x x_t (smul (sqrt sigma_norm) pred_x) rand_x)
              (\<lambda>x_t_minus_05.
         let l_t_minus_05 = l_t;
             t_t_minus_05 = t_t;
             rand_l = (if t > 1 then pred_rand_l (noise t) else zeros_like3 l_T);
             rand_t = (if t > 1 then pred_rand_t (noise t) else zeros_like t_T);
             rand_x' = (if t > 1 then pred_rand_x (noise t) else zeros_like x_T)
         in ebind (table_get (sigmas (sigma_scheduler self)) (int t - 1)) (\<lambda>adjacent_sigma_x.
         let step_size' = sigma_x ^ 2 - adjacent_sigma_x ^ 2;
             std_x' = sqrt ((adjacent_sigma_x ^ 2 * (sigma_x ^ 2 - adjacent_sigma_x ^ 2))
                            / sigma_x ^ 2)
         in ebind (dec_call uncod time_emb t_t_minus_05 x_t_minus_05 l_t_minus_05
                     (b_num_atoms batch) (b_batch batch))
              (\<lambda>(pred_x', pred_l', pred_t', og', on').
         ebind (dec_call (decoder self) time_emb t_t_minus_05 x_t_minus_05 l_t_minus_05
                  (b_num_atoms batch) (b_batch batch))
              (\<lambda>(gx, gl, gt, pred_graph, pred_node).
         ebind (enabled_head (decoder self) pred_graph pred_node) (\<lambda>p.
         ebind (row_norms p (b_y batch)) (\<lambda>val.
         let (grad_t, grad_x, grad_l) =
               guidance_grad self time_emb t_t_minus_05 x_t_minus_05 l_t_minus_05 batch
         in ebind (update \<lparr>
                u_step_size = step_size', u_std_x = std_x', u_c0 = c0, u_c1 = c1,
                u_sigmas = sigmas', u_aug = aug,
                u_x = x_t_minus_05, u_l = l_t_minus_05, u_t = t_t_minus_05,
                u_pred_x = smul (sqrt sigma_norm) pred_x', u_pred_l = pred_l',
                u_pred_t = pred_t',
                u_grad_x = grad_x, u_grad_l = grad_l, u_grad_t = grad_t,
                u_rand_x = rand_x', u_rand_l = rand_l, u_rand_t = rand_t\<rparr>)
              (\<lambda>(x_t_minus_1, l_t_minus_1, t_t_minus_1).
         Inr (traj(int t - 1 \<mapsto> \<lparr>s_num_atoms = b_num_atoms batch,
                                  s_atom_types = t_t_minus_1,
                                  s_frac_coords = wrap_f32 x_t_minus_1,
                                  s_lattices = l_t_minus_1\<rparr>))))))))))))))))))"

text \<open>The loop \<open>for t in range(time_start, 0, -1)\<close>, counted down from \<open>t\<close>.\<close>

fun reverse_loop ::
  "(update_args \<Rightarrow> error + (mat \<times> mat list \<times> mat)) \<Rightarrow> csp_property \<Rightarrow> decoder_obj \<Rightarrow> batch
     \<Rightarrow> real \<Rightarrow> real \<Rightarrow> mat list \<Rightarrow> mat \<Rightarrow> mat \<Rightarrow> (nat \<Rightarrow> step_draws) \<Rightarrow> nat \<Rightarrow> traj
     \<Rightarrow> error + traj" where
  "reverse_loop update self uncod batch step_lr aug l_T x_T t_T noise 0 traj = Inr traj"
| "reverse_loop update self uncod batch step_lr aug l_T x_T t_T noise (Suc k) traj =
     ebind (reverse_step update self uncod batch step_lr aug l_T x_T t_T noise (Suc k) traj)
       (\<lambda>traj'. reverse_loop update self uncod batch step_lr aug l_T x_T t_T noise k traj')"

text \<open>
  What both methods return: the terminal snapshot with its types made hard, and the
  stacked trajectory, both read from the keys \<open>time_start, ..., 0\<close>.  \<open>torch.stack\<close> of
  no tensor is a RuntimeError.
\<close>

record result =
  r_num_atoms :: "nat list"
  r_atom_types :: "nat list"
  r_frac_coords :: mat
  r_lattices :: "mat list"

record traj_stack =
  ts_num_atoms :: "nat list"
  ts_atom_types :: "nat list list"
  all_frac_coords :: "mat list"
  all_lattices :: "mat list list"

definition range_down :: "int \<Rightarrow> int list" where
  "range_down time_start = map (\<lambda>k. time_start - int k) [0..<nat (time_start + 1)]"

definition traj_get :: "traj \<Rightarrow> int \<Rightarrow> error + snapshot" where
  "traj_get traj i = (case traj i of None \<Rightarrow> Inl KeyError | Some s \<Rightarrow> Inr s)"

definition sample_finish :: "batch \<Rightarrow> int \<Rightarrow> traj \<Rightarrow> error + (result \<times> traj_stack)" where
  "sample_finish batch time_start traj =
     ebind (emap (traj_get traj) (range_down time_start)) (\<lambda>snaps.
     if snaps = [] then Inl RuntimeError
     else
       ebind (emap (\<lambda>s. argmax_plus_1 (s_atom_types s)) snaps) (\<lambda>types.
       let traj_stack = \<lparr>ts_num_atoms = b_num_atoms batch,
                         ts_atom_types = types,
                         all_frac_coords = map s_frac_coords snaps,
                         all_lattices = map s_lattices snaps\<rparr>
       in ebind (traj_get traj 0) (\<lambda>res.
          ebind (argmax_plus_1 (s_atom_types res)) (\<lambda>hard.
          Inr (\<lparr>r_num_atoms = s_num_atoms res, r_atom_types = hard,
                r_frac_coords = s_frac_coords res, r_lattices = s_lattices res\<rparr>,
               traj_stack)))))"

text \<open>
  The trajectory dictionary when the loop has ended, and the two methods.
\<close>

definition sample_traj ::
  "(update_args \<Rightarrow> error + (mat \<times> mat list \<times> mat)) \<Rightarrow> csp_property \<Rightarrow> decoder_obj \<Rightarrow> batch
     \<Rightarrow> real \<Rightarrow> real \<Rightarrow> real \<Rightarrow> init_draws \<Rightarrow> (nat \<Rightarrow> step_draws) \<Rightarrow> error + (int \<times> traj)" where
  "sample_traj update self uncod batch diff_ratio step_lr aug d noise =
     ebind (sample_init self batch diff_ratio d) (\<lambda>(time_start, l_T, x_T, t_T, traj).
     ebind (reverse_loop update self uncod batch step_lr aug l_T x_T t_T noise
              (nat time_start) traj) (\<lambda>traj'.
     Inr (time_start, traj')))"

definition sample ::
  "csp_property \<Rightarrow> decoder_obj \<Rightarrow> batch \<Rightarrow> real \<Rightarrow> real \<Rightarrow> real \<Rightarrow> init_draws
     \<Rightarrow> (nat \<Rightarrow> step_draws) \<Rightarrow> error + (result \<times> traj_stack)" where
  "sample self uncod batch diff_ratio step_lr aug d noise =
     ebind (sample_traj sample_update self uncod batch diff_ratio step_lr aug d noise)
       (\<lambda>(time_start, traj). sample_finish batch time_start traj)"

definition masked_sample ::
  "csp_property \<Rightarrow> decoder_obj \<Rightarrow> batch \<Rightarrow> real \<Rightarrow> real \<Rightarrow> real \<Rightarrow> bool list option
     \<Rightarrow> init_draws \<Rightarrow> (nat \<Rightarrow> step_draws) \<Rightarrow> error + (result \<times> traj_stack)" where
  "masked_sample self uncod batch diff_ratio step_lr aug mask' d noise =
     ebind (sample_traj (masked_update mask') self uncod batch diff_ratio step_lr aug d noise)
       (\<lambda>(time_start, traj). sample_finish batch time_start traj)"

section \<open>Reference formulations\<close>

text \<open>
  The update of a reverse step with the guidance term left out, as the specification
  words it: \<open>x - step_size * pred_x + std_x * rand_x\<close> for the coordinates and
  \<open>c0 * (t - c1 * pred_t) + sigmas * rand_t\<close> for the types.
\<close>

definition unguided_x :: "real \<Rightarrow> real \<Rightarrow> mat \<Rightarrow> mat \<Rightarrow> mat \<Rightarrow> error + mat" where
  "unguided_x step_size std_x x pred_x rand_x =
     ebind (mat_sub x (smul step_size pred_x)) (\<lambda>a. mat_add a (smul std_x rand_x))"

definition unguided_t :: "real \<Rightarrow> real \<Rightarrow> real \<Rightarrow> mat \<Rightarrow> mat option \<Rightarrow> mat \<Rightarrow> error + mat" where
  "unguided_t c0 c1 sigmas' t pred_t rand_t =
     ebind (case pred_t of None \<Rightarrow> Inl TypeError | Some p \<Rightarrow> mat_sub t (smul c1 p)) (\<lambda>a.
     mat_add (smul c0 a) (smul sigmas' rand_t))"

text \<open>
  What \<open>argmax(dim=-1) + 1\<close> is to return for a row \<open>v\<close>: \<open>a - 1\<close> is a column of \<open>v\<close> that
  holds the greatest entry, the first such column.
\<close>

definition is_first_max :: "vec \<Rightarrow> nat \<Rightarrow> bool" where
  "is_first_max v i =
     (i < length v \<and> list_all (\<lambda>x. x \<le> v ! i) v \<and> list_all (\<lambda>x. x < v ! i) (take i v))"

definition is_argmax_plus_1 :: "vec \<Rightarrow> nat \<Rightarrow> bool" where
  "is_argmax_plus_1 v a = (0 < a \<and> is_first_max v (a - 1))"



text \<open>
  The same diffusion module with the graph-level prediction of its decoder switched on;
  nothing else is changed.
\<close>

definition with_graph_level :: "csp_property \<Rightarrow> csp_property" where
  "with_graph_level self = self\<lparr>decoder := (decoder self)\<lparr>dec_pred_graph_level := True\<rparr>\<rparr>"

text \<open>The snapshot a reverse step stores for the updated state \<open>(x, l, t)\<close>.\<close>

definition snap_of :: "batch \<Rightarrow> mat \<times> mat list \<times> mat \<Rightarrow> snapshot" where
  "snap_of batch r = (case r of (x, l, t) \<Rightarrow>
     \<lparr>s_num_atoms = b_num_atoms batch, s_atom_types = t, s_frac_coords = wrap_f32 x, s_lattices = l\<rparr>)"

text \<open>
  The two endpoints of edge \<open>e\<close> are \<open>edge_index[0][e]\<close> and \<open>edge_index[1][e]\<close>.  The
  specification calls the first the source atom of the edge and the second its destination
  atom (\<open>edge_model\<close> reads \<open>hi\<close> at the first and \<open>hj\<close> at the second, and \<open>gen_edges\<close>
  takes the structure of an edge from the first).  \<open>source_edges\<close> are the features of the
  edges whose first endpoint is \<open>a\<close>, \<open>destination_edges\<close> those of the edges whose second
  endpoint is \<open>a\<close>, both in edge order.  \<open>mean_rows\<close> is the mean of a list of rows of width
  \<open>F\<close>, entry by entry; the mean of no row is the zero vector.
\<close>

definition source_edges :: "edge_index \<Rightarrow> mat \<Rightarrow> nat \<Rightarrow> mat" where
  "source_edges edge_index edge_features a =
     map (\<lambda>e. edge_features ! e)
       (filter (\<lambda>e. fst edge_index ! e = a) [0..<length edge_features])"

definition destination_edges :: "edge_index \<Rightarrow> mat \<Rightarrow> nat \<Rightarrow> mat" where
  "destination_edges edge_index edge_features a =
     map (\<lambda>e. edge_features ! e)
       (filter (\<lambda>e. snd edge_index ! e = a) [0..<length edge_features])"

definition mean_rows :: "nat \<Rightarrow> mat \<Rightarrow> vec" where
  "mean_rows F rows =
     (if rows = [] then replicate F 0
      else map (\<lambda>j. sum_list (map (\<lambda>r. r ! j) rows) / real (length rows)) [0..<F])"

text \<open>
  The node update as the specification words it: every atom gets the mean of the features
  of the edges of which it is the destination atom.
\<close>

definition claimed_node_model :: "csp_layer \<Rightarrow> mat \<Rightarrow> mat \<Rightarrow> edge_index \<Rightarrow> mat" where
  "claimed_node_model self node_features edge_features edge_index =
     map (\<lambda>a. node_mlp self (node_features ! a
                 @ mean_rows (cl_hidden_dim self)
                     (destination_edges edge_index edge_features a)))
       [0..<length node_features]"

section \<open>Example objects\<close>

text \<open>
  A small decoder that echoes its inputs and predicts the coordinate sum of every atom, a
  module with one diffusion timestep, a batch of one structure with one atom, and the
  random draws of one sampling run; a one-layer backbone with sums for its modules.
\<close>

definition example_decoder :: "bool \<Rightarrow> bool \<Rightarrow> decoder_obj" where
  "example_decoder g n = \<lparr>
     dec_pred_graph_level = g,
     dec_pred_node_level = n,
     dec_call = (\<lambda>te a x l na nb. Inr (x, l, Some a, Some (map (\<lambda>r. [sum_list r]) x), None))\<rparr>"

definition example_module :: "bool \<Rightarrow> bool \<Rightarrow> bool \<Rightarrow> csp_property" where
  "example_module g n ti = \<lparr>
     decoder = example_decoder g n,
     beta_scheduler = \<lparr>timesteps = 1, betas = [0, 0], alphas = [1, 1],
                        alphas_cumprod = [1, 0], beta_sigmas = [0, 0]\<rparr>,
     sigma_scheduler = \<lparr>sigma_begin = 1, sigmas = [1, 1], sigmas_norm = [1, 1]\<rparr>,
     time_dim = 0,
     time_independent = ti,
     latent_dim = 0,
     MAX_ATOMIC_NUM = 2,
     lattice_params_to_matrix_torch = (\<lambda>len ang. [[[1, 0, 0], [0, 1, 0], [0, 0, 1]]]),
     guidance_grad = (\<lambda>te t x l b. (Some (zeros_like t), Some (zeros_like x), Some (zeros_like3 l)))\<rparr>"

definition example_batch :: batch where
  "example_batch = \<lparr>
     b_num_graphs = 1, b_num_nodes = 1, b_num_atoms = [1],
     b_frac_coords = [[1/2, 1/2, 1/2]],
     b_lengths = [[1, 1, 1]], b_angles = [[90, 90, 90]],
     b_atom_types = [1], b_batch = [0], b_y = [[0]]\<rparr>"

definition example_draws :: init_draws where
  "example_draws = \<lparr>
     draw_l_T = [[[1, 0, 0], [0, 1, 0], [0, 0, 1]]],
     draw_x_T = [[13/10, 0, 0]],
     draw_t_T = [[0, 1]],
     draw_rand_l = [[[0, 0, 0], [0, 0, 0], [0, 0, 0]]],
     draw_rand_x = [[0, 0, 0]],
     draw_rand_t = [[0, 0]]\<rparr>"

definition example_noise :: "nat \<Rightarrow> step_draws" where
  "example_noise t = \<lparr>
     corr_rand_x = [[0, 0, 0]],
     pred_rand_l = [[[0, 0, 0], [0, 0, 0], [0, 0, 0]]],
     pred_rand_t = [[0, 0]],
     pred_rand_x = [[0, 0, 0]]\<rparr>"

definition example_snapshot :: snapshot where
  "example_snapshot = \<lparr>s_num_atoms = [1], s_atom_types = [[0, 1]],
     s_frac_coords = [[3/10, 0, 0]], s_lattices = [[[1, 0, 0], [0, 1, 0], [0, 0, 1]]]\<rparr>"

definition example_layer :: csp_layer where
  "example_layer = \<lparr>cl_hidden_dim = 1, cl_dis_emb = Some 1, cl_ln = False, cl_ip = True,
     edge_mlp = (\<lambda>v. [sum_list v]), node_mlp = (\<lambda>v. [sum_list v]), layer_norm = (\<lambda>v. v)\<rparr>"

definition example_net :: cspnet where
  "example_net = \<lparr>
     edge_style = ''fc'',
     knn_edges = (\<lambda>_ _ _ _. Inl NotImplementedError),
     hidden_dim = 1, num_layers = 1, ln_flag = False, ip = True, smooth = False,
     pred_type = True, pred_graph_level = True, pred_node_level = False,
     pred_dim = Some 1, cfg = False, cfg_prob = 0,
     node_embedding = embed_table [[1], [2]],
     atom_latent_emb = (\<lambda>v. [sum_list v]),
     csp_layers = [example_layer],
     coord_out = (\<lambda>v. [sum_list v, 0, 0]),
     lattice_out = (\<lambda>v. replicate 9 (sum_list v)),
     final_layer_norm = (\<lambda>v. v),
     type_out = (\<lambda>v. [sum_list v, 0]),
     graph_out = Some (\<lambda>v. [sum_list v]),
     node_out = None,
     y_projection = None\<rparr>"

definition example_result :: result where
  "example_result = \<lparr>r_num_atoms = [1], r_atom_types = [2],
     r_frac_coords = [[3/10, 0, 0]], r_lattices = [[[1, 0, 0], [0, 1, 0], [0, 0, 1]]]\<rparr>"

definition example_stack :: traj_stack where
  "example_stack = \<lparr>ts_num_atoms = [1], ts_atom_types = [[2], [2]],
     all_frac_coords = [[[3/10, 0, 0]], [[3/10, 0, 0]]],
     all_lattices = [[[[1, 0, 0], [0, 1, 0], [0, 0, 1]]], [[[1, 0, 0], [0, 1, 0], [0, 0, 1]]]]\<rparr>"

definition example_update_args :: update_args where
  "example_update_args = \<lparr>
     u_step_size = 1, u_std_x = 1, u_c0 = 1, u_c1 = 1, u_sigmas = 1, u_aug = 1,
     u_x = [[1/2, 0, 0]], u_l = [[[1, 0, 0], [0, 1, 0], [0, 0, 1]]], u_t = [[0, 1]],
     u_pred_x = [[1/4, 0, 0]], u_pred_l = [[[0, 0, 0], [0, 0, 0], [0, 0, 0]]],
     u_pred_t = Some [[0, 0]],
     u_grad_x = Some [[7, 7, 7]], u_grad_l = None, u_grad_t = Some [[9, 9]],
     u_rand_x = [[0, 0, 0]], u_rand_l = [[[0, 0, 0], [0, 0, 0], [0, 0, 0]]],
     u_rand_t = [[0, 0]]\<rparr>"

text \<open>
  A decoder whose coordinate score is the same row \<open>p\<close> for every atom, the example module
  with the noise scale \<open>sigmas = [0, 1]\<close>, for which the coordinate update of the last
  reverse step is \<open>x - pred_x\<close>, the initial draws with the coordinates \<open>[v, 0, 0]\<close>, and what
  a run of one step returns when it stores the coordinates \<open>[v, 0, 0]\<close> first and
  \<open>[v', 0, 0]\<close> last.
\<close>

definition example_shift_decoder :: "vec \<Rightarrow> decoder_obj" where
  "example_shift_decoder p = \<lparr>
     dec_pred_graph_level = True,
     dec_pred_node_level = False,
     dec_call = (\<lambda>te a x l na nb.
       Inr (map (\<lambda>r. p) x, l, Some a, Some (map (\<lambda>r. [sum_list r]) x), None))\<rparr>"

definition example_module_unit_step :: csp_property where
  "example_module_unit_step = (example_module True False False)\<lparr>
     sigma_scheduler := \<lparr>sigma_begin = 1, sigmas = [0, 1], sigmas_norm = [1, 1]\<rparr>\<rparr>"

definition example_draws_at :: "real \<Rightarrow> init_draws" where
  "example_draws_at v = example_draws\<lparr>draw_x_T := [[v, 0, 0]]\<rparr>"

definition example_result_at :: "real \<Rightarrow> result" where
  "example_result_at v' = \<lparr>r_num_atoms = [1], r_atom_types = [2],
     r_frac_coords = [[v', 0, 0]], r_lattices = [[[1, 0, 0], [0, 1, 0], [0, 0, 1]]]\<rparr>"

definition example_stack_at :: "real \<Rightarrow> real \<Rightarrow> traj_stack" where
  "example_stack_at v v' = \<lparr>ts_num_atoms = [1], ts_atom_types = [[2], [2]],
     all_frac_coords = [[[v, 0, 0]], [[v', 0, 0]]],
     all_lattices = [[[[1, 0, 0], [0, 1, 0], [0, 0, 1]]], [[[1, 0, 0], [0, 1, 0], [0, 0, 1]]]]\<rparr>"

text \<open>
  What a sampling run of the example returns when it starts at timestep \<open>0\<close> and so makes
  no reverse step.
\<close>

definition example_result_no_step :: result where
  "example_result_no_step = \<lparr>r_num_atoms = [1], r_atom_types = [1],
     r_frac_coords = [[1/2, 1/2, 1/2]], r_lattices = [[[1, 0, 0], [0, 1, 0], [0, 0, 1]]]\<rparr>"

definition example_stack_no_step :: traj_stack where
  "example_stack_no_step = \<lparr>ts_num_atoms = [1], ts_atom_types = [[1]],
     all_frac_coords = [[[1/2, 1/2, 1/2]]],
     all_lattices = [[[[1, 0, 0], [0, 1, 0], [0, 0, 1]]]]\<rparr>"



text \<open>
  The default arguments of \<open>CSPNet.__init__\<close>, some weights, and a neighbour search that is
  never reached by a fully-connected network.
\<close>

definition no_knn :: "nat list \<Rightarrow> mat \<Rightarrow> mat list \<Rightarrow> nat list \<Rightarrow> error + (edge_index \<times> mat)" where
  "no_knn num_atoms frac_coords lattices node2graph = Inl NotImplementedError"

definition default_args :: cspnet_args where
  "default_args = \<lparr>
     arg_hidden_dim = 128, arg_num_layers = 4, arg_act_fn = ''silu'', arg_dis_emb = ''sin'',
     arg_num_freqs = 10, arg_edge_style = ''fc'', arg_ln = False, arg_ip = True,
     arg_smooth = False, arg_pred_type = False, arg_pred_graph_level = False,
     arg_pred_node_level = False, arg_pred_dim = None, arg_cfg = False, arg_cfg_prob = 0\<rparr>"

definition example_weights :: weights where
  "example_weights = \<lparr>
     w_embedding_linear = (\<lambda>v. v), w_embedding_table = [],
     w_atom_latent_emb = (\<lambda>v. v),
     w_edge_mlp = (\<lambda>i v. v), w_node_mlp = (\<lambda>i v. v), w_layer_norm = (\<lambda>i v. v),
     w_coord_out = (\<lambda>v. v), w_lattice_out = (\<lambda>v. v), w_final_layer_norm = (\<lambda>v. v),
     w_type_out = (\<lambda>v. v), w_graph_out = (\<lambda>v. v), w_node_out = (\<lambda>v. v),
     w_y_projection = (\<lambda>v. v)\<rparr>"

text \<open>
  The arguments with which the layers can be built: no layer at all, or the activation
  \<open>'silu'\<close> and a displacement embedding \<open>'sin'\<close> or \<open>'none'\<close>.
\<close>

definition layers_buildable :: "cspnet_args \<Rightarrow> bool" where
  "layers_buildable a =
     (arg_num_layers a = 0
      \<or> (arg_act_fn a = ''silu'' \<and> (arg_dis_emb a = ''sin'' \<or> arg_dis_emb a = ''none'')))"

section \<open>The forward corruption as the specification states it\<close>

text \<open>
  \<open>node2graph\<close> as the run-length expansion of the atom counts, and the corrupted state in
  the specification's words, atom by atom and structure by structure, with \<open>g\<close> the structure
  of an atom and \<open>t\<close> the timestep drawn for a structure:
  \<open>x_t = (x_0 + sigma(t) * eps) mod 1\<close>,
  \<open>l_t = sqrt(alphas_cumprod(t)) * l_0 + sqrt(1 - alphas_cumprod(t)) * eps\<close>, and the same
  combination of the one-hot atom type with its noise; \<open>claimed_loss\<close> is the L1 distance
  between the enabled head's prediction on that state and \<open>batch.y\<close>.
\<close>

definition run_length_expansion :: "nat list \<Rightarrow> nat list" where
  "run_length_expansion ns = concat (map2 replicate ns [0..<length ns])"

definition claimed_x_t :: "csp_property \<Rightarrow> batch \<Rightarrow> nat list \<Rightarrow> mat \<Rightarrow> mat" where
  "claimed_x_t self batch ts eps =
     map (\<lambda>(x, g, e).
            map2 (\<lambda>u v. fmod1 (u + sigmas (sigma_scheduler self) ! (ts ! g) * v)) x e)
       (zip (b_frac_coords batch) (zip (b_batch batch) eps))"

definition claimed_l_t :: "csp_property \<Rightarrow> batch \<Rightarrow> nat list \<Rightarrow> mat list \<Rightarrow> mat list" where
  "claimed_l_t self batch ts eps =
     map (\<lambda>(t, L, E).
            map2 (map2 (\<lambda>u v. sqrt (alphas_cumprod (beta_scheduler self) ! t) * u
                              + sqrt (1 - alphas_cumprod (beta_scheduler self) ! t) * v)) L E)
       (zip ts (zip (lattice_params_to_matrix_torch self (b_lengths batch) (b_angles batch))
                    eps))"

definition claimed_types_t :: "csp_property \<Rightarrow> batch \<Rightarrow> nat list \<Rightarrow> mat \<Rightarrow> mat" where
  "claimed_types_t self batch ts eps =
     map (\<lambda>(g, a, e).
            map2 (\<lambda>c v. sqrt (alphas_cumprod (beta_scheduler self) ! (ts ! g))
                            * (if int c = a - 1 then 1 else 0)
                          + sqrt (1 - alphas_cumprod (beta_scheduler self) ! (ts ! g)) * v)
              [0..<MAX_ATOMIC_NUM self] e)
       (zip (b_batch batch) (zip (b_atom_types batch) eps))"

definition claimed_loss ::
  "csp_property \<Rightarrow> batch \<Rightarrow> nat list \<Rightarrow> mat list \<Rightarrow> mat \<Rightarrow> mat \<Rightarrow> error + real" where
  "claimed_loss self batch ts rand_l rand_x rand_t =
     ebind (time_embedding (time_dim self) ts) (\<lambda>time_emb.
     ebind (dec_call (decoder self) time_emb (claimed_types_t self batch ts rand_t)
              (claimed_x_t self batch ts rand_x) (claimed_l_t self batch ts rand_l)
              (b_num_atoms batch) (b_batch batch)) (\<lambda>out.
     ebind (enabled_head (decoder self) (fst (snd (snd (snd out)))) (snd (snd (snd (snd out)))))
       (\<lambda>p. l1_loss p (b_y batch))))"

section \<open>Basic facts\<close>

lemma ebind_Inr [simp]: "ebind (Inr v) f = f v"
  by (simp add: ebind_def)

lemma ebind_Inl [simp]: "ebind (Inl e) f = Inl e"
  by (simp add: ebind_def)

lemma ebind_eq_Inr: "ebind m f = Inr r \<longleftrightarrow> (\<exists>v. m = Inr v \<and> f v = Inr r)"
  by (cases m) simp_all

lemma fmod1_range: "0 \<le> fmod1 x \<and> fmod1 x < 1"
  unfolding fmod1_def by linarith

lemma mod1_range: "row \<in> set (mod1 x) \<Longrightarrow> v \<in> set row \<Longrightarrow> 0 \<le> v \<and> v < 1"
  unfolding mod1_def using fmod1_range by auto

lemma map2_shape:
  "map length A = map length B \<Longrightarrow> map length (map2 (map2 f) A B) = map length A"
  by (induction A arbitrary: B) (auto simp: Cons_eq_map_conv)


lemma smul_shape [simp]: "map length (smul c A) = map length A"
  by (simp add: smul_def)


lemma zeros_like_shape [simp]: "map length (zeros_like A) = map length A"
  by (simp add: zeros_like_def)

lemma zeros_like3_shape [simp]: "map (map length) (zeros_like3 A) = map (map length) A"
  by (simp add: zeros_like3_def)

lemma mat_add_Inr:
  "mat_add A B = Inr C \<longleftrightarrow> map length A = map length B \<and> C = map2 (map2 (+)) A B"
  by (auto simp: mat_add_def same_shape_def)

lemma mat_sub_Inr:
  "mat_sub A B = Inr C \<longleftrightarrow> map length A = map length B \<and> C = map2 (map2 (-)) A B"
  by (auto simp: mat_sub_def same_shape_def)



lemma mat_add_shape:
  assumes "mat_add A B = Inr C"
  shows "map length C = map length A" and "map length B = map length A"
  using assms map2_shape [of A B "(+)"] unfolding mat_add_Inr by (simp_all only:)

lemma mat_sub_shape:
  assumes "mat_sub A B = Inr C"
  shows "map length C = map length A" and "map length B = map length A"
  using assms map2_shape [of A B "(-)"] unfolding mat_sub_Inr by (simp_all only:)



section \<open>Fully-connected edges\<close>

lemma fc_edges_2_3:
  "fst (dense_to_sparse (block_diag (map (\<lambda>n. ones n n) [2, 3]))) =
     ([0, 0, 1, 1, 2, 2, 2, 3, 3, 3, 4, 4, 4], [0, 1, 0, 1, 2, 3, 4, 2, 3, 4, 2, 3, 4])"
  by code_simp

text \<open>
  C1, as stated, fails: for \<open>num_atoms = [2, 3]\<close> the fully-connected builder returns
  13 directed edges, not 8; the self-loop \<open>(0, 0)\<close> is its first edge, and the
  edge-to-structure map has four entries 0 and nine entries 1.
\<close>

theorem gen_edges_fc_eight_edges_counterexample:
  "gen_edges fc_net [2, 3] (replicate 5 [0, 0, 0]) [] [0, 0, 1, 1, 1]
     = Inr (Some (([0, 0, 1, 1, 2, 2, 2, 3, 3, 3, 4, 4, 4],
                   [0, 1, 0, 1, 2, 3, 4, 2, 3, 4, 2, 3, 4]), replicate 13 [0, 0, 0]))
   \<and> length [0, 0, 1, 1, 2, 2, 2, 3, 3, 3, 4, 4, 4 :: nat] \<noteq> 8
   \<and> edge2graph_of [0, 0, 1, 1, 1]
        ([0, 0, 1, 1, 2, 2, 2, 3, 3, 3, 4, 4, 4], [0, 1, 0, 1, 2, 3, 4, 2, 3, 4, 2, 3, 4])
       = Inr [0, 0, 0, 0, 1, 1, 1, 1, 1, 1, 1, 1, 1]
   \<and> edge2graph_of [0, 0, 1, 1, 1]
        ([0, 0, 1, 1, 2, 2, 2, 3, 3, 3, 4, 4, 4], [0, 1, 0, 1, 2, 3, 4, 2, 3, 4, 2, 3, 4])
       \<noteq> Inr [0, 0, 1, 1, 1, 1, 1, 1]"
  unfolding gen_edges_def Let_def fc_edges_2_3
  by (simp add: fc_net_def ebind_def index_select_def edge2graph_of_def frac_diff_rows_def
      fmod1_def numeral_eq_Suc)

text \<open>
  C1, amended: for \<open>num_atoms = [2, 3]\<close> and any coordinates of the five atoms, the
  fully-connected builder returns the \<open>2*2 + 3*3 = 13\<close> directed edges of the two all-ones
  blocks, self-loops included, in row-major order; the edge-to-structure map is
  \<open>[0,0,0,0,1,1,1,1,1,1,1,1,1]\<close>; and the edge \<open>(i, j)\<close> carries \<open>(x\<^sub>j - x\<^sub>i) mod 1\<close>.
\<close>

theorem gen_edges_fc_2_3:
  assumes "edge_style net = ''fc''" and "length x = 5"
  shows "gen_edges net [2, 3] x L n2g =
           Inr (Some (([0, 0, 1, 1, 2, 2, 2, 3, 3, 3, 4, 4, 4],
                       [0, 1, 0, 1, 2, 3, 4, 2, 3, 4, 2, 3, 4]),
                      map (\<lambda>(i, j). map2 (\<lambda>u v. fmod1 (u - v)) (x ! j) (x ! i))
                        (zip [0, 0, 1, 1, 2, 2, 2, 3, 3, 3, 4, 4, 4]
                             [0, 1, 0, 1, 2, 3, 4, 2, 3, 4, 2, 3, 4])))
         \<and> edge2graph_of [0, 0, 1, 1, 1]
             ([0, 0, 1, 1, 2, 2, 2, 3, 3, 3, 4, 4, 4], [0, 1, 0, 1, 2, 3, 4, 2, 3, 4, 2, 3, 4])
           = Inr [0, 0, 0, 0, 1, 1, 1, 1, 1, 1, 1, 1, 1]"
  using assms unfolding gen_edges_def Let_def fc_edges_2_3
  by (simp add: ebind_def index_select_def edge2graph_of_def frac_diff_rows_def)

theorem gen_edges_fc_2_3_witness:
  "gen_edges fc_net [2, 3] [[0, 0, 0], [1/2, 0, 0], [0, 0, 0], [1/4, 0, 0], [0, 3/4, 0]] [] []
     = Inr (Some (([0, 0, 1, 1, 2, 2, 2, 3, 3, 3, 4, 4, 4],
                   [0, 1, 0, 1, 2, 3, 4, 2, 3, 4, 2, 3, 4]),
                  [[0, 0, 0], [1/2, 0, 0], [1/2, 0, 0], [0, 0, 0],
                   [0, 0, 0], [1/4, 0, 0], [0, 3/4, 0],
                   [3/4, 0, 0], [0, 0, 0], [3/4, 3/4, 0],
                   [0, 1/4, 0], [1/4, 1/4, 0], [0, 0, 0]]))"
  using gen_edges_fc_2_3 [of fc_net "[[0, 0, 0], [1/2, 0, 0], [0, 0, 0], [1/4, 0, 0], [0, 3/4, 0]]" "[]" "[]"]
  by (simp add: fc_net_def fmod1_def)

section \<open>The default forward path and the unconditional path\<close>

text \<open>
  C9: with classifier-free guidance switched off (\<open>cfg\<close> false), \<open>CSPNet.forward\<close> on its
  default dispatch path (\<open>unconditional = False\<close>, \<open>conditional = False\<close>) returns, for
  the same inputs and weights, exactly what \<open>CSPNet.unconditional\<close> returns: the same five
  outputs, or the same error.
\<close>

theorem forward_default_eq_unconditional:
  assumes "\<not> cfg self"
  shows "CSPNet_forward self u t atom_types' frac_coords lattices num_atoms node2graph y False False
     = unconditional self t atom_types' frac_coords lattices num_atoms node2graph y"
  unfolding CSPNet_forward_def unconditional_def Let_def
  using assms
  by (simp only: if_False ebind_Inr)

lemma fc_edges_1:
  "fst (dense_to_sparse (block_diag (map (\<lambda>n. ones n n) [1]))) = ([0], [0])"
  by code_simp

lemma example_gen_edges:
  "gen_edges example_net [1] [[1/2, 1/4, 0]] [[[1, 0, 0], [0, 1, 0], [0, 0, 1]]] [0]
     = Inr (Some (([0], [0]), [[0, 0, 0]]))"
  unfolding gen_edges_def Let_def fc_edges_1
  by (simp add: example_net_def index_select_def frac_diff_rows_def fmod1_def)

lemma example_layer_forward:
  "csp_layer_forward example_layer [[3]] [[1/2, 1/4, 0]] [[[1, 0, 0], [0, 1, 0], [0, 0, 1]]]
     ([0], [0]) [0] (Some [[0, 0, 0]]) = Inr [[18]]"
  by (simp add: csp_layer_forward_def example_layer_def edge_model_def node_model_def
      index_select_def sinusoids_embedding_def mat_mul_def view9_def scatter_mean_def
      rows_sum_def Let_def)

lemma example_unconditional:
  "unconditional example_net [[2]] (Hard [1]) [[1/2, 1/4, 0]] [[[1, 0, 0], [0, 1, 0], [0, 0, 1]]]
     [1] [0] None
   = Inr ([[18, 0, 0]], [[[18, 18, 18], [18, 18, 18], [18, 18, 18]]],
          Some [[18, 0]], Some [[18]], None)"
  unfolding unconditional_def example_gen_edges
  by (simp add: example_net_def index_select_def embed_table_def minus_one_def
      repeat_interleave_def cat_rows_def example_layer_forward scatter_mean_def rows_sum_def
      default_dim_size_def apply_head_def call_module_def batch_mat_mul_def mat_mul_def
      view33_def numeral_eq_Suc)

theorem forward_default_eq_unconditional_witness:
  "\<not> cfg example_net
   \<and> CSPNet_forward example_net 0 [[2]] (Hard [1]) [[1/2, 1/4, 0]]
        [[[1, 0, 0], [0, 1, 0], [0, 0, 1]]] [1] [0] None False False
     = Inr ([[18, 0, 0]], [[[18, 18, 18], [18, 18, 18], [18, 18, 18]]],
            Some [[18, 0]], Some [[18]], None)"
  using forward_default_eq_unconditional [of example_net 0 "[[2]]" "Hard [1]" "[[1/2, 1/4, 0]]"
      "[[[1, 0, 0], [0, 1, 0], [0, 0, 1]]]" "[1]" "[0]" None]
    example_unconditional
  by (simp add: example_net_def)

section \<open>Property inference does not depend on the drawn timesteps\<close>

lemma zeros_like_rows:
  "(\<And>x. length (g x) = n) \<Longrightarrow> zeros_like (map g ts) = replicate (length ts) (replicate n 0)"
  by (induction ts) (simp_all add: zeros_like_def map_replicate_const)

lemma time_embedding_zeros:
  "time_embedding d ts = Inr E \<Longrightarrow>
     zeros_like E = replicate (length ts) (replicate (2 * (d div 2)) 0)"
  unfolding time_embedding_def Let_def
  by (auto split: if_splits intro!: zeros_like_rows)

lemma time_embedding_error:
  "time_embedding d ts = Inl e \<Longrightarrow> time_embedding d ts' = Inl e"
  unfolding time_embedding_def Let_def by (auto split: if_splits)

lemma zeros_like_time_embedding:
  assumes "length ts1 = length ts2"
  shows "ebind (time_embedding d ts1) (\<lambda>E. f (zeros_like E))
       = ebind (time_embedding d ts2) (\<lambda>E. f (zeros_like E))"
proof (cases "time_embedding d ts1")
  case (Inl e)
  then show ?thesis using time_embedding_error [OF Inl, of ts2] by simp
next
  case (Inr E)
  then obtain E' where E': "time_embedding d ts2 = Inr E'"
    using time_embedding_error [of d ts2 _ ts1] by (cases "time_embedding d ts2") auto
  show ?thesis
    using time_embedding_zeros [OF Inr] time_embedding_zeros [OF E'] Inr E' assms by simp
qed

text \<open>
  C10: \<open>infer\<close> zeroes the time embedding and feeds the clean atom types, coordinates and
  lattice to the decoder, so two runs on the same batch that differ only in the timesteps
  drawn (one per structure in both) return the same result.
\<close>

theorem infer_independent_of_times:
  assumes "length ts1 = length ts2"
  shows "infer self batch ts1 = infer self batch ts2"
  unfolding infer_def Let_def
  by (rule zeros_like_time_embedding [OF assms])

theorem infer_independent_of_times_witness:
  "infer (example_module True False False\<lparr>time_dim := 4\<rparr>) example_batch [1]
     = infer (example_module True False False\<lparr>time_dim := 4\<rparr>) example_batch [7]
   \<and> infer (example_module True False False\<lparr>time_dim := 4\<rparr>) example_batch [7]
     = Inr ([[3/2]], [[0]])"
proof -
  have l: "length [1 :: nat] = length [7 :: nat]" by simp
  have "infer (example_module True False False\<lparr>time_dim := 4\<rparr>) example_batch [7]
     = Inr ([[3/2]], [[0]])"
    by (simp add: infer_def time_embedding_def zeros_like_def one_hot_def example_module_def
        example_decoder_def example_batch_def enabled_head_def prediction_def Let_def)
  with infer_independent_of_times [OF l] show ?thesis by simp
qed

section \<open>The lattice update of masked sampling\<close>




lemma vec_sub_zero:
  "length A = length B \<Longrightarrow> map2 (-) A (map (\<lambda>v. k * v) (map (\<lambda>_. 0) B)) = (A :: real list)"
proof (induction A arbitrary: B)
  case Nil
  then show ?case by simp
next
  case (Cons a A)
  then obtain b B' where "B = b # B'" by (cases B) auto
  with Cons show ?case by simp
qed

lemma mat_sub_zero:
  "map length A = map length B \<Longrightarrow> map2 (map2 (-)) A (smul k (zeros_like B)) = A"
proof (induction A arbitrary: B)
  case Nil
  then show ?case by (simp add: smul_def zeros_like_def)
next
  case (Cons a A)
  then obtain b B' where B: "B = b # B'" by (cases B) auto
  from Cons.prems have h: "length a = length b" "map length A = map length B'"
    unfolding B by simp_all
  show ?case unfolding B
    using vec_sub_zero [OF h(1), of k] Cons.IH [OF h(2)]
    by (simp add: smul_def zeros_like_def)
qed






















section \<open>The gate of masked sampling\<close>

lemma scale_rows_zero_mask:
  assumes z: "list_all (\<lambda>b. \<not> b) m" and len: "length m = length A"
  shows "scale_rows (mask_column m) A = Inr (zeros_like A)"
proof -
  have "map2 (\<lambda>s r. map (\<lambda>v. s * v) r) (mask_column m) A = zeros_like A"
    using z len
  proof (induction m arbitrary: A)
    case Nil
    then show ?case by (simp add: mask_column_def zeros_like_def)
  next
    case (Cons b m)
    then obtain r A' where "A = r # A'" by (cases A) auto
    with Cons show ?case by (simp add: mask_column_def zeros_like_def)
  qed
  then show ?thesis using len by (simp add: scale_rows_def mask_column_def)
qed

lemma predictor_x_zero_grad:
  assumes "predictor_x st sd aug x px (Some (zeros_like g)) rx = Inr r"
  shows "unguided_x st sd x px rx = Inr r"
proof -
  from assms obtain a b where
    a: "mat_sub x (smul st px) = Inr a" and
    b: "mat_sub a (smul (sd ^ 2 * aug) (zeros_like g)) = Inr b" and
    r: "mat_add b (smul sd rx) = Inr r"
    by (auto simp: predictor_x_def ebind_eq_Inr)
  have "map length a = map length g" using mat_sub_shape(2) [OF b] by simp
  from mat_sub_zero [OF this, of "sd ^ 2 * aug"] b have "b = a"
    unfolding mat_sub_Inr by (simp only:)
  then show ?thesis using a r by (simp add: unguided_x_def)
qed

lemma predictor_t_zero_grad:
  assumes "predictor_t c0 c1 s aug t pt (Some (zeros_like g)) rt = Inr r"
  shows "unguided_t c0 c1 s t pt rt = Inr r"
proof -
  from assms obtain a b where
    a: "(case pt of None \<Rightarrow> Inl TypeError | Some p \<Rightarrow> mat_sub t (smul c1 p)) = Inr a" and
    b: "mat_sub (smul c0 a) (smul (s ^ 2 * aug) (zeros_like g)) = Inr b" and
    r: "mat_add b (smul s rt) = Inr r"
    by (auto simp: predictor_t_def ebind_eq_Inr)
  have "map length (smul c0 a) = map length g" using mat_sub_shape(2) [OF b] by simp
  from mat_sub_zero [OF this, of "s ^ 2 * aug"] b have "b = smul c0 a"
    unfolding mat_sub_Inr by (simp only:)
  then show ?thesis using a r by (simp add: unguided_t_def)
qed

text \<open>
  C6: with a mask of all zeros, the gate of \<open>masked_sample\<close> turns both gradients into
  zeros of their own shape, and the coordinate and type updates are the unguided updates,
  whatever the gradients were.
\<close>

theorem masked_update_zero_mask:
  assumes "list_all (\<lambda>b. \<not> b) m" and "masked_update (Some m) a = Inr (x1, l1, t1)"
  shows "unguided_x (u_step_size a) (u_std_x a) (u_x a) (u_pred_x a) (u_rand_x a) = Inr x1
       \<and> unguided_t (u_c0 a) (u_c1 a) (u_sigmas a) (u_t a) (u_pred_t a) (u_rand_t a) = Inr t1
       \<and> (\<exists>gx gt. u_grad_x a = Some gx \<and> u_grad_t a = Some gt
            \<and> masked_gate (Some m) (Some gx) (Some gt) = Inr (zeros_like gx, zeros_like gt))"
proof -
  from assms(2) obtain gx' gt' where
    gate: "masked_gate (Some m) (u_grad_x a) (u_grad_t a) = Inr (gx', gt')" and
    px: "predictor_x (u_step_size a) (u_std_x a) (u_aug a) (u_x a) (u_pred_x a) (Some gx') (u_rand_x a) = Inr x1" and
    pt: "predictor_t (u_c0 a) (u_c1 a) (u_sigmas a) (u_aug a) (u_t a) (u_pred_t a) (Some gt') (u_rand_t a) = Inr t1"
    by (auto simp: masked_update_def ebind_eq_Inr)
  from gate obtain gx gt where
    g: "u_grad_x a = Some gx" "u_grad_t a = Some gt" and
    len: "length m = length gx" "length gx = length gt"
    by (auto simp: masked_gate_def split: option.splits if_splits)
  have zx: "scale_rows (mask_column m) gx = Inr (zeros_like gx)"
    and zt: "scale_rows (mask_column m) gt = Inr (zeros_like gt)"
    using scale_rows_zero_mask [OF assms(1)] len by simp_all
  have gate': "masked_gate (Some m) (Some gx) (Some gt) = Inr (zeros_like gx, zeros_like gt)"
    using len zx zt by (simp add: masked_gate_def)
  with gate g have eq: "gx' = zeros_like gx" "gt' = zeros_like gt" by simp_all
  show ?thesis
    using predictor_x_zero_grad [OF px [unfolded eq]] predictor_t_zero_grad [OF pt [unfolded eq]]
      g gate' by simp
qed

theorem masked_update_zero_mask_witness:
  "masked_update (Some [False]) example_update_args
     = Inr ([[1/4, 0, 0]], [[[1, 0, 0], [0, 1, 0], [0, 0, 1]]], [[0, 1]])
   \<and> unguided_x 1 1 [[1/2, 0, 0]] [[1/4, 0, 0]] [[0, 0, 0]] = Inr [[1/4, 0, 0]]
   \<and> unguided_t 1 1 1 [[0, 1]] (Some [[0, 0]]) [[0, 0]] = Inr [[0, 1]]
   \<and> masked_gate (Some [False]) (Some [[7, 7, 7]]) (Some [[9, 9]])
       = Inr ([[0, 0, 0]], [[0, 0]])"
proof -
  have z: "list_all (\<lambda>b. \<not> b) [False]" by simp
  have m: "masked_update (Some [False]) example_update_args
     = Inr ([[1/4, 0, 0]], [[[1, 0, 0], [0, 1, 0], [0, 0, 1]]], [[0, 1]])"
    by (simp add: masked_update_def masked_gate_def scale_rows_def mask_column_def
        example_update_args_def predictor_x_def predictor_t_def masked_predictor_l_def
        mat_sub_def mat_add_def mats_sub_def mats_add_def same_shape_def same_shape3_def
        smul_def smul3_def)
  from masked_update_zero_mask [OF z m] m show ?thesis
    by (simp add: example_update_args_def zeros_like_def)
qed

section \<open>The sampling trajectory\<close>

lemma reverse_step_result:
  assumes "reverse_step update self uncod batch step_lr aug l_T x_T t_T noise t traj = Inr traj'"
  shows "\<exists>a r s. traj (int t) = Some s \<and> u_t a = s_atom_types s \<and> update a = Inr r
           \<and> traj' = traj(int t - 1 \<mapsto> snap_of batch r)"
  using assms unfolding reverse_step_def Let_def snap_of_def
  apply (clarsimp simp: ebind_eq_Inr split_def split: if_splits option.splits)
  subgoal
    apply (rule exI, rule conjI [rotated], (rule exI)+, rule conjI, assumption, rule refl)
    apply simp
    done
  subgoal
    apply (rule exI, rule conjI [rotated], (rule exI)+, rule conjI, assumption, rule refl)
    apply simp
    done
  done

lemma sample_init_result:
  assumes "sample_init self batch diff_ratio d = Inr (time_start, l_T, x_T, t_T, traj)"
  shows "traj = [time_start \<mapsto> snap_of batch (x_T, l_T, t_T)]"
    and "\<not> diff_ratio < 1 \<Longrightarrow>
           time_start = int (timesteps (beta_scheduler self)) \<and> t_T = draw_t_T d"
  using assms unfolding sample_init_def Let_def snap_of_def
  by (auto simp: ebind_eq_Inr split: if_splits)

lemma reverse_loop_dom:
  assumes "reverse_loop update self uncod batch step_lr aug l_T x_T t_T noise k traj = Inr traj'"
  shows "dom traj' = dom traj \<union> {j. 0 \<le> j \<and> j < int k} \<and> (\<forall>j. int k \<le> j \<longrightarrow> traj' j = traj j)"
  using assms
proof (induction k arbitrary: traj)
  case 0
  then show ?case by auto
next
  case (Suc k)
  from Suc.prems obtain traj1 where
    st: "reverse_step update self uncod batch step_lr aug l_T x_T t_T noise (Suc k) traj = Inr traj1"
    and lp: "reverse_loop update self uncod batch step_lr aug l_T x_T t_T noise k traj1 = Inr traj'"
    by (auto simp: ebind_eq_Inr)
  from reverse_step_result [OF st] obtain r where t1: "traj1 = traj(int k \<mapsto> snap_of batch r)"
    by auto
  from Suc.IH [OF lp] have
    d: "dom traj' = dom traj1 \<union> {j. 0 \<le> j \<and> j < int k}" and
    p: "\<forall>j. int k \<le> j \<longrightarrow> traj' j = traj1 j" by simp_all
  show ?case using d p unfolding t1 by auto
qed

lemma reverse_loop_inv:
  assumes "reverse_loop update self uncod batch step_lr aug l_T x_T t_T noise k traj = Inr traj'"
    and "\<And>j s. traj j = Some s \<Longrightarrow> P s"
    and "\<And>a r s. update a = Inr r \<Longrightarrow> P s \<Longrightarrow> u_t a = s_atom_types s \<Longrightarrow> P (snap_of batch r)"
    and "traj' j = Some s"
  shows "P s"
  using assms(1,2,4)
proof (induction k arbitrary: traj)
  case 0
  then show ?case by auto
next
  case (Suc k)
  from Suc.prems(1) obtain traj1 where
    st: "reverse_step update self uncod batch step_lr aug l_T x_T t_T noise (Suc k) traj = Inr traj1"
    and lp: "reverse_loop update self uncod batch step_lr aug l_T x_T t_T noise k traj1 = Inr traj'"
    by (auto simp: ebind_eq_Inr)
  from reverse_step_result [OF st] obtain a r s0 where
    s0: "traj (int (Suc k)) = Some s0" "u_t a = s_atom_types s0" "update a = Inr r"
    and t1: "traj1 = traj(int k \<mapsto> snap_of batch r)"
    by auto
  have "P (snap_of batch r)" using assms(3) [OF s0(3) _ s0(2)] Suc.prems(2) [OF s0(1)] .
  then have "\<And>j s. traj1 j = Some s \<Longrightarrow> P s"
    using Suc.prems(2) unfolding t1 by (auto split: if_splits)
  from Suc.IH [OF lp this Suc.prems(3)] show ?case .
qed

lemma sample_traj_snapshots:
  assumes "sample_traj update self uncod batch diff_ratio step_lr aug d noise = Inr (time_start, traj)"
    and "traj k = Some s"
  shows "\<exists>r. s = snap_of batch r"
proof -
  from assms(1) obtain l_T x_T t_T traj0 where
    i: "sample_init self batch diff_ratio d = Inr (time_start, l_T, x_T, t_T, traj0)" and
    l: "reverse_loop update self uncod batch step_lr aug l_T x_T t_T noise (nat time_start) traj0 = Inr traj"
    by (auto simp: sample_traj_def ebind_eq_Inr)
  show ?thesis
  proof (rule reverse_loop_inv [OF l _ _ assms(2), where P = "\<lambda>s. \<exists>r. s = snap_of batch r"])
    fix j s assume "traj0 j = Some s"
    then show "\<exists>r. s = snap_of batch r"
      unfolding sample_init_result(1) [OF i] by (auto split: if_splits)
  next
    fix a r s show "\<exists>r'. snap_of batch r = snap_of batch r'" by blast
  qed
qed

lemma argmax_aux_bound: "bi < i \<Longrightarrow> argmax_aux bi bv i xs < i + length xs"
proof (induction xs arbitrary: bi bv i)
  case Nil
  then show ?case by simp
next
  case (Cons x xs)
  have "argmax_aux i x (Suc i) xs < Suc i + length xs"
    using Cons.IH [of i "Suc i" x] by simp
  moreover have "argmax_aux bi bv (Suc i) xs < Suc i + length xs"
    using Cons.IH [of bi "Suc i" bv] Cons.prems by simp
  ultimately show ?case by simp
qed

lemma argmax_bound: "argmax v = Inr i \<Longrightarrow> i < length v"
  using argmax_aux_bound [of 0 1] by (auto simp: argmax_def split: list.splits)

lemma emap_Inr:
  "emap f xs = Inr ys \<Longrightarrow> list_all2 (\<lambda>x y. f x = Inr y) xs ys"
  by (induction xs arbitrary: ys) (auto simp: ebind_eq_Inr)

lemma argmax_plus_1_bound:
  assumes "argmax_plus_1 A = Inr hard" and "\<forall>r\<in>set A. length r = n" and "a \<in> set hard"
  shows "1 \<le> a \<and> a \<le> n"
proof -
  from emap_Inr [OF assms(1) [unfolded argmax_plus_1_def]]
  have "list_all2 (\<lambda>r y. \<exists>i. argmax r = Inr i \<and> y = i + 1) A hard"
    by (rule list_all2_mono) (auto simp: ebind_eq_Inr)
  then have len: "length A = length hard"
    and all: "\<And>k. k < length hard \<Longrightarrow> \<exists>i. argmax (A ! k) = Inr i \<and> hard ! k = i + 1"
    by (auto simp: list_all2_conv_all_nth)
  from assms(3) obtain k where k: "k < length hard" "a = hard ! k"
    by (auto simp: in_set_conv_nth)
  from all [OF k(1)] obtain i where i: "argmax (A ! k) = Inr i" "hard ! k = i + 1" by blast
  have "A ! k \<in> set A" using k(1) len by simp
  then have "length (A ! k) = n" using assms(2) by blast
  with argmax_bound [OF i(1)] i(2) k(2) show ?thesis by simp
qed

lemma argmax_aux_max:
  assumes "bi < length pre" and "bv = pre ! bi"
    and "\<forall>j<length pre. pre ! j \<le> bv" and "\<forall>j<bi. pre ! j < bv"
  shows "argmax_aux bi bv (length pre) xs < length (pre @ xs)
       \<and> (\<forall>j<length (pre @ xs). (pre @ xs) ! j \<le> (pre @ xs) ! argmax_aux bi bv (length pre) xs)
       \<and> (\<forall>j<argmax_aux bi bv (length pre) xs.
             (pre @ xs) ! j < (pre @ xs) ! argmax_aux bi bv (length pre) xs)"
  using assms
proof (induction xs arbitrary: pre bi bv)
  case Nil
  then show ?case by simp
next
  case (Cons x xs)
  have app: "pre @ x # xs = (pre @ [x]) @ xs" by simp
  have len: "Suc (length pre) = length (pre @ [x])" by simp
  show ?case
  proof (cases "bv < x")
    case True
    have a: "length pre < length (pre @ [x])" by simp
    have b: "x = (pre @ [x]) ! length pre" by simp
    have c: "\<forall>j<length (pre @ [x]). (pre @ [x]) ! j \<le> x"
      using Cons.prems(3) True by (auto simp: nth_append less_Suc_eq)
    have d: "\<forall>j<length pre. (pre @ [x]) ! j < x"
      using Cons.prems(3) True by (auto simp: nth_append)
    from Cons.IH [OF a b c d] True show ?thesis by simp
  next
    case False
    have a: "bi < length (pre @ [x])" using Cons.prems(1) by simp
    have b: "bv = (pre @ [x]) ! bi" using Cons.prems(1,2) by (simp add: nth_append)
    have c: "\<forall>j<length (pre @ [x]). (pre @ [x]) ! j \<le> bv"
      using Cons.prems(3) False by (auto simp: nth_append less_Suc_eq)
    have d: "\<forall>j<bi. (pre @ [x]) ! j < bv"
      using Cons.prems(1,4) by (auto simp: nth_append)
    from Cons.IH [OF a b c d] False show ?thesis by simp
  qed
qed

lemma argmax_is_first_max: "argmax v = Inr i \<Longrightarrow> is_first_max v i"
proof -
  assume a: "argmax v = Inr i"
  then obtain x xs where v: "v = x # xs" and i: "i = argmax_aux 0 x 1 xs"
    by (auto simp: argmax_def split: list.splits)
  have "argmax_aux 0 x (length [x]) xs < length ([x] @ xs)
       \<and> (\<forall>j<length ([x] @ xs). ([x] @ xs) ! j \<le> ([x] @ xs) ! argmax_aux 0 x (length [x]) xs)
       \<and> (\<forall>j<argmax_aux 0 x (length [x]) xs.
             ([x] @ xs) ! j < ([x] @ xs) ! argmax_aux 0 x (length [x]) xs)"
    by (rule argmax_aux_max) simp_all
  then have "i < length v" "\<forall>j<length v. v ! j \<le> v ! i" "\<forall>j<i. v ! j < v ! i"
    unfolding v i by simp_all
  then show ?thesis
    unfolding is_first_max_def by (auto simp: list_all_length)
qed

lemma argmax_plus_1_spec:
  assumes "argmax_plus_1 A = Inr hard"
  shows "list_all2 is_argmax_plus_1 A hard"
proof -
  from emap_Inr [OF assms [unfolded argmax_plus_1_def]]
  have "list_all2 (\<lambda>r y. ebind (argmax r) (\<lambda>i. Inr (i + 1)) = Inr y) A hard" .
  then show ?thesis
    by (rule list_all2_mono)
      (auto simp: ebind_eq_Inr is_argmax_plus_1_def dest: argmax_is_first_max)
qed

lemma predictor_t_shape:
  assumes "predictor_t c0 c1 s aug t pt gt rt = Inr r"
  shows "map length r = map length t"
proof -
  from assms obtain p g a b where
    a: "mat_sub t (smul c1 p) = Inr a" and
    b: "mat_sub (smul c0 a) (smul (s ^ 2 * aug) g) = Inr b" and
    r: "mat_add b (smul s rt) = Inr r"
    by (auto simp: predictor_t_def ebind_eq_Inr split: option.splits)
  show ?thesis
    using mat_sub_shape(1) [OF a] mat_sub_shape(1) [OF b] mat_add_shape(1) [OF r] by simp
qed

lemma sample_update_shape:
  "sample_update a = Inr (x, l, t) \<Longrightarrow> map length t = map length (u_t a)"
  by (auto simp: sample_update_def ebind_eq_Inr dest: predictor_t_shape)

lemma masked_update_shape:
  "masked_update m a = Inr (x, l, t) \<Longrightarrow> map length t = map length (u_t a)"
  by (auto simp: masked_update_def ebind_eq_Inr dest: predictor_t_shape)

lemma rows_length_cong:
  "map length A = map length B \<Longrightarrow> (\<forall>r\<in>set A. length r = n) = (\<forall>r\<in>set B. length r = n)"
proof -
  assume "map length A = map length B"
  then have "length ` set A = length ` set B" by (metis set_map)
  then show ?thesis by (metis (mono_tags, lifting) image_iff)
qed

lemma sample_init_full:
  assumes "sample_init self batch diff_ratio d = Inr (time_start, l_T, x_T, t_T, traj)"
    and "\<not> diff_ratio < 1"
  shows "time_start = int (timesteps (beta_scheduler self))"
    and "l_T = draw_l_T d" and "x_T = draw_x_T d" and "t_T = draw_t_T d"
  using assms unfolding sample_init_def Let_def
  by (auto simp: ebind_eq_Inr split: if_splits)

lemma traj_get_all:
  "list_all2 (\<lambda>k s. traj_get traj k = Inr s) ks snaps \<Longrightarrow> snaps = map (\<lambda>k. the (traj k)) ks"
  by (induction rule: list_all2_induct) (auto simp: traj_get_def split: option.splits)

lemma length_range_down: "length (range_down (int T)) = T + 1"
  by (simp add: range_down_def nat_add_distrib)

lemma reverse_step_append_only:
  assumes "reverse_step update self uncod batch step_lr aug l x tt noise t tr = Inr tr'"
  shows "dom tr' = insert (int t - 1) (dom tr) \<and> (\<forall>k. k \<noteq> int t - 1 \<longrightarrow> tr' k = tr k)"
  using reverse_step_result [OF assms] by auto

text \<open>
  C3: \<open>sample\<close> with \<open>diff_ratio = 1\<close> and \<open>T\<close> scheduler timesteps, when it returns, has built
  a trajectory with exactly the keys \<open>T, ..., 0\<close>, stacked in that order into \<open>T + 1\<close>
  snapshots; a reverse step at \<open>t\<close> adds the key \<open>t - 1\<close> and changes no other entry.  The
  terminal state is the snapshot at key \<open>0\<close> with its soft atom types made hard: the type
  of every atom is one plus the first column that holds the greatest entry of the atom's
  row of soft types, and so lies in \<open>1 .. MAX_ATOMIC_NUM\<close>; the stacked types are made hard
  in the same way at every key.  The initial type draw has \<open>MAX_ATOMIC_NUM\<close> columns, as
  \<open>sample\<close> requests it.
\<close>

theorem sample_full_trajectory:
  assumes run: "sample self uncod batch 1 step_lr aug d noise = Inr (res, stack)"
    and shape: "\<forall>r\<in>set (draw_t_T d). length r = MAX_ATOMIC_NUM self"
    and T: "T = timesteps (beta_scheduler self)"
  shows "\<exists>traj. sample_traj sample_update self uncod batch 1 step_lr aug d noise = Inr (int T, traj)
      \<and> dom traj = {0..int T}
      \<and> traj (int T) = Some (snap_of batch (draw_x_T d, draw_l_T d, draw_t_T d))
      \<and> all_frac_coords stack = map (\<lambda>k. s_frac_coords (the (traj k))) (range_down (int T))
      \<and> all_lattices stack = map (\<lambda>k. s_lattices (the (traj k))) (range_down (int T))
      \<and> length (all_frac_coords stack) = T + 1
      \<and> length (all_lattices stack) = T + 1
      \<and> length (ts_atom_types stack) = T + 1
      \<and> (\<forall>t tr tr' l x tt.
            reverse_step sample_update self uncod batch step_lr aug l x tt noise t tr = Inr tr'
            \<longrightarrow> dom tr' = insert (int t - 1) (dom tr) \<and> (\<forall>k. k \<noteq> int t - 1 \<longrightarrow> tr' k = tr k))
      \<and> r_num_atoms res = s_num_atoms (the (traj 0))
      \<and> r_frac_coords res = s_frac_coords (the (traj 0))
      \<and> r_lattices res = s_lattices (the (traj 0))
      \<and> list_all2 is_argmax_plus_1 (s_atom_types (the (traj 0))) (r_atom_types res)
      \<and> list_all2 (\<lambda>k types. list_all2 is_argmax_plus_1 (s_atom_types (the (traj k))) types)
           (range_down (int T)) (ts_atom_types stack)
      \<and> (\<forall>a\<in>set (r_atom_types res). 1 \<le> a \<and> a \<le> MAX_ATOMIC_NUM self)"
proof -
  from run obtain ts traj where
    tr: "sample_traj sample_update self uncod batch 1 step_lr aug d noise = Inr (ts, traj)" and
    fin: "sample_finish batch ts traj = Inr (res, stack)"
    by (auto simp: sample_def ebind_eq_Inr)
  from tr obtain l_T x_T t_T traj0 where
    i: "sample_init self batch 1 d = Inr (ts, l_T, x_T, t_T, traj0)" and
    l: "reverse_loop sample_update self uncod batch step_lr aug l_T x_T t_T noise (nat ts) traj0
          = Inr traj"
    by (auto simp: sample_traj_def ebind_eq_Inr)
  have ts: "ts = int T" and draws: "l_T = draw_l_T d" "x_T = draw_x_T d" "t_T = draw_t_T d"
    using sample_init_full [OF i] T by simp_all
  have t0: "traj0 = [int T \<mapsto> snap_of batch (draw_x_T d, draw_l_T d, draw_t_T d)]"
    using sample_init_result(1) [OF i] ts draws by simp
  from reverse_loop_dom [OF l] have
    dm: "dom traj = dom traj0 \<union> {j. 0 \<le> j \<and> j < int (nat ts)}" and
    keep: "\<forall>j. int (nat ts) \<le> j \<longrightarrow> traj j = traj0 j" by simp_all
  have dom: "dom traj = {0..int T}" using dm unfolding t0 ts by auto
  have first: "traj (int T) = Some (snap_of batch (draw_x_T d, draw_l_T d, draw_t_T d))"
    using keep unfolding t0 ts by simp
  from fin obtain snaps types res0 hard where
    sn: "emap (traj_get traj) (range_down ts) = Inr snaps" and
    ty: "emap (\<lambda>s. argmax_plus_1 (s_atom_types s)) snaps = Inr types" and
    r0: "traj_get traj 0 = Inr res0" and
    hd: "argmax_plus_1 (s_atom_types res0) = Inr hard" and
    res: "r_atom_types res = hard" and
    res': "r_num_atoms res = s_num_atoms res0" "r_frac_coords res = s_frac_coords res0"
          "r_lattices res = s_lattices res0" and
    st: "all_frac_coords stack = map s_frac_coords snaps"
        "all_lattices stack = map s_lattices snaps"
        "ts_atom_types stack = types"
    unfolding sample_finish_def Let_def
    by (auto simp: ebind_eq_Inr split: if_splits)
  have snaps: "snaps = map (\<lambda>k. the (traj k)) (range_down (int T))"
    using traj_get_all [OF emap_Inr [OF sn]] ts by simp
  have lens: "length snaps = T + 1" unfolding snaps by (simp add: length_range_down)
  have lent: "length types = T + 1"
    using list_all2_lengthD [OF emap_Inr [OF ty]] lens by simp
  have r0': "traj 0 = Some res0" using r0 by (auto simp: traj_get_def split: option.splits)
  have inv: "\<forall>r\<in>set (s_atom_types res0). length r = MAX_ATOMIC_NUM self"
  proof (rule reverse_loop_inv [OF l _ _ r0',
        where P = "\<lambda>s. \<forall>r\<in>set (s_atom_types s). length r = MAX_ATOMIC_NUM self"])
    fix j s assume "traj0 j = Some s"
    then show "\<forall>r\<in>set (s_atom_types s). length r = MAX_ATOMIC_NUM self"
      unfolding t0 using shape by (auto simp: snap_of_def split: if_splits)
  next
    fix a r s
    assume u: "sample_update a = Inr r"
      and P: "\<forall>r\<in>set (s_atom_types s). length r = MAX_ATOMIC_NUM self"
      and e: "u_t a = s_atom_types s"
    obtain x l t where r: "r = (x, l, t)" by (cases r) auto
    from sample_update_shape [OF u [unfolded r]] e
    have "map length t = map length (s_atom_types s)" by simp
    from rows_length_cong [OF this] P
    show "\<forall>r'\<in>set (s_atom_types (snap_of batch r)). length r' = MAX_ATOMIC_NUM self"
      unfolding r by (simp add: snap_of_def)
  qed
  have types: "\<forall>a\<in>set (r_atom_types res). 1 \<le> a \<and> a \<le> MAX_ATOMIC_NUM self"
    using argmax_plus_1_bound [OF hd inv] res by blast
  have steps: "\<forall>t tr tr' l x tt.
      reverse_step sample_update self uncod batch step_lr aug l x tt noise t tr = Inr tr'
      \<longrightarrow> dom tr' = insert (int t - 1) (dom tr) \<and> (\<forall>k. k \<noteq> int t - 1 \<longrightarrow> tr' k = tr k)"
    using reverse_step_append_only by blast
  have stack: "all_frac_coords stack = map (\<lambda>k. s_frac_coords (the (traj k))) (range_down (int T))"
    "all_lattices stack = map (\<lambda>k. s_lattices (the (traj k))) (range_down (int T))"
    unfolding st snaps by simp_all
  have lengths: "length (all_frac_coords stack) = T + 1" "length (all_lattices stack) = T + 1"
    "length (ts_atom_types stack) = T + 1"
    using st lens lent by simp_all
  have r0'': "the (traj 0) = res0" using r0' by simp
  have terminal: "r_num_atoms res = s_num_atoms (the (traj 0))"
    "r_frac_coords res = s_frac_coords (the (traj 0))"
    "r_lattices res = s_lattices (the (traj 0))"
    unfolding r0'' using res' by simp_all
  have hard: "list_all2 is_argmax_plus_1 (s_atom_types (the (traj 0))) (r_atom_types res)"
    unfolding r0'' res using argmax_plus_1_spec [OF hd] .
  have "list_all2 (\<lambda>s types. list_all2 is_argmax_plus_1 (s_atom_types s) types) snaps types"
    using emap_Inr [OF ty] by (rule list_all2_mono) (rule argmax_plus_1_spec)
  then have stacked:
    "list_all2 (\<lambda>k types. list_all2 is_argmax_plus_1 (s_atom_types (the (traj k))) types)
       (range_down (int T)) (ts_atom_types stack)"
    unfolding snaps st by (simp add: list_all2_map1)
  show ?thesis
    using tr [unfolded ts] dom first stack lengths steps terminal hard stacked types by blast
qed

lemma example_init:
  "sample_init (example_module True False False) example_batch 1 example_draws
     = Inr (1, [[[1, 0, 0], [0, 1, 0], [0, 0, 1]]], [[13/10, 0, 0]], [[0, 1]],
            [1 \<mapsto> example_snapshot])"
  by (simp add: sample_init_def example_module_def example_batch_def example_draws_def
      example_snapshot_def wrap_f32_def remainder_f32_def c_fmod1_def)

lemma example_step:
  "reverse_step sample_update (example_module True False False) (example_decoder True False)
     example_batch 0 0 [[[1, 0, 0], [0, 1, 0], [0, 0, 1]]] [[13/10, 0, 0]] [[0, 1]]
     example_noise (Suc 0) [1 \<mapsto> example_snapshot]
   = Inr [1 \<mapsto> example_snapshot, 0 \<mapsto> example_snapshot]"
  by (simp add: reverse_step_def example_module_def example_decoder_def example_batch_def
      example_noise_def example_snapshot_def time_embedding_def table_get_def
      corrector_x_def sample_update_def predictor_x_def predictor_l_def predictor_t_def
      enabled_head_def prediction_def row_norms_def
      mat_sub_def mat_add_def mats_sub_def mats_add_def same_shape_def same_shape3_def
      smul_def smul3_def zeros_like_def zeros_like3_def wrap_f32_def remainder_f32_def c_fmod1_def Let_def)

lemma example_traj:
  "sample_traj sample_update (example_module True False False) (example_decoder True False)
     example_batch 1 0 0 example_draws example_noise
   = Inr (1, [1 \<mapsto> example_snapshot, 0 \<mapsto> example_snapshot])"
  by (simp add: sample_traj_def example_init example_step)

lemma range_down_1: "range_down 1 = [1, 0]"
  by (simp add: range_down_def numeral_2_eq_2)

lemma example_sample:
  "sample (example_module True False False) (example_decoder True False)
     example_batch 1 0 0 example_draws example_noise
   = Inr (example_result, example_stack)"
  unfolding sample_def example_traj
  by (simp add: sample_finish_def range_down_1 traj_get_def
      argmax_plus_1_def argmax_def example_snapshot_def example_result_def example_stack_def
      example_batch_def Let_def)

theorem sample_full_trajectory_witness:
  "sample (example_module True False False) (example_decoder True False)
     example_batch 1 0 0 example_draws example_noise = Inr (example_result, example_stack)
   \<and> timesteps (beta_scheduler (example_module True False False)) = 1
   \<and> list_all (\<lambda>r. length r = MAX_ATOMIC_NUM (example_module True False False))
        (draw_t_T example_draws)
   \<and> length (all_frac_coords example_stack) = 1 + 1
   \<and> s_atom_types example_snapshot = [[0, 1]]
   \<and> r_atom_types example_result = [2]
   \<and> list_all2 is_argmax_plus_1 (s_atom_types example_snapshot) (r_atom_types example_result)
   \<and> list_all (\<lambda>a. 1 \<le> a \<and> a \<le> MAX_ATOMIC_NUM (example_module True False False))
        (r_atom_types example_result)"
proof -
  have shape: "\<forall>r\<in>set (draw_t_T example_draws).
      length r = MAX_ATOMIC_NUM (example_module True False False)"
    by (simp add: example_draws_def example_module_def)
  have T: "1 = timesteps (beta_scheduler (example_module True False False))"
    by (simp add: example_module_def)
  have "\<exists>traj. sample_traj sample_update (example_module True False False)
            (example_decoder True False) example_batch 1 0 0 example_draws example_noise
          = Inr (int 1, traj)
      \<and> length (all_frac_coords example_stack) = 1 + 1
      \<and> list_all2 is_argmax_plus_1 (s_atom_types (the (traj 0))) (r_atom_types example_result)
      \<and> (\<forall>a\<in>set (r_atom_types example_result).
            1 \<le> a \<and> a \<le> MAX_ATOMIC_NUM (example_module True False False))"
    using sample_full_trajectory [OF example_sample shape T] by blast
  then have "length (all_frac_coords example_stack) = 1 + 1
      \<and> list_all2 is_argmax_plus_1 (s_atom_types example_snapshot) (r_atom_types example_result)
      \<and> (\<forall>a\<in>set (r_atom_types example_result).
            1 \<le> a \<and> a \<le> MAX_ATOMIC_NUM (example_module True False False))"
    unfolding example_traj by auto
  then show ?thesis
    using example_sample shape T
    by (simp add: list_all_iff example_result_def example_snapshot_def)
qed

section \<open>The coordinates stored by the sampler\<close>

lemma rne_le: "y \<le> of_int n \<Longrightarrow> rne y \<le> n"
  unfolding rne_def Let_def by (auto simp: floor_le_iff; linarith)

lemma rne_ge: "of_int n \<le> y \<Longrightarrow> n \<le> rne y"
  unfolding rne_def Let_def by (auto simp: le_floor_iff; linarith)

lemma rne_close: "\<bar>of_int (rne y) - y\<bar> \<le> 1/2"
  unfolding rne_def Let_def by (auto; linarith)

lemma ulp_f32_pow: "\<exists>n\<ge>24. ulp_f32 e y = 1 / 2 ^ n"
proof (induction e y rule: ulp_f32.induct)
  case (1 e y)
  show ?case
  proof (cases "126 \<le> e")
    case True
    then have "ulp_f32 e y = 1 / 2 ^ 149" by (subst ulp_f32.simps) simp
    then show ?thesis by (intro exI [of _ 149]) simp
  next
    case False
    show ?thesis
    proof (cases "1 / 2 ^ (e + 1) \<le> y")
      case True
      with False have "ulp_f32 e y = 1 / 2 ^ (e + 24)" by (subst ulp_f32.simps) simp
      then show ?thesis by (intro exI [of _ "e + 24"]) simp
    next
      case F2: False
      with False have "ulp_f32 e y = ulp_f32 (e + 1) y" by (subst ulp_f32.simps) simp
      with 1 [OF False F2] show ?thesis by simp
    qed
  qed
qed

lemma ulp_f32_pos: "0 < ulp_f32 e y"
  using ulp_f32_pow [of e y] by auto

lemma ulp_f32_small: "ulp_f32 e y \<le> 1 / 2 ^ 24"
proof -
  from ulp_f32_pow [of e y] obtain n where n: "24 \<le> n" "ulp_f32 e y = 1 / 2 ^ n" by blast
  have "(2 :: real) ^ 24 \<le> 2 ^ n" using n(1) by (intro power_increasing) simp_all
  then show ?thesis unfolding n(2) by (simp add: field_simps)
qed

lemma round_f32_close: "\<bar>round_f32 y - y\<bar> \<le> 1 / 2 ^ 25"
proof -
  let ?u = "ulp_f32 0 y"
  have u: "0 < ?u" by (rule ulp_f32_pos)
  have "round_f32 y - y = (of_int (rne (y / ?u)) - y / ?u) * ?u"
    unfolding round_f32_def Let_def using u by (simp add: left_diff_distrib)
  then have "\<bar>round_f32 y - y\<bar> = \<bar>of_int (rne (y / ?u)) - y / ?u\<bar> * ?u"
    using u by (simp add: abs_mult)
  also have "\<dots> \<le> 1/2 * ?u"
    using rne_close [of "y / ?u"] u by (intro mult_right_mono) simp_all
  also have "\<dots> \<le> 1/2 * (1 / 2 ^ 24)"
    using ulp_f32_small [of 0 y] by (intro mult_left_mono) simp_all
  finally show ?thesis by simp
qed

lemma round_f32_range:
  assumes "0 \<le> y" "y \<le> 1"
  shows "0 \<le> round_f32 y \<and> round_f32 y \<le> 1"
proof -
  from ulp_f32_pow [of 0 y] obtain n where n: "ulp_f32 0 y = 1 / 2 ^ n" by blast
  have "(0 :: real) \<le> y * 2 ^ n" using assms(1) by simp
  then have "of_int 0 \<le> y * 2 ^ n" by simp
  from rne_ge [OF this] have lo: "0 \<le> rne (y * 2 ^ n)" .
  have "y * 2 ^ n \<le> 1 * 2 ^ n" using assms(2) by (intro mult_right_mono) simp_all
  then have "y * 2 ^ n \<le> of_int (2 ^ n)" by simp
  from rne_le [OF this] have hi: "rne (y * 2 ^ n) \<le> 2 ^ n" .
  have hi': "real_of_int (rne (y * 2 ^ n)) \<le> 2 ^ n"
    using hi by (metis of_int_le_iff of_int_numeral of_int_power)
  show ?thesis
    unfolding round_f32_def Let_def n using lo hi' by (simp add: field_simps)
qed

lemma c_fmod1_range: "- 1 < c_fmod1 a \<and> c_fmod1 a < 1"
  unfolding c_fmod1_def by (auto; linarith)

lemma c_fmod1_sign: "(c_fmod1 a < 0 \<longrightarrow> a < 0) \<and> (0 \<le> a \<longrightarrow> 0 \<le> c_fmod1 a)"
  unfolding c_fmod1_def by (auto; linarith)

lemma remainder_f32_range: "0 \<le> remainder_f32 a \<and> remainder_f32 a \<le> 1"
proof (cases "c_fmod1 a < 0")
  case True
  then have "remainder_f32 a = round_f32 (c_fmod1 a + 1)"
    by (simp add: remainder_f32_def Let_def)
  moreover have "0 \<le> c_fmod1 a + 1" "c_fmod1 a + 1 \<le> 1"
    using c_fmod1_range [of a] True by simp_all
  ultimately show ?thesis using round_f32_range by simp
next
  case False
  then have "remainder_f32 a = c_fmod1 a" by (simp add: remainder_f32_def Let_def)
  with False c_fmod1_range [of a] show ?thesis by simp
qed

lemma remainder_f32_nonneg: "0 \<le> a \<Longrightarrow> remainder_f32 a = fmod1 a"
  using c_fmod1_sign [of a] by (simp add: remainder_f32_def Let_def c_fmod1_def fmod1_def)

lemma c_fmod1_neg: "c_fmod1 a < 0 \<Longrightarrow> c_fmod1 a + 1 = fmod1 a"
  unfolding c_fmod1_def fmod1_def
  by (auto split: if_splits simp: ceiling_altdef; linarith)

lemma c_fmod1_zero: "a < 0 \<Longrightarrow> \<not> c_fmod1 a < 0 \<Longrightarrow> c_fmod1 a = fmod1 a"
  unfolding c_fmod1_def fmod1_def
  by (auto split: if_splits simp: ceiling_altdef; linarith)

lemma remainder_f32_fmod1:
  "remainder_f32 a = (if c_fmod1 a < 0 then round_f32 (fmod1 a) else fmod1 a)"
proof (cases "c_fmod1 a < 0")
  case True
  then show ?thesis by (simp add: remainder_f32_def Let_def c_fmod1_neg)
next
  case False
  show ?thesis
  proof (cases "0 \<le> a")
    case True
    with False remainder_f32_nonneg [OF True] show ?thesis by simp
  next
    case F: False
    with False c_fmod1_zero [of a] show ?thesis by (simp add: remainder_f32_def Let_def)
  qed
qed

lemma remainder_f32_close: "\<bar>remainder_f32 a - fmod1 a\<bar> \<le> 1 / 2 ^ 25"
  unfolding remainder_f32_fmod1 using round_f32_close [of "fmod1 a"] by simp

lemma ulp_f32_top: "1 / 2 \<le> y \<Longrightarrow> ulp_f32 0 y = 1 / 2 ^ 24"
  by (subst ulp_f32.simps) simp

lemma rne_top:
  assumes "16777216 - 1 / 2 \<le> z" and "z < 16777216"
  shows "rne z = 16777216"
proof -
  have f: "\<lfloor>z\<rfloor> = 16777215" using assms by (intro floor_unique) simp_all
  have "odd (16777215 :: int)" by simp
  then show ?thesis
    unfolding rne_def Let_def f using assms by auto
qed

lemma round_f32_one:
  assumes "1 - 1 / 2 ^ 25 \<le> y" and "y < 1"
  shows "round_f32 y = 1"
proof -
  have h: "1 / 2 \<le> y" using assms(1) by simp
  have "rne (y * 16777216) = 16777216"
    using assms by (intro rne_top) simp_all
  then show ?thesis
    unfolding round_f32_def Let_def ulp_f32_top [OF h] by simp
qed

lemma remainder_f32_one:
  "remainder_f32 a = 1 \<longleftrightarrow> c_fmod1 a < 0 \<and> - (1 / 2 ^ 25) \<le> c_fmod1 a"
proof
  assume one: "remainder_f32 a = 1"
  have neg: "c_fmod1 a < 0"
  proof (rule ccontr)
    assume "\<not> c_fmod1 a < 0"
    then have "remainder_f32 a = c_fmod1 a" by (simp add: remainder_f32_def Let_def)
    with one c_fmod1_range [of a] show False by simp
  qed
  then have "round_f32 (c_fmod1 a + 1) = 1"
    using one by (simp add: remainder_f32_def Let_def)
  with round_f32_close [of "c_fmod1 a + 1"] have "- (1 / 2 ^ 25) \<le> c_fmod1 a" by simp
  with neg show "c_fmod1 a < 0 \<and> - (1 / 2 ^ 25) \<le> c_fmod1 a" by simp
next
  assume h: "c_fmod1 a < 0 \<and> - (1 / 2 ^ 25) \<le> c_fmod1 a"
  then have "round_f32 (c_fmod1 a + 1) = 1" by (intro round_f32_one) simp_all
  with h show "remainder_f32 a = 1" by (simp add: remainder_f32_def Let_def)
qed

lemma remainder_f32_tiny_negative: "remainder_f32 (- (1 / 2 ^ 25)) = 1"
proof -
  have "\<lceil>- (1 / 2 ^ 25) :: real\<rceil> = 0" by (rule ceiling_unique) simp_all
  then have "c_fmod1 (- (1 / 2 ^ 25)) = - (1 / 2 ^ 25)" by (simp add: c_fmod1_def)
  then show ?thesis unfolding remainder_f32_one by simp
qed

lemma remainder_f32_examples:
  "remainder_f32 (13 / 10) = 3 / 10"
  "remainder_f32 (10905190 / 2 ^ 23) = 2516582 / 2 ^ 23"
  "remainder_f32 0 = 0"
  by (simp_all add: remainder_f32_def c_fmod1_def Let_def)

lemma wrap_f32_range: "row \<in> set (wrap_f32 x) \<Longrightarrow> v \<in> set row \<Longrightarrow> 0 \<le> v \<and> v \<le> 1"
  unfolding wrap_f32_def using remainder_f32_range by auto

lemma example_unit_step:
  "reverse_step sample_update example_module_unit_step (example_shift_decoder [p, 0, 0])
     example_batch 0 0 [[[1, 0, 0], [0, 1, 0], [0, 0, 1]]] [[v, 0, 0]] [[0, 1]]
     example_noise (Suc 0) [1 \<mapsto> example_snapshot\<lparr>s_frac_coords := [[w, 0, 0]]\<rparr>]
   = Inr [1 \<mapsto> example_snapshot\<lparr>s_frac_coords := [[w, 0, 0]]\<rparr>,
          0 \<mapsto> example_snapshot\<lparr>s_frac_coords := [[remainder_f32 (w - p), 0, 0]]\<rparr>]"
  by (simp add: reverse_step_def example_module_unit_step_def example_module_def
      example_shift_decoder_def example_decoder_def example_batch_def
      example_noise_def example_snapshot_def time_embedding_def table_get_def
      corrector_x_def sample_update_def predictor_x_def predictor_l_def predictor_t_def
      enabled_head_def prediction_def row_norms_def
      mat_sub_def mat_add_def mats_sub_def mats_add_def same_shape_def same_shape3_def
      smul_def smul3_def zeros_like_def zeros_like3_def wrap_f32_def remainder_f32_examples
      Let_def)

lemma example_unit_step_init:
  "sample_init example_module_unit_step example_batch 1 (example_draws_at v)
     = Inr (1, [[[1, 0, 0], [0, 1, 0], [0, 0, 1]]], [[v, 0, 0]], [[0, 1]],
            [1 \<mapsto> example_snapshot\<lparr>s_frac_coords := [[remainder_f32 v, 0, 0]]\<rparr>])"
  by (simp add: sample_init_def example_module_unit_step_def example_module_def
      example_batch_def example_draws_at_def example_draws_def example_snapshot_def
      wrap_f32_def remainder_f32_examples)

lemma example_unit_step_traj:
  "sample_traj sample_update example_module_unit_step (example_shift_decoder [p, 0, 0])
     example_batch 1 0 0 (example_draws_at v) example_noise
   = Inr (1, [1 \<mapsto> example_snapshot\<lparr>s_frac_coords := [[remainder_f32 v, 0, 0]]\<rparr>,
              0 \<mapsto> example_snapshot\<lparr>s_frac_coords :=
                     [[remainder_f32 (remainder_f32 v - p), 0, 0]]\<rparr>])"
  unfolding sample_traj_def example_unit_step_init by (simp add: example_unit_step)

lemma example_unit_step_sample:
  "sample example_module_unit_step (example_shift_decoder [p, 0, 0]) example_batch 1 0 0
     (example_draws_at v) example_noise
   = Inr (example_result_at (remainder_f32 (remainder_f32 v - p)),
          example_stack_at (remainder_f32 v) (remainder_f32 (remainder_f32 v - p)))"
  unfolding sample_def example_unit_step_traj
  by (simp add: sample_finish_def range_down_1 traj_get_def
      argmax_plus_1_def argmax_def example_snapshot_def example_result_at_def
      example_stack_at_def example_batch_def Let_def)

text \<open>
  C4 as stated fails in single precision.  The example sampler starts from the coordinate
  \<open>0\<close> and its only reverse step subtracts the score \<open>2\<^sup>-\<^sup>2\<^sup>5\<close>; every operation up to the
  modulo is exact in single precision too.  \<open>fmod\<close> of \<open>-2\<^sup>-\<^sup>2\<^sup>5\<close> is \<open>-2\<^sup>-\<^sup>2\<^sup>5\<close>, and
  \<open>1 - 2\<^sup>-\<^sup>2\<^sup>5\<close> lies half-way between \<open>1 - 2\<^sup>-\<^sup>2\<^sup>4\<close> and \<open>1\<close> and rounds to \<open>1\<close>: the
  coordinate stored at key \<open>0\<close> and returned is \<open>1\<close>, which is not in \<open>[0, 1)\<close>.
\<close>

theorem stored_coordinate_one_counterexample:
  "sample example_module_unit_step (example_shift_decoder [1 / 2 ^ 25, 0, 0]) example_batch
     1 0 0 (example_draws_at 0) example_noise
   = Inr (example_result_at 1, example_stack_at 0 1)
   \<and> r_frac_coords (example_result_at 1) = [[1, 0, 0]]
   \<and> all_frac_coords (example_stack_at 0 1) = [[[0, 0, 0]], [[1, 0, 0]]]"
  unfolding example_unit_step_sample using remainder_f32_tiny_negative
  by (simp add: remainder_f32_examples example_result_at_def example_stack_at_def)

text \<open>
  C4, amended: every snapshot stored in the sampling trajectory holds \<open>x % 1.\<close> of the
  coordinates it is stored for: the initial snapshot of the initial coordinates \<open>x_T\<close>, the
  snapshot stored by a reverse step of the coordinates \<open>x_t_minus_1\<close> that the predictor
  update returns.  Every stored coordinate lies in the closed interval \<open>[0, 1]\<close> and within
  \<open>2\<^sup>-\<^sup>2\<^sup>5\<close> of the exact value modulo one.  For a non-negative value it is the exact value
  modulo one, below \<open>1\<close>; so \<open>1.3\<close> is stored as \<open>0.3\<close>.  It is \<open>1\<close> exactly for the negative
  values whose fractional part \<open>fmod(x, 1)\<close> is at least \<open>-2\<^sup>-\<^sup>2\<^sup>5\<close>.
\<close>

theorem stored_coordinates_wrapped:
  "(sample_init self batch diff_ratio d = Inr (time_start, l_T, x_T, t_T, traj0) \<longrightarrow>
      traj0 = [time_start \<mapsto> \<lparr>s_num_atoms = b_num_atoms batch, s_atom_types = t_T,
                               s_frac_coords = wrap_f32 x_T, s_lattices = l_T\<rparr>])
   \<and> (reverse_step update self uncod batch step_lr aug l x tt noise t traj = Inr traj' \<longrightarrow>
        (\<exists>a x_t_minus_1 l_t_minus_1 t_t_minus_1.
            update a = Inr (x_t_minus_1, l_t_minus_1, t_t_minus_1)
            \<and> traj' = traj(int t - 1 \<mapsto>
                  \<lparr>s_num_atoms = b_num_atoms batch, s_atom_types = t_t_minus_1,
                   s_frac_coords = wrap_f32 x_t_minus_1, s_lattices = l_t_minus_1\<rparr>)))
   \<and> (sample_traj update self uncod batch diff_ratio step_lr aug d noise = Inr (ts, trj)
        \<and> trj k = Some s \<longrightarrow>
        (\<exists>y. s_frac_coords s = wrap_f32 y)
        \<and> (\<forall>row\<in>set (s_frac_coords s). \<forall>c\<in>set row. 0 \<le> c \<and> c \<le> 1))
   \<and> wrap_f32 A = map (map remainder_f32) A
   \<and> 0 \<le> remainder_f32 v \<and> remainder_f32 v \<le> 1
   \<and> \<bar>remainder_f32 v - fmod1 v\<bar> \<le> 1 / 2 ^ 25
   \<and> (0 \<le> v \<longrightarrow> remainder_f32 v = fmod1 v \<and> remainder_f32 v < 1)
   \<and> (remainder_f32 v = 1 \<longleftrightarrow> c_fmod1 v < 0 \<and> - (1 / 2 ^ 25) \<le> c_fmod1 v)
   \<and> remainder_f32 (13 / 10) = 3 / 10
   \<and> remainder_f32 (10905190 / 2 ^ 23) = 2516582 / 2 ^ 23"
proof (intro conjI impI)
  assume "sample_init self batch diff_ratio d = Inr (time_start, l_T, x_T, t_T, traj0)"
  from sample_init_result(1) [OF this]
  show "traj0 = [time_start \<mapsto> \<lparr>s_num_atoms = b_num_atoms batch, s_atom_types = t_T,
                               s_frac_coords = wrap_f32 x_T, s_lattices = l_T\<rparr>]"
    by (simp add: snap_of_def)
next
  assume "reverse_step update self uncod batch step_lr aug l x tt noise t traj = Inr traj'"
  from reverse_step_result [OF this] obtain a r where
    u: "update a = Inr r" and t: "traj' = traj(int t - 1 \<mapsto> snap_of batch r)" by blast
  obtain x1 l1 t1 where r: "r = (x1, l1, t1)" by (cases r) auto
  show "\<exists>a x_t_minus_1 l_t_minus_1 t_t_minus_1.
            update a = Inr (x_t_minus_1, l_t_minus_1, t_t_minus_1)
            \<and> traj' = traj(int t - 1 \<mapsto>
                  \<lparr>s_num_atoms = b_num_atoms batch, s_atom_types = t_t_minus_1,
                   s_frac_coords = wrap_f32 x_t_minus_1, s_lattices = l_t_minus_1\<rparr>)"
    using u t unfolding r snap_of_def by auto
next
  assume h: "sample_traj update self uncod batch diff_ratio step_lr aug d noise = Inr (ts, trj)
        \<and> trj k = Some s"
  then obtain r where "s = snap_of batch r" using sample_traj_snapshots by blast
  then obtain y where c: "s_frac_coords s = wrap_f32 y"
    by (cases r) (simp add: snap_of_def)
  then show "\<exists>y. s_frac_coords s = wrap_f32 y" by blast
  show "\<forall>row\<in>set (s_frac_coords s). \<forall>c\<in>set row. 0 \<le> c \<and> c \<le> 1"
    unfolding c using wrap_f32_range by blast
next
  show "wrap_f32 A = map (map remainder_f32) A" by (rule wrap_f32_def)
  show "0 \<le> remainder_f32 v" "remainder_f32 v \<le> 1"
    using remainder_f32_range [of v] by simp_all
  show "\<bar>remainder_f32 v - fmod1 v\<bar> \<le> 1 / 2 ^ 25" by (rule remainder_f32_close)
  show "(remainder_f32 v = 1) = (c_fmod1 v < 0 \<and> - (1 / 2 ^ 25) \<le> c_fmod1 v)"
    by (rule remainder_f32_one)
  show "remainder_f32 (13 / 10) = 3 / 10" by (rule remainder_f32_examples)
  show "remainder_f32 (10905190 / 2 ^ 23) = 2516582 / 2 ^ 23" by (rule remainder_f32_examples)
next
  assume "0 \<le> v"
  then show "remainder_f32 v = fmod1 v" by (rule remainder_f32_nonneg)
  then show "remainder_f32 v < 1" using fmod1_range [of v] by simp
qed

text \<open>
  A run whose only reverse step pushes the coordinate \<open>0.3\<close> to \<open>1.3\<close>, which is stored as
  \<open>0.3\<close>: both snapshots of the trajectory hold \<open>[0.3, 0, 0]\<close>, within \<open>[0, 1]\<close>.  The
  single-precision number nearest to \<open>1.3\<close> is \<open>10905190 / 2\<^sup>2\<^sup>3\<close> and is stored as itself
  minus one, \<open>2516582 / 2\<^sup>2\<^sup>3\<close>.
\<close>

theorem stored_coordinates_wrapped_witness:
  "sample_traj sample_update example_module_unit_step (example_shift_decoder [- 1, 0, 0])
     example_batch 1 0 0 (example_draws_at (3 / 10)) example_noise
   = Inr (1, [1 \<mapsto> example_snapshot, 0 \<mapsto> example_snapshot])
   \<and> s_frac_coords example_snapshot = [[3 / 10, 0, 0]]
   \<and> list_all (list_all (\<lambda>c. 0 \<le> c \<and> c \<le> 1)) (s_frac_coords example_snapshot)
   \<and> predictor_x 1 0 0 [[3 / 10, 0, 0]] [[- 1, 0, 0]] (Some [[0, 0, 0]]) [[0, 0, 0]]
       = Inr [[13 / 10, 0, 0]]
   \<and> wrap_f32 [[13 / 10, 0, 0]] = [[3 / 10, 0, 0]]
   \<and> remainder_f32 (10905190 / 2 ^ 23) = 2516582 / 2 ^ 23
   \<and> remainder_f32 (- (1 / 2 ^ 25)) = 1"
proof -
  have t: "sample_traj sample_update example_module_unit_step
      (example_shift_decoder [- 1, 0, 0]) example_batch 1 0 0 (example_draws_at (3 / 10))
      example_noise
    = Inr (1, [1 \<mapsto> example_snapshot, 0 \<mapsto> example_snapshot])"
    unfolding example_unit_step_traj
    by (simp add: remainder_f32_def c_fmod1_def example_snapshot_def)
  have k: "[1 \<mapsto> example_snapshot, 0 \<mapsto> example_snapshot] (0 :: int) = Some example_snapshot"
    by simp
  have r: "\<forall>row\<in>set (s_frac_coords example_snapshot). \<forall>c\<in>set row. 0 \<le> c \<and> c \<le> 1"
    by (rule stored_coordinates_wrapped [where update = sample_update
        and self = example_module_unit_step and uncod = "example_shift_decoder [- 1, 0, 0]"
        and batch = example_batch and diff_ratio = 1 and step_lr = 0 and aug = 0
        and d = "example_draws_at (3 / 10)" and noise = example_noise and ts = 1
        and trj = "[1 \<mapsto> example_snapshot, 0 \<mapsto> example_snapshot]" and k = 0
        and s = example_snapshot, THEN conjunct2, THEN conjunct2, THEN conjunct1, THEN mp,
        THEN conjunct2, OF conjI [OF t k]])
  have p: "predictor_x 1 0 0 [[3 / 10, 0, 0]] [[- 1, 0, 0]] (Some [[0, 0, 0]]) [[0, 0, 0]]
       = Inr [[13 / 10, 0, 0]]"
    by (simp add: predictor_x_def mat_sub_def mat_add_def same_shape_def smul_def)
  have c: "c_fmod1 (- (1 / 2 ^ 25)) = - (1 / 2 ^ 25)"
  proof -
    have "\<lceil>- (1 / 2 ^ 25) :: real\<rceil> = 0" by (rule ceiling_unique) simp_all
    then show ?thesis by (simp add: c_fmod1_def)
  qed
  have w: "wrap_f32 [[13 / 10, 0, 0]] = [[3 / 10, 0, 0]]"
    and f: "remainder_f32 (10905190 / 2 ^ 23) = 2516582 / 2 ^ 23"
    and o: "remainder_f32 (- (1 / 2 ^ 25)) = 1"
    using stored_coordinates_wrapped [where A = "[[13 / 10, 0, 0]]" and v = "13 / 10"]
      stored_coordinates_wrapped [where v = "- (1 / 2 ^ 25)"] c
    by (simp_all add: remainder_f32_examples(3))
  from t r p w f o show ?thesis
    by (simp add: list_all_iff example_snapshot_def)
qed

section \<open>Mean aggregation in the node update\<close>

lemma zip_filter_nth:
  assumes "length idx = length src"
  shows "map snd (filter (\<lambda>p. fst p = a) (zip idx src))
       = map (\<lambda>e. src ! e) (filter (\<lambda>e. idx ! e = a) [0..<length src])"
proof -
  have z: "zip idx src = map (\<lambda>e. (idx ! e, src ! e)) [0..<length src]"
    by (rule nth_equalityI) (simp_all add: assms)
  show ?thesis unfolding z by (simp add: filter_map comp_def)
qed

lemma rows_sum_length:
  "\<forall>r\<in>set rows. length r = F \<Longrightarrow> length (rows_sum F rows) = F"
  by (induction rows) (auto simp: rows_sum_def)

lemma rows_sum_nth:
  "\<forall>r\<in>set rows. length r = F \<Longrightarrow> j < F
     \<Longrightarrow> rows_sum F rows ! j = sum_list (map (\<lambda>r. r ! j) rows)"
proof (induction rows)
  case Nil
  then show ?case by (simp add: rows_sum_def)
next
  case (Cons r rows)
  then have l: "length (rows_sum F rows) = F" using rows_sum_length by auto
  have "rows_sum F (r # rows) = map2 (+) r (rows_sum F rows)" by (simp add: rows_sum_def)
  with Cons l show ?case by simp
qed

lemma rows_mean:
  assumes "\<forall>r\<in>set rows. length r = F"
  shows "map (\<lambda>s. s / real (max 1 (length rows))) (rows_sum F rows) = mean_rows F rows"
proof (cases "rows = []")
  case True
  then show ?thesis by (simp add: mean_rows_def rows_sum_def)
next
  case False
  then have m: "max 1 (length rows) = length rows" by (cases rows) auto
  have "map (\<lambda>s. s / real (length rows)) (rows_sum F rows)
        = map (\<lambda>j. sum_list (map (\<lambda>r. r ! j) rows) / real (length rows)) [0..<F]"
    by (rule nth_equalityI) (simp_all add: rows_sum_length [OF assms] rows_sum_nth [OF assms])
  then show ?thesis unfolding mean_rows_def m using False by simp
qed

lemma scatter_mean_total:
  assumes "length index = length src" and "list_all (\<lambda>i. i < n) index"
    and "\<forall>r\<in>set src. length r = F"
  shows "scatter_mean F src index n
       = Inr (map (\<lambda>a. mean_rows F (source_edges (index, other) src a)) [0..<n])"
proof -
  have "\<And>a. map (\<lambda>s. s / real (max 1 (length (map snd (filter (\<lambda>p. fst p = a) (zip index src))))))
              (rows_sum F (map snd (filter (\<lambda>p. fst p = a) (zip index src))))
            = mean_rows F (source_edges (index, other) src a)"
  proof -
    fix a
    have e: "map snd (filter (\<lambda>p. fst p = a) (zip index src)) = source_edges (index, other) src a"
      unfolding source_edges_def using zip_filter_nth [OF assms(1), of a] by simp
    have "set (source_edges (index, other) src a) \<subseteq> set src"
      by (auto simp: source_edges_def)
    with assms(3) have w: "\<forall>r\<in>set (source_edges (index, other) src a). length r = F" by blast
    show "map (\<lambda>s. s / real (max 1 (length (map snd (filter (\<lambda>p. fst p = a) (zip index src))))))
              (rows_sum F (map snd (filter (\<lambda>p. fst p = a) (zip index src))))
            = mean_rows F (source_edges (index, other) src a)"
      unfolding e by (rule rows_mean [OF w])
  qed
  then show ?thesis
    using assms(1,2) by (simp add: scatter_mean_def Let_def)
qed

text \<open>
  C7 as stated fails.  Two atoms with features \<open>1\<close> and \<open>2\<close>, and two edges \<open>0 \<rightarrow> 0\<close> and
  \<open>0 \<rightarrow> 1\<close> (first endpoints \<open>[0, 0]\<close>, second endpoints \<open>[0, 1]\<close>) with features \<open>4\<close> and \<open>6\<close>:
  the code gives atom 0 the mean of both edges and atom 1, the destination of the second
  edge, the zero vector; grouping by destination atom would give atom 0 the first edge and
  atom 1 the second.
\<close>

theorem node_model_groups_by_source_counterexample:
  "node_model example_layer [[1], [2]] [[4], [6]] ([0, 0], [0, 1]) = Inr [[6], [2]]
   \<and> claimed_node_model example_layer [[1], [2]] [[4], [6]] ([0, 0], [0, 1]) = [[5], [8]]
   \<and> destination_edges ([0, 0], [0, 1]) [[4], [6]] 1 = [[6]]
   \<and> source_edges ([0, 0], [0, 1]) [[4], [6]] 1 = []"
  by (simp add: node_model_def claimed_node_model_def destination_edges_def source_edges_def mean_rows_def
      example_layer_def scatter_mean_def rows_sum_def Let_def numeral_2_eq_2)

text \<open>
  C7, amended: the node update of a layer gives atom \<open>a\<close> the entry-wise mean of the features
  of the edges whose first endpoint \<open>edge_index[0]\<close> is \<open>a\<close> (the endpoint the specification
  calls the source atom), concatenated to the atom's own features; an atom that is the
  first endpoint of no edge gets the zero vector.  The update is total: it returns whenever
  \<open>edge_index[0]\<close> has one entry per edge-feature row, each an atom index, and the rows
  have the width of the layer.
\<close>

theorem node_model_mean_aggregation:
  assumes len: "length (fst edge_index) = length edge_features"
    and idx: "list_all (\<lambda>i. i < length node_features) (fst edge_index)"
    and w: "\<forall>r\<in>set edge_features. length r = cl_hidden_dim self"
  shows "node_model self node_features edge_features edge_index
           = Inr (map (\<lambda>a. node_mlp self (node_features ! a
                        @ mean_rows (cl_hidden_dim self)
                            (source_edges edge_index edge_features a)))
                    [0..<length node_features])
       \<and> (\<forall>a<length node_features. source_edges edge_index edge_features a = [] \<longrightarrow>
             mean_rows (cl_hidden_dim self) (source_edges edge_index edge_features a)
               = replicate (cl_hidden_dim self) 0)"
proof -
  have s: "source_edges (fst edge_index, snd edge_index) edge_features
             = source_edges edge_index edge_features" by simp
  have "map (node_mlp self) (map2 (@) node_features
          (map (\<lambda>a. mean_rows (cl_hidden_dim self) (source_edges edge_index edge_features a))
             [0..<length node_features]))
        = map (\<lambda>a. node_mlp self (node_features ! a
                 @ mean_rows (cl_hidden_dim self) (source_edges edge_index edge_features a)))
            [0..<length node_features]"
    by (rule nth_equalityI) simp_all
  then have "node_model self node_features edge_features edge_index
           = Inr (map (\<lambda>a. node_mlp self (node_features ! a
                        @ mean_rows (cl_hidden_dim self)
                            (source_edges edge_index edge_features a)))
                    [0..<length node_features])"
    unfolding node_model_def
      scatter_mean_total [OF len idx w, of "snd edge_index", unfolded s]
    by (simp only: ebind_Inr Let_def)
  then show ?thesis by (simp add: mean_rows_def)
qed

theorem node_model_mean_aggregation_witness:
  "node_model example_layer [[1], [2]] [[4], [6]] ([0, 0], [0, 1]) = Inr [[6], [2]]
   \<and> source_edges ([0, 0], [0, 1]) [[4], [6]] 0 = [[4], [6]]
   \<and> mean_rows 1 [[4], [6]] = [5]
   \<and> source_edges ([0, 0], [0, 1]) [[4], [6]] 1 = []
   \<and> mean_rows 1 [] = [0]"
proof -
  have len: "length (fst ([0, 0 :: nat], [0, 1 :: nat])) = length [[4], [6 :: real]]" by simp
  have idx: "list_all (\<lambda>i. i < length [[1], [2 :: real]]) (fst ([0, 0 :: nat], [0, 1 :: nat]))"
    by simp
  have w: "\<forall>r\<in>set [[4], [6 :: real]]. length r = cl_hidden_dim example_layer"
    by (simp add: example_layer_def)
  have i0: "source_edges ([0, 0], [0, 1]) [[4], [6]] 0 = [[4], [6]]"
    and i1: "source_edges ([0, 0], [0, 1]) [[4], [6]] 1 = []"
    by (simp_all add: source_edges_def)
  have m: "mean_rows 1 [[4], [6]] = [5]" "mean_rows 1 [] = [0]"
    by (simp_all add: mean_rows_def)
  from node_model_mean_aggregation [OF len idx w] i0 i1 m show ?thesis
    by (simp add: example_layer_def numeral_2_eq_2)
qed

section \<open>Where a missing prediction level is rejected\<close>

text \<open>
  C8, as stated, fails in its second half: with neither prediction level configured (the
  constructor's defaults) \<open>CSPNet.__init__\<close> returns a network and raises nothing.
\<close>

theorem construction_accepts_no_prediction_level_counterexample:
  "\<not> arg_pred_graph_level default_args \<and> \<not> arg_pred_node_level default_args
   \<and> \<not> isl (CSPNet_init default_args example_weights no_knn)"
  by (simp add: CSPNet_init_def default_args_def)

lemma enabled_head_neither:
  "\<not> dec_pred_graph_level dec \<Longrightarrow> \<not> dec_pred_node_level dec
     \<Longrightarrow> enabled_head dec g n = Inl ValueError"
  by (simp add: enabled_head_def)

lemma isl_ebind: "(\<And>v. isl (f v)) \<Longrightarrow> isl (ebind m f)"
  by (cases m) simp_all

lemma infer_neither:
  assumes n: "\<not> dec_pred_graph_level (decoder self) \<and> \<not> dec_pred_node_level (decoder self)"
    and te: "time_embedding (time_dim self) ts = Inr te"
    and oh: "one_hot (map (\<lambda>a. a - 1) (b_atom_types b)) (MAX_ATOMIC_NUM self) = Inr oh"
    and dc: "dec_call (decoder self) (zeros_like te) oh (b_frac_coords b)
               (lattice_params_to_matrix_torch self (b_lengths b) (b_angles b))
               (b_num_atoms b) (b_batch b) = Inr out"
  shows "infer self b ts = Inl ValueError"
  using n te oh dc by (cases out) (simp add: infer_def enabled_head_neither)

lemma reverse_step_neither:
  assumes n: "\<not> dec_pred_graph_level (decoder self) \<and> \<not> dec_pred_node_level (decoder self)"
  shows "isl (reverse_step update self uncod batch step_lr aug l_T x_T t_T noise t traj)"
  unfolding reverse_step_def Let_def
  by (auto intro!: isl_ebind simp: enabled_head_neither n split: option.splits)

lemma with_graph_level_fields [simp]:
  "beta_scheduler (with_graph_level self) = beta_scheduler self"
  "sigma_scheduler (with_graph_level self) = sigma_scheduler self"
  "time_dim (with_graph_level self) = time_dim self"
  "time_independent (with_graph_level self) = time_independent self"
  "latent_dim (with_graph_level self) = latent_dim self"
  "MAX_ATOMIC_NUM (with_graph_level self) = MAX_ATOMIC_NUM self"
  "lattice_params_to_matrix_torch (with_graph_level self) = lattice_params_to_matrix_torch self"
  "guidance_grad (with_graph_level self) = guidance_grad self"
  "dec_call (decoder (with_graph_level self)) = dec_call (decoder self)"
  by (simp_all add: with_graph_level_def)

lemma reverse_step_value_error:
  assumes n: "\<not> dec_pred_graph_level (decoder self) \<and> \<not> dec_pred_node_level (decoder self)"
    and ok: "reverse_step update (with_graph_level self) uncod batch step_lr aug l_T x_T t_T
               noise t traj = Inr traj'"
  shows "reverse_step update self uncod batch step_lr aug l_T x_T t_T noise t traj
           = Inl ValueError"
  using ok unfolding reverse_step_def Let_def
  by (auto simp: ebind_eq_Inr enabled_head_neither n split: if_splits option.splits)

lemma sample_init_with_graph_level:
  "sample_init (with_graph_level self) batch diff_ratio d = sample_init self batch diff_ratio d"
  by (simp add: sample_init_def)

lemma sample_traj_neither:
  assumes n: "\<not> dec_pred_graph_level (decoder self) \<and> \<not> dec_pred_node_level (decoder self)"
    and init: "sample_init self batch diff_ratio d = Inr (ts, l_T, x_T, t_T, traj0)"
    and pos: "0 < ts"
  shows "isl (sample_traj update self uncod batch diff_ratio step_lr aug d noise)"
proof -
  from pos obtain k where k: "nat ts = Suc k" by (cases "nat ts") auto
  obtain e where "reverse_step update self uncod batch step_lr aug l_T x_T t_T noise (Suc k) traj0
      = Inl e"
    using reverse_step_neither [OF n, of update uncod batch step_lr aug l_T x_T t_T noise
        "Suc k" traj0]
    by (auto simp: isl_def)
  then show ?thesis by (simp add: sample_traj_def init k)
qed

lemma sample_traj_value_error:
  assumes n: "\<not> dec_pred_graph_level (decoder self) \<and> \<not> dec_pred_node_level (decoder self)"
    and init: "sample_init self batch diff_ratio d = Inr (ts, l_T, x_T, t_T, traj0)"
    and pos: "0 < ts"
    and ok: "sample_traj update (with_graph_level self) uncod batch diff_ratio step_lr aug d noise
               = Inr r"
  shows "sample_traj update self uncod batch diff_ratio step_lr aug d noise = Inl ValueError"
proof -
  from pos obtain k where k: "nat ts = Suc k" by (cases "nat ts") auto
  from ok obtain traj1 where
    "reverse_step update (with_graph_level self) uncod batch step_lr aug l_T x_T t_T noise
       (Suc k) traj0 = Inr traj1"
    by (auto simp: sample_traj_def sample_init_with_graph_level init k ebind_eq_Inr)
  from reverse_step_value_error [OF n this] show ?thesis
    by (simp add: sample_traj_def init k)
qed

lemma sample_traj_no_step:
  assumes init: "sample_init self batch diff_ratio d = Inr (ts, l_T, x_T, t_T, traj0)"
    and "ts \<le> 0"
  shows "sample_traj update self uncod batch diff_ratio step_lr aug d noise = Inr (ts, traj0)"
  using assms by (simp add: sample_traj_def)

lemma isl_ebind_left: "isl m \<Longrightarrow> isl (ebind m f)"
  by (cases m) simp_all

lemma ebind_isr: "ebind m f = Inr r \<Longrightarrow> \<exists>v. m = Inr v"
  by (cases m) simp_all

text \<open>
  C8, amended: a prediction level with no \<open>pred_dim\<close> makes the constructor raise (the
  ValueError of its check whenever the layers could be built); with neither level the
  constructor succeeds, and the error is raised by the diffusion module instead.
  \<open>forward\<close> and \<open>infer\<close> never return, and raise ValueError once the decoder has returned.
  Every reverse step of \<open>sample\<close> and \<open>masked_sample\<close> fails, and with ValueError whenever
  the same step goes through with the graph level switched on; so a sampling run that
  starts at a timestep above \<open>0\<close> never returns, and raises ValueError whenever the same
  run returns with the graph level switched on.  A sampling run that starts at timestep
  \<open>0\<close> makes no reverse step and is not checked: it returns its initial state.
\<close>

theorem prediction_level_errors:
  "((arg_pred_graph_level a \<or> arg_pred_node_level a) \<and> arg_pred_dim a = None \<longrightarrow>
      isl (CSPNet_init a w knn)
      \<and> (layers_buildable a \<longrightarrow> CSPNet_init a w knn = Inl ValueError))
   \<and> (\<not> arg_pred_graph_level a \<and> \<not> arg_pred_node_level a \<and> \<not> arg_cfg a \<and> layers_buildable a
        \<longrightarrow> \<not> isl (CSPNet_init a w knn))
   \<and> (\<not> dec_pred_graph_level (decoder self) \<and> \<not> dec_pred_node_level (decoder self) \<longrightarrow>
        isl (CSPProperty_forward self b ts rand_l rand_x rand_t)
        \<and> isl (infer self b ts)
        \<and> (forward_inputs self b ts rand_l rand_x rand_t = Inr (te, ap, x, l)
             \<and> dec_call (decoder self) te ap x l (b_num_atoms b) (b_batch b) = Inr out
            \<longrightarrow> CSPProperty_forward self b ts rand_l rand_x rand_t = Inl ValueError)
        \<and> (time_embedding (time_dim self) ts = Inr te'
             \<and> one_hot (map (\<lambda>a. a - 1) (b_atom_types b)) (MAX_ATOMIC_NUM self) = Inr oh
             \<and> dec_call (decoder self) (zeros_like te') oh (b_frac_coords b)
                  (lattice_params_to_matrix_torch self (b_lengths b) (b_angles b))
                  (b_num_atoms b) (b_batch b) = Inr out'
            \<longrightarrow> infer self b ts = Inl ValueError)
        \<and> isl (reverse_step update self uncod b step_lr aug l_T x_T t_T noise t traj)
        \<and> (reverse_step update (with_graph_level self) uncod b step_lr aug l_T x_T t_T noise
              t traj = Inr traj'
            \<longrightarrow> reverse_step update self uncod b step_lr aug l_T x_T t_T noise t traj
                  = Inl ValueError)
        \<and> (sample_init self b diff_ratio d = Inr (time_start, l0, x0, t0, traj0) \<longrightarrow>
             (0 < time_start \<longrightarrow>
                isl (sample self uncod b diff_ratio step_lr aug d noise)
                \<and> isl (masked_sample self uncod b diff_ratio step_lr aug mask' d noise)
                \<and> (sample (with_graph_level self) uncod b diff_ratio step_lr aug d noise = Inr r
                    \<longrightarrow> sample self uncod b diff_ratio step_lr aug d noise = Inl ValueError)
                \<and> (masked_sample (with_graph_level self) uncod b diff_ratio step_lr aug mask' d
                      noise = Inr r'
                    \<longrightarrow> masked_sample self uncod b diff_ratio step_lr aug mask' d noise
                          = Inl ValueError))
             \<and> (time_start \<le> 0 \<longrightarrow>
                  sample self uncod b diff_ratio step_lr aug d noise
                    = sample_finish b time_start traj0
                  \<and> masked_sample self uncod b diff_ratio step_lr aug mask' d noise
                    = sample_finish b time_start traj0)))"
proof (intro conjI impI)
  assume h: "(arg_pred_graph_level a \<or> arg_pred_node_level a) \<and> arg_pred_dim a = None"
  then show "isl (CSPNet_init a w knn)" by (auto simp: CSPNet_init_def)
  assume "layers_buildable a"
  with h show "CSPNet_init a w knn = Inl ValueError"
    by (auto simp: CSPNet_init_def layers_buildable_def)
next
  assume "\<not> arg_pred_graph_level a \<and> \<not> arg_pred_node_level a \<and> \<not> arg_cfg a \<and> layers_buildable a"
  then show "\<not> isl (CSPNet_init a w knn)"
    by (auto simp: CSPNet_init_def layers_buildable_def)
next
  assume n: "\<not> dec_pred_graph_level (decoder self) \<and> \<not> dec_pred_node_level (decoder self)"
  show "isl (CSPProperty_forward self b ts rand_l rand_x rand_t)"
    unfolding CSPProperty_forward_def
    by (auto intro!: isl_ebind simp: enabled_head_neither n)
  show "isl (infer self b ts)"
    unfolding infer_def Let_def
    by (auto intro!: isl_ebind simp: enabled_head_neither n)
  show "isl (reverse_step update self uncod b step_lr aug l_T x_T t_T noise t traj)"
    by (rule reverse_step_neither [OF n])
  {
    assume "forward_inputs self b ts rand_l rand_x rand_t = Inr (te, ap, x, l)
      \<and> dec_call (decoder self) te ap x l (b_num_atoms b) (b_batch b) = Inr out"
    then show "CSPProperty_forward self b ts rand_l rand_x rand_t = Inl ValueError"
      by (cases out) (simp add: CSPProperty_forward_def enabled_head_neither n)
  }
  {
    assume "time_embedding (time_dim self) ts = Inr te'
             \<and> one_hot (map (\<lambda>a. a - 1) (b_atom_types b)) (MAX_ATOMIC_NUM self) = Inr oh
             \<and> dec_call (decoder self) (zeros_like te') oh (b_frac_coords b)
                  (lattice_params_to_matrix_torch self (b_lengths b) (b_angles b))
                  (b_num_atoms b) (b_batch b) = Inr out'"
    then show "infer self b ts = Inl ValueError"
      using infer_neither [OF n] by blast
  }
  {
    assume "reverse_step update (with_graph_level self) uncod b step_lr aug l_T x_T t_T noise
              t traj = Inr traj'"
    then show "reverse_step update self uncod b step_lr aug l_T x_T t_T noise t traj
                  = Inl ValueError"
      by (rule reverse_step_value_error [OF n])
  }
  assume init: "sample_init self b diff_ratio d = Inr (time_start, l0, x0, t0, traj0)"
  {
    assume z: "time_start \<le> 0"
    show "sample self uncod b diff_ratio step_lr aug d noise = sample_finish b time_start traj0"
      by (simp add: sample_def sample_traj_no_step [OF init z])
    show "masked_sample self uncod b diff_ratio step_lr aug mask' d noise
        = sample_finish b time_start traj0"
      by (simp add: masked_sample_def sample_traj_no_step [OF init z])
  }
  assume pos: "0 < time_start"
  show "isl (sample self uncod b diff_ratio step_lr aug d noise)"
    unfolding sample_def by (rule isl_ebind_left) (rule sample_traj_neither [OF n init pos])
  show "isl (masked_sample self uncod b diff_ratio step_lr aug mask' d noise)"
    unfolding masked_sample_def
    by (rule isl_ebind_left) (rule sample_traj_neither [OF n init pos])
  {
    assume ok: "sample (with_graph_level self) uncod b diff_ratio step_lr aug d noise = Inr r"
    from ebind_isr [OF ok [unfolded sample_def]] obtain v where
      "sample_traj sample_update (with_graph_level self) uncod b diff_ratio step_lr aug d noise
         = Inr v" by blast
    from sample_traj_value_error [OF n init pos this]
    show "sample self uncod b diff_ratio step_lr aug d noise = Inl ValueError"
      by (simp add: sample_def)
  }
  {
    assume ok: "masked_sample (with_graph_level self) uncod b diff_ratio step_lr aug mask' d
                  noise = Inr r'"
    from ebind_isr [OF ok [unfolded masked_sample_def]] obtain v where
      "sample_traj (masked_update mask') (with_graph_level self) uncod b diff_ratio step_lr aug
         d noise = Inr v" by blast
    from sample_traj_value_error [OF n init pos this]
    show "masked_sample self uncod b diff_ratio step_lr aug mask' d noise = Inl ValueError"
      by (simp add: masked_sample_def)
  }
qed

lemma example_forward_inputs:
  "forward_inputs (example_module g n False) example_batch [1]
     [[[0, 0, 0], [0, 0, 0], [0, 0, 0]]] [[1/4, 0, 0]] [[0, 0]]
   = Inr ([[]], [[0, 0]], [[3/4, 1/2, 1/2]], [[[0, 0, 0], [0, 0, 0], [0, 0, 0]]])"
  by (simp add: forward_inputs_def example_module_def example_batch_def time_embedding_def
      index_select_def scale_mats_def scale_rows_def mats_add_def mat_add_def same_shape_def
      same_shape3_def repeat_interleave_def one_hot_def smul_def mod1_def fmod1_def Let_def
      numeral_2_eq_2)

lemma example_with_graph_level:
  "with_graph_level (example_module False False False) = example_module True False False"
  by (simp add: with_graph_level_def example_module_def example_decoder_def)

lemma example_init_neither:
  "sample_init (example_module False False False) example_batch 1 example_draws
     = Inr (1, [[[1, 0, 0], [0, 1, 0], [0, 0, 1]]], [[13/10, 0, 0]], [[0, 1]],
            [1 \<mapsto> example_snapshot])"
  by (simp add: sample_init_def example_module_def example_batch_def example_draws_def
      example_snapshot_def wrap_f32_def remainder_f32_def c_fmod1_def)

lemma example_init_no_step:
  "sample_init (example_module False False False) example_batch (1/2) example_draws
     = Inr (0, [[[1, 0, 0], [0, 1, 0], [0, 0, 1]]], [[1/2, 1/2, 1/2]], [[1, 0]],
            [0 \<mapsto> \<lparr>s_num_atoms = [1], s_atom_types = [[1, 0]],
                    s_frac_coords = [[1/2, 1/2, 1/2]],
                    s_lattices = [[[1, 0, 0], [0, 1, 0], [0, 0, 1]]]\<rparr>])"
  by (simp add: sample_init_def example_module_def example_batch_def example_draws_def
      py_int_def one_hot_def table_get_def mats_add_def mat_add_def same_shape_def
      same_shape3_def smul_def smul3_def wrap_f32_def remainder_f32_def c_fmod1_def Let_def numeral_2_eq_2)

lemma example_finish_no_step:
  "sample_finish example_batch 0
     [0 \<mapsto> \<lparr>s_num_atoms = [1], s_atom_types = [[1, 0]],
             s_frac_coords = [[1/2, 1/2, 1/2]],
             s_lattices = [[[1, 0, 0], [0, 1, 0], [0, 0, 1]]]\<rparr>]
   = Inr (example_result_no_step, example_stack_no_step)"
  by (simp add: sample_finish_def range_down_def traj_get_def argmax_plus_1_def argmax_def
      example_result_no_step_def example_stack_no_step_def example_batch_def Let_def)

theorem prediction_level_errors_witness:
  "CSPNet_init (default_args\<lparr>arg_pred_graph_level := True\<rparr>) example_weights no_knn
     = Inl ValueError
   \<and> \<not> isl (CSPNet_init default_args example_weights no_knn)
   \<and> CSPProperty_forward (example_module False False False) example_batch [1]
        [[[0, 0, 0], [0, 0, 0], [0, 0, 0]]] [[1/4, 0, 0]] [[0, 0]] = Inl ValueError
   \<and> infer (example_module False False False) example_batch [1] = Inl ValueError
   \<and> sample (example_module True False False) (example_decoder True False)
        example_batch 1 0 0 example_draws example_noise = Inr (example_result, example_stack)
   \<and> sample (example_module False False False) (example_decoder True False)
        example_batch 1 0 0 example_draws example_noise = Inl ValueError
   \<and> sample (example_module False False False) (example_decoder True False)
        example_batch (1/2) 0 0 example_draws example_noise
       = Inr (example_result_no_step, example_stack_no_step)"
proof -
  have d: "dec_call (decoder (example_module False False False)) [[]] [[0, 0]]
      [[3/4, 1/2, 1/2]] [[[0, 0, 0], [0, 0, 0], [0, 0, 0]]]
      (b_num_atoms example_batch) (b_batch example_batch)
    = Inr ([[3/4, 1/2, 1/2]], [[[0, 0, 0], [0, 0, 0], [0, 0, 0]]], Some [[0, 0]],
           Some [[7/4]], None)"
    by (simp add: example_module_def example_decoder_def)
  have n: "\<not> dec_pred_graph_level (decoder (example_module False False False))
      \<and> \<not> dec_pred_node_level (decoder (example_module False False False))"
    by (simp add: example_module_def example_decoder_def)
  have te: "time_embedding (time_dim (example_module False False False)) [1] = Inr [[]]"
    by (simp add: time_embedding_def example_module_def)
  have oh: "one_hot (map (\<lambda>a. a - 1) (b_atom_types example_batch))
      (MAX_ATOMIC_NUM (example_module False False False)) = Inr [[1, 0]]"
    by (simp add: one_hot_def example_module_def example_batch_def numeral_2_eq_2)
  have d': "dec_call (decoder (example_module False False False)) (zeros_like [[]]) [[1, 0]]
      (b_frac_coords example_batch)
      (lattice_params_to_matrix_torch (example_module False False False)
         (b_lengths example_batch) (b_angles example_batch))
      (b_num_atoms example_batch) (b_batch example_batch)
    = Inr ([[1/2, 1/2, 1/2]], [[[1, 0, 0], [0, 1, 0], [0, 0, 1]]], Some [[1, 0]],
           Some [[3/2]], None)"
    by (simp add: example_module_def example_decoder_def example_batch_def zeros_like_def)
  have 1: "CSPNet_init (default_args\<lparr>arg_pred_graph_level := True\<rparr>) example_weights no_knn
      = Inl ValueError"
    using prediction_level_errors [where a = "default_args\<lparr>arg_pred_graph_level := True\<rparr>"
        and w = example_weights and knn = no_knn]
    by (simp add: default_args_def layers_buildable_def)
  have 2: "\<not> isl (CSPNet_init default_args example_weights no_knn)"
    using prediction_level_errors [where a = default_args and w = example_weights
        and knn = no_knn]
    by (simp add: default_args_def layers_buildable_def)
  have 3: "CSPProperty_forward (example_module False False False) example_batch [1]
        [[[0, 0, 0], [0, 0, 0], [0, 0, 0]]] [[1/4, 0, 0]] [[0, 0]] = Inl ValueError"
    using prediction_level_errors [where self = "example_module False False False"
        and b = example_batch and ts = "[1]" and rand_l = "[[[0, 0, 0], [0, 0, 0], [0, 0, 0]]]"
        and rand_x = "[[1/4, 0, 0]]" and rand_t = "[[0, 0]]" and te = "[[]]" and ap = "[[0, 0]]"
        and x = "[[3/4, 1/2, 1/2]]" and l = "[[[0, 0, 0], [0, 0, 0], [0, 0, 0]]]"]
      n example_forward_inputs [of False False] d
    by simp
  have 4: "infer (example_module False False False) example_batch [1] = Inl ValueError"
    using prediction_level_errors [where self = "example_module False False False"
        and b = example_batch and ts = "[1]" and te' = "[[]]" and oh = "[[1, 0]]"]
      n te oh d'
    by simp
  have 5: "sample (example_module False False False) (example_decoder True False)
        example_batch 1 0 0 example_draws example_noise = Inl ValueError"
    using prediction_level_errors [where self = "example_module False False False"
        and b = example_batch and diff_ratio = 1 and d = example_draws and time_start = 1
        and uncod = "example_decoder True False" and step_lr = 0 and aug = 0
        and noise = example_noise and r = "(example_result, example_stack)"]
      n example_init_neither example_sample
    by (simp add: example_with_graph_level)
  have 6: "sample (example_module False False False) (example_decoder True False)
        example_batch (1/2) 0 0 example_draws example_noise
       = Inr (example_result_no_step, example_stack_no_step)"
    using prediction_level_errors [where self = "example_module False False False"
        and b = example_batch and diff_ratio = "1/2" and d = example_draws and time_start = 0
        and uncod = "example_decoder True False" and step_lr = 0 and aug = 0
        and noise = example_noise]
      n example_init_no_step example_finish_no_step
    by simp
  from 1 2 3 4 5 6 example_sample show ?thesis by simp
qed

section \<open>The training step\<close>

lemma index_select_Inr:
  "index_select xs idx = Inr ys \<Longrightarrow> ys = map (\<lambda>i. xs ! i) idx"
  by (auto simp: index_select_def split: if_splits)

lemma repeat_interleave_expansion:
  assumes "repeat_interleave xs ns = Inr ys" and "length ns = length xs"
  shows "ys = map (\<lambda>g. xs ! g) (run_length_expansion ns)"
proof -
  have ys: "ys = concat (map2 replicate ns xs)"
    using assms by (simp add: repeat_interleave_def)
  have "map2 replicate ns xs = map (map (\<lambda>g. xs ! g)) (map2 replicate ns [0..<length ns])"
    by (rule nth_equalityI) (simp_all add: assms(2))
  then show ?thesis unfolding ys run_length_expansion_def by (simp add: map_concat)
qed

lemma run_length_expansion_bound:
  "g \<in> set (run_length_expansion ns) \<Longrightarrow> g < length ns"
  by (auto simp: run_length_expansion_def set_zip)

lemma zip_zip_same:
  "zip (zip xs ys) (zip xs zs) = map (\<lambda>(x, y, z). ((x, y), (x, z))) (zip xs (zip ys zs))"
proof (induction xs arbitrary: ys zs)
  case Nil
  then show ?case by simp
next
  case (Cons x xs)
  then show ?case by (cases ys; cases zs) simp_all
qed

lemma coords_fuse:
  "map (map fmod1) (map2 (map2 (+)) X (map2 (\<lambda>s r. map (\<lambda>v. s * v) r) (map f G) R))
     = map (\<lambda>(x, g, e). map2 (\<lambda>u v. fmod1 (u + f g * v)) x e) (zip X (zip G R))"
  by (simp add: zip_map1 zip_map2 split_def comp_def)

lemma lattice_fuse:
  "map2 (map2 (map2 (+))) (map2 smul (map f T) L) (map2 smul (map h T) E)
     = map (\<lambda>(t, L, E). map2 (map2 (\<lambda>u v. f t * u + h t * v)) L E) (zip T (zip L E))"
  unfolding smul_def
  by (simp add: zip_map1 zip_map2 zip_zip_same split_def comp_def)

lemma types_fuse:
  "map2 (map2 (+))
     (map2 (\<lambda>s r. map (\<lambda>v. s * v) r) (map f G)
        (map (\<lambda>i. map (\<lambda>c. if int c = i then 1 else 0) [0..<M]) (map (\<lambda>a. a - 1) A)))
     (map2 (\<lambda>s r. map (\<lambda>v. s * v) r) (map h G) R)
   = map (\<lambda>(g, a, e). map2 (\<lambda>c v. f g * (if int c = a - 1 then 1 else 0) + h g * v) [0..<M] e)
       (zip G (zip A R))"
  by (simp add: zip_map1 zip_map2 zip_zip_same split_def comp_def)

lemma forward_inputs_steps:
  assumes ti: "\<not> time_independent self"
    and ok: "forward_inputs self batch ts rand_l rand_x rand_t = Inr (te, ap, x, l)"
  shows "\<exists>acs sgs spa c0r c1r.
      time_embedding (time_dim self) ts = Inr te
    \<and> index_select (alphas_cumprod (beta_scheduler self)) ts = Inr acs
    \<and> index_select (sigmas (sigma_scheduler self)) ts = Inr sgs
    \<and> repeat_interleave sgs (b_num_atoms batch) = Inr spa
    \<and> repeat_interleave (map sqrt acs) (b_num_atoms batch) = Inr c0r
    \<and> repeat_interleave (map (\<lambda>a. sqrt (1 - a)) acs) (b_num_atoms batch) = Inr c1r
    \<and> l = map2 (map2 (map2 (+)))
            (map2 smul (map sqrt acs)
               (lattice_params_to_matrix_torch self (b_lengths batch) (b_angles batch)))
            (map2 smul (map (\<lambda>a. sqrt (1 - a)) acs) rand_l)
    \<and> x = map (map fmod1) (map2 (map2 (+)) (b_frac_coords batch)
            (map2 (\<lambda>s r. map (\<lambda>v. s * v) r) spa rand_x))
    \<and> ap = map2 (map2 (+))
            (map2 (\<lambda>s r. map (\<lambda>v. s * v) r) c0r
               (map (\<lambda>i. map (\<lambda>c. if int c = i then 1 else 0) [0..<MAX_ATOMIC_NUM self])
                  (map (\<lambda>a. a - 1) (b_atom_types batch))))
            (map2 (\<lambda>s r. map (\<lambda>v. s * v) r) c1r rand_t)"
  using ok ti unfolding forward_inputs_def Let_def
  by (auto simp: ebind_eq_Inr mod1_def scale_mats_def scale_rows_def mats_add_def mat_add_def
      one_hot_def split: if_splits)

lemma per_atom_values:
  assumes sel: "index_select tab ts = Inr vals"
    and rep: "repeat_interleave (map f vals) ns = Inr per_atom"
    and len: "length ts = length ns"
  shows "per_atom = map (\<lambda>g. f (tab ! (ts ! g))) (run_length_expansion ns)"
proof -
  have vals: "vals = map (\<lambda>i. tab ! i) ts" using index_select_Inr [OF sel] .
  have l: "length ns = length (map f vals)" unfolding vals using len by simp
  have "per_atom = map (\<lambda>g. map f vals ! g) (run_length_expansion ns)"
    using repeat_interleave_expansion [OF rep l] .
  also have "\<dots> = map (\<lambda>g. f (tab ! (ts ! g))) (run_length_expansion ns)"
  proof (rule map_cong [OF refl])
    fix g assume "g \<in> set (run_length_expansion ns)"
    then have "g < length ts" using run_length_expansion_bound [of g ns] len by simp
    then show "map f vals ! g = f (tab ! (ts ! g))" unfolding vals by simp
  qed
  finally show ?thesis .
qed

lemma forward_inputs_corrupts:
  assumes ti: "\<not> time_independent self"
    and ok: "forward_inputs self batch ts rand_l rand_x rand_t = Inr (te, ap, x, l)"
    and rl: "b_batch batch = run_length_expansion (b_num_atoms batch)"
    and len: "length ts = length (b_num_atoms batch)"
  shows "time_embedding (time_dim self) ts = Inr te"
    and "x = claimed_x_t self batch ts rand_x"
    and "l = claimed_l_t self batch ts rand_l"
    and "ap = claimed_types_t self batch ts rand_t"
proof -
  from forward_inputs_steps [OF ti ok] obtain acs sgs spa c0r c1r where
    te: "time_embedding (time_dim self) ts = Inr te" and
    acs: "index_select (alphas_cumprod (beta_scheduler self)) ts = Inr acs" and
    sgs: "index_select (sigmas (sigma_scheduler self)) ts = Inr sgs" and
    spa: "repeat_interleave sgs (b_num_atoms batch) = Inr spa" and
    c0r: "repeat_interleave (map sqrt acs) (b_num_atoms batch) = Inr c0r" and
    c1r: "repeat_interleave (map (\<lambda>a. sqrt (1 - a)) acs) (b_num_atoms batch) = Inr c1r" and
    l: "l = map2 (map2 (map2 (+)))
            (map2 smul (map sqrt acs)
               (lattice_params_to_matrix_torch self (b_lengths batch) (b_angles batch)))
            (map2 smul (map (\<lambda>a. sqrt (1 - a)) acs) rand_l)" and
    x: "x = map (map fmod1) (map2 (map2 (+)) (b_frac_coords batch)
            (map2 (\<lambda>s r. map (\<lambda>v. s * v) r) spa rand_x))" and
    ap: "ap = map2 (map2 (+))
            (map2 (\<lambda>s r. map (\<lambda>v. s * v) r) c0r
               (map (\<lambda>i. map (\<lambda>c. if int c = i then 1 else 0) [0..<MAX_ATOMIC_NUM self])
                  (map (\<lambda>a. a - 1) (b_atom_types batch))))
            (map2 (\<lambda>s r. map (\<lambda>v. s * v) r) c1r rand_t)"
    by blast
  show "time_embedding (time_dim self) ts = Inr te" by (rule te)
  have spa': "spa = map (\<lambda>g. sigmas (sigma_scheduler self) ! (ts ! g)) (b_batch batch)"
    using per_atom_values [OF sgs _ len, of "\<lambda>v. v" spa] spa unfolding rl by simp
  have c0r': "c0r = map (\<lambda>g. sqrt (alphas_cumprod (beta_scheduler self) ! (ts ! g)))
                      (b_batch batch)"
    using per_atom_values [OF acs c0r len] unfolding rl .
  have c1r': "c1r = map (\<lambda>g. sqrt (1 - alphas_cumprod (beta_scheduler self) ! (ts ! g)))
                      (b_batch batch)"
    using per_atom_values [OF acs c1r len] unfolding rl .
  have acs': "acs = map (\<lambda>t. alphas_cumprod (beta_scheduler self) ! t) ts"
    using index_select_Inr [OF acs] .
  show "x = claimed_x_t self batch ts rand_x"
    unfolding x spa' claimed_x_t_def by (rule coords_fuse)
  have "l = map2 (map2 (map2 (+)))
            (map2 smul (map (\<lambda>t. sqrt (alphas_cumprod (beta_scheduler self) ! t)) ts)
               (lattice_params_to_matrix_torch self (b_lengths batch) (b_angles batch)))
            (map2 smul (map (\<lambda>t. sqrt (1 - alphas_cumprod (beta_scheduler self) ! t)) ts) rand_l)"
    unfolding l acs' by (simp add: comp_def)
  then show "l = claimed_l_t self batch ts rand_l"
    unfolding claimed_l_t_def by (simp only: lattice_fuse)
  show "ap = claimed_types_t self batch ts rand_t"
    unfolding ap c0r' c1r' claimed_types_t_def by (rule types_fuse)
qed

text \<open>
  C2, as stated, fails for a module configured as time independent: \<open>forward\<close> then feeds
  the clean state to the decoder, and its loss (3/2 here) is not the L1 distance on the
  corrupted state (7/4).
\<close>

theorem forward_time_independent_counterexample:
  "time_independent (example_module True False True)
   \<and> CSPProperty_forward (example_module True False True) example_batch [1]
        [[[0, 0, 0], [0, 0, 0], [0, 0, 0]]] [[1/4, 0, 0]] [[0, 0]] = Inr (3/2)
   \<and> claimed_loss (example_module True False True) example_batch [1]
        [[[0, 0, 0], [0, 0, 0], [0, 0, 0]]] [[1/4, 0, 0]] [[0, 0]] = Inr (7/4)"
  by (simp add: CSPProperty_forward_def claimed_loss_def claimed_x_t_def claimed_l_t_def
      claimed_types_t_def forward_inputs_def example_module_def example_decoder_def
      example_batch_def time_embedding_def index_select_def scale_mats_def scale_rows_def
      mats_add_def mat_add_def same_shape_def same_shape3_def repeat_interleave_def one_hot_def
      smul_def mod1_def fmod1_def zeros_like_def enabled_head_def prediction_def l1_loss_def
      Let_def numeral_2_eq_2)

text \<open>
  C2, amended: when the module is not time independent and \<open>forward\<close> returns a loss, that
  loss is the L1 distance between the enabled head's prediction on the corrupted state
  (coordinates \<open>(x_0 + sigma(t) * eps) mod 1\<close>, lattice and one-hot types
  \<open>sqrt(alphas_cumprod(t)) * v_0 + sqrt(1 - alphas_cumprod(t)) * eps\<close>, each with the
  timestep of its structure) and \<open>batch.y\<close>.  The batch index is the run-length expansion
  of the atom counts, and one timestep is drawn per structure.
\<close>

theorem forward_corrupts_then_l1:
  assumes ti: "\<not> time_independent self"
    and run: "CSPProperty_forward self batch ts rand_l rand_x rand_t = Inr loss"
    and rl: "b_batch batch = run_length_expansion (b_num_atoms batch)"
    and len: "length ts = length (b_num_atoms batch)"
  shows "claimed_loss self batch ts rand_l rand_x rand_t = Inr loss"
proof -
  from run obtain te ap x l out p where
    fi: "forward_inputs self batch ts rand_l rand_x rand_t = Inr (te, ap, x, l)" and
    dc: "dec_call (decoder self) te ap x l (b_num_atoms batch) (b_batch batch) = Inr out" and
    hd: "enabled_head (decoder self) (fst (snd (snd (snd out)))) (snd (snd (snd (snd out))))
           = Inr p" and
    l1: "l1_loss p (b_y batch) = Inr loss"
    unfolding CSPProperty_forward_def by (auto simp: ebind_eq_Inr)
  note c = forward_inputs_corrupts [OF ti fi rl len]
  show ?thesis
    unfolding claimed_loss_def using c(1) dc hd l1 unfolding c(2-4) by simp
qed

theorem forward_corrupts_then_l1_witness:
  "\<not> time_independent (example_module True False False)
   \<and> CSPProperty_forward (example_module True False False) example_batch [1]
        [[[0, 0, 0], [0, 0, 0], [0, 0, 0]]] [[1/4, 0, 0]] [[0, 0]] = Inr (7/4)
   \<and> b_batch example_batch = run_length_expansion (b_num_atoms example_batch)
   \<and> claimed_x_t (example_module True False False) example_batch [1] [[1/4, 0, 0]]
       = [[3/4, 1/2, 1/2]]
   \<and> claimed_loss (example_module True False False) example_batch [1]
        [[[0, 0, 0], [0, 0, 0], [0, 0, 0]]] [[1/4, 0, 0]] [[0, 0]] = Inr (7/4)"
proof -
  have ti: "\<not> time_independent (example_module True False False)"
    by (simp add: example_module_def)
  have run: "CSPProperty_forward (example_module True False False) example_batch [1]
        [[[0, 0, 0], [0, 0, 0], [0, 0, 0]]] [[1/4, 0, 0]] [[0, 0]] = Inr (7/4)"
    unfolding CSPProperty_forward_def example_forward_inputs
    by (simp add: example_module_def example_decoder_def example_batch_def enabled_head_def
        prediction_def l1_loss_def same_shape_def)
  have rl: "b_batch example_batch = run_length_expansion (b_num_atoms example_batch)"
    by (simp add: example_batch_def run_length_expansion_def)
  have len: "length [1 :: nat] = length (b_num_atoms example_batch)"
    by (simp add: example_batch_def)
  have x: "claimed_x_t (example_module True False False) example_batch [1] [[1/4, 0, 0]]
       = [[3/4, 1/2, 1/2]]"
    by (simp add: claimed_x_t_def example_module_def example_batch_def fmod1_def)
  from forward_corrupts_then_l1 [OF ti run rl len] ti run rl x show ?thesis by simp
qed

end
